theory Spec2Isabelle
  imports Complex_Main
begin

section \<open>Exceptions and the environment\<close>

text \<open>\<open>str(n)\<close> of an integer: its decimal numeral.\<close>

fun str_nat :: "nat \<Rightarrow> string" where
  "str_nat n =
     (if n < 10 then [''0123456789'' ! n]
      else str_nat (n div 10) @ [''0123456789'' ! (n mod 10)])"

declare str_nat.simps [simp del]

definition str_int :: "int \<Rightarrow> string" where
  "str_int i = (if i < 0 then CHR ''-'' # str_nat (nat (- i)) else str_nat (nat i))"

text \<open>\<open>repr(t)\<close> of a text \<open>t\<close> that holds no quote, no backslash and no unprintable
  character: the text between single quotes.\<close>

definition repr :: "string \<Rightarrow> string" where
  "repr t = [CHR 0x27] @ t @ [CHR 0x27]"

text \<open>
  The values of \<open>exn\<close> are the instances of Python's \<open>Exception\<close> that the two
  managers raise or receive from their libraries. Each carries the argument it was
  built from: a text, for \<open>KeyError\<close> the missing key, and for aiohttp's
  \<open>ClientResponseError\<close> the URL of the request, the status and the \<open>message\<close>
  argument. Signals outside \<open>Exception\<close> (\<open>KeyboardInterrupt\<close>, task cancellation)
  are outside the model, so \<open>except Exception\<close> catches every value of the type.
\<close>

datatype exn =
    Exception string
  | TypeError string
  | ValueError string
  | KeyError string
  | AttributeError string
  | ZeroDivisionError string
  | ClientResponseError string int string

text \<open>
  \<open>str(e)\<close>: the text argument; for a \<open>KeyError\<close> the \<open>repr\<close> of the key; for a
  \<open>ClientResponseError\<close> the status, the message and the URL, as
  \<open>404, message='HTTP 404', url='http://host/path'\<close>.
\<close>

fun str :: "exn \<Rightarrow> string" where
  "str (Exception m) = m"
| "str (TypeError m) = m"
| "str (ValueError m) = m"
| "str (KeyError k) = repr k"
| "str (AttributeError m) = m"
| "str (ZeroDivisionError m) = m"
| "str (ClientResponseError url st m) =
     str_int st @ '', message='' @ repr m @ '', url='' @ repr url"

text \<open>
  The environment: the wall clock that \<open>time.time()\<close> reads, the log of the durations
  passed to \<open>time.sleep\<close> / \<open>asyncio.sleep\<close> (oldest first), and the state of everything
  remote (the vector service, the cache server). Library calls are functions on it. The
  clock moves when a library call or a sleep moves it; reads with none of them in between
  give the same time.
\<close>

record 'r world =
  clock :: real
  slept :: "real list"
  remote :: 'r

section \<open>production_rag_manager.py\<close>

subsection \<open>CircuitBreaker\<close>

datatype ConnectionState = CLOSED | OPEN | HALF_OPEN

fun state_value :: "ConnectionState \<Rightarrow> string" where
  "state_value CLOSED = ''closed''"
| "state_value OPEN = ''open''"
| "state_value HALF_OPEN = ''half_open''"

text \<open>
  The fields \<open>cb_state\<close>, \<open>cb_failure_count\<close> and \<open>cb_last_failure_time\<close> are the
  attributes \<open>_state\<close>, \<open>_failure_count\<close> and \<open>_last_failure_time\<close>; the last one is
  \<open>None\<close> until the first failure. \<open>expected_exception\<close> is the class test of the
  \<open>except\<close> clause in \<open>call\<close> (the default class \<open>Exception\<close> accepts everything).
\<close>

record CircuitBreaker =
  failure_threshold :: int
  recovery_timeout :: real
  expected_exception :: "exn \<Rightarrow> bool"
  cb_state :: ConnectionState
  cb_failure_count :: int
  cb_last_failure_time :: "real option"

definition CircuitBreaker_init :: "int \<Rightarrow> real \<Rightarrow> CircuitBreaker" where
  "CircuitBreaker_init n t =
     \<lparr>failure_threshold = n, recovery_timeout = t, expected_exception = (\<lambda>e. True),
      cb_state = CLOSED, cb_failure_count = 0, cb_last_failure_time = None\<rparr>"

text \<open>\<open>_can_execute\<close>: \<open>now\<close> is the value \<open>time.time()\<close> returns. Subtracting the
  unset \<open>_last_failure_time\<close> (\<open>None\<close>) from it raises \<open>TypeError\<close>.\<close>

definition can_execute :: "CircuitBreaker \<Rightarrow> real \<Rightarrow> (exn + bool) \<times> CircuitBreaker" where
  "can_execute b now =
     (case cb_state b of
        CLOSED \<Rightarrow> (Inr True, b)
      | OPEN \<Rightarrow>
          (case cb_last_failure_time b of
             None \<Rightarrow>
               (Inl (TypeError (''unsupported operand type(s) for -: '' @ repr ''float'' @
                                '' and '' @ repr ''NoneType'')), b)
           | Some t \<Rightarrow>
               if now - t \<ge> recovery_timeout b
               then (Inr True, b\<lparr>cb_state := HALF_OPEN\<rparr>)
               else (Inr False, b))
      | HALF_OPEN \<Rightarrow> (Inr True, b))"

definition on_success :: "CircuitBreaker \<Rightarrow> CircuitBreaker" where
  "on_success b = b\<lparr>cb_failure_count := 0, cb_state := CLOSED\<rparr>"

definition on_failure :: "CircuitBreaker \<Rightarrow> real \<Rightarrow> CircuitBreaker" where
  "on_failure b now =
     (let b1 = b\<lparr>cb_failure_count := cb_failure_count b + 1,
                 cb_last_failure_time := Some now\<rparr>
      in if cb_failure_count b1 \<ge> failure_threshold b1
         then b1\<lparr>cb_state := OPEN\<rparr> else b1)"

subsection \<open>ConnectionPool\<close>

text \<open>A pool entry is the dictionary built in \<open>get_connection\<close>; a client object is
  identified by a number (its identity).\<close>

record Conn =
  client :: nat
  host :: string
  port :: int
  in_use :: bool
  created :: real
  last_used :: real

record ConnectionPool =
  max_connections :: int
  max_idle_time :: real
  connections :: "Conn list"

definition ConnectionPool_init :: "int \<Rightarrow> real \<Rightarrow> ConnectionPool" where
  "ConnectionPool_init n idle = \<lparr>max_connections = n, max_idle_time = idle, connections = []\<rparr>"

definition available :: "string \<Rightarrow> int \<Rightarrow> real \<Rightarrow> real \<Rightarrow> Conn \<Rightarrow> bool" where
  "available h p idle now conn =
     (host conn = h \<and> port conn = p \<and> \<not> in_use conn \<and> now - last_used conn < idle)"

text \<open>The scan of \<open>get_connection\<close>: the first available entry is marked in use and its
  client returned; \<open>None\<close> when the loop ends without a \<open>return\<close>.\<close>

fun take_available :: "string \<Rightarrow> int \<Rightarrow> real \<Rightarrow> real \<Rightarrow> Conn list \<Rightarrow> (nat \<times> Conn list) option" where
  "take_available h p idle now [] = None"
| "take_available h p idle now (conn # rest) =
     (if available h p idle now conn
      then Some (client conn, conn\<lparr>in_use := True, last_used := now\<rparr> # rest)
      else (case take_available h p idle now rest of
              None \<Rightarrow> None
            | Some (c, rest') \<Rightarrow> Some (c, conn # rest')))"

text \<open>\<open>get_connection\<close>: \<open>HttpClient\<close> is the constructor \<open>chromadb.HttpClient\<close>, called
  only when a new entry is created; an error it raises leaves the pool as it was.\<close>

definition get_connection ::
  "(string \<Rightarrow> int \<Rightarrow> 'r world \<Rightarrow> (exn + nat) \<times> 'r world) \<Rightarrow> ConnectionPool \<Rightarrow> string \<Rightarrow> int \<Rightarrow>
     'r world \<Rightarrow> (exn + nat) \<times> ConnectionPool \<times> 'r world" where
  "get_connection HttpClient pool h p w =
     (case take_available h p (max_idle_time pool) (clock w) (connections pool) of
        Some (c, conns) \<Rightarrow> (Inr c, pool\<lparr>connections := conns\<rparr>, w)
      | None \<Rightarrow>
          if int (length (connections pool)) < max_connections pool then
            (case HttpClient h p w of
               (Inl e, w1) \<Rightarrow> (Inl e, pool, w1)
             | (Inr c, w1) \<Rightarrow>
                 (Inr c,
                  pool\<lparr>connections := connections pool @
                     [\<lparr>client = c, host = h, port = p, in_use = True,
                       created = clock w1, last_used = clock w1\<rparr>]\<rparr>,
                  w1))
          else (Inl (Exception ''Connection pool exhausted''), pool, w))"

text \<open>\<open>release_connection\<close>: the first entry holding the client is released.\<close>

fun release_first :: "nat \<Rightarrow> real \<Rightarrow> Conn list \<Rightarrow> Conn list" where
  "release_first c now [] = []"
| "release_first c now (conn # rest) =
     (if client conn = c then conn\<lparr>in_use := False, last_used := now\<rparr> # rest
      else conn # release_first c now rest)"

definition release_connection :: "ConnectionPool \<Rightarrow> nat \<Rightarrow> real \<Rightarrow> ConnectionPool" where
  "release_connection pool c now = pool\<lparr>connections := release_first c now (connections pool)\<rparr>"

text \<open>\<open>_health_check_connections\<close>: every entry of a copy of the list that is not in use
  is probed with \<open>heartbeat\<close>; an entry whose probe raises is removed from the list
  (\<open>list.remove\<close> drops the first equal entry).\<close>

fun health_check_scan ::
  "(nat \<Rightarrow> 'r world \<Rightarrow> (exn + unit) \<times> 'r world) \<Rightarrow> Conn list \<Rightarrow> Conn list \<Rightarrow> 'r world \<Rightarrow>
     Conn list \<times> 'r world" where
  "health_check_scan heartbeat [] conns w = (conns, w)"
| "health_check_scan heartbeat (conn # rest) conns w =
     (if \<not> in_use conn then
        (case heartbeat (client conn) w of
           (Inl e, w1) \<Rightarrow> health_check_scan heartbeat rest (remove1 conn conns) w1
         | (Inr u, w1) \<Rightarrow> health_check_scan heartbeat rest conns w1)
      else health_check_scan heartbeat rest conns w)"

definition health_check_connections ::
  "(nat \<Rightarrow> 'r world \<Rightarrow> (exn + unit) \<times> 'r world) \<Rightarrow> ConnectionPool \<Rightarrow> 'r world \<Rightarrow>
     ConnectionPool \<times> 'r world" where
  "health_check_connections heartbeat pool w =
     (case health_check_scan heartbeat (connections pool) (connections pool) w of
        (conns, w1) \<Rightarrow> (pool\<lparr>connections := conns\<rparr>, w1))"

definition active_connections :: "ConnectionPool \<Rightarrow> nat" where
  "active_connections pool = length (filter in_use (connections pool))"

subsection \<open>ProductionRAGManager\<close>

record ConnectionMetrics =
  total_requests :: int
  successful_requests :: int
  failed_requests :: int
  total_response_time :: real
  response_times :: "real list"
  last_success :: "real option"
  last_failure :: "real option"

definition ConnectionMetrics_init :: ConnectionMetrics where
  "ConnectionMetrics_init =
     \<lparr>total_requests = 0, successful_requests = 0, failed_requests = 0,
      total_response_time = 0, response_times = [], last_success = None, last_failure = None\<rparr>"

text \<open>
  The libraries the manager calls, as functions on the environment: the constructor
  \<open>chromadb.HttpClient\<close>, the client's methods, the constructor of the LangChain store
  \<open>Chroma\<close> and the store's methods. Clients and stores are identified by numbers,
  documents and queries are strings, a search returns the documents found.
\<close>

record 'r chromadb =
  HttpClient :: "string \<Rightarrow> int \<Rightarrow> 'r world \<Rightarrow> (exn + nat) \<times> 'r world"
  heartbeat :: "nat \<Rightarrow> 'r world \<Rightarrow> (exn + unit) \<times> 'r world"
  list_collections :: "nat \<Rightarrow> 'r world \<Rightarrow> (exn + string list) \<times> 'r world"
  client_delete_collection :: "nat \<Rightarrow> string \<Rightarrow> 'r world \<Rightarrow> (exn + unit) \<times> 'r world"
  Chroma :: "nat \<Rightarrow> string \<Rightarrow> 'r world \<Rightarrow> (exn + nat) \<times> 'r world"
  store_add_documents ::
    "nat \<Rightarrow> string list \<Rightarrow> string list option \<Rightarrow> 'r world \<Rightarrow> (exn + unit) \<times> 'r world"
  store_similarity_search ::
    "nat \<Rightarrow> string \<Rightarrow> int \<Rightarrow> 'r world \<Rightarrow> (exn + string list) \<times> 'r world"

text \<open>
  The manager object together with the environment it runs in. \<open>vector_stores\<close> is the
  dictionary \<open>_vector_stores\<close>, \<open>metrics\<close> the attribute \<open>_metrics\<close>. The CloudWatch
  export \<open>_send_metrics\<close> catches every exception of its body and changes no attribute;
  it is left out.
\<close>

record 'r ProductionRAGManager =
  chroma_host :: string
  chroma_port :: int
  retry_attempts :: int
  retry_backoff_factor :: real
  connection_pool :: ConnectionPool
  circuit_breaker :: CircuitBreaker
  vector_stores :: "string \<rightharpoonup> nat"
  metrics :: ConnectionMetrics
  world :: "'r world"

definition ProductionRAGManager_init ::
  "string \<Rightarrow> int \<Rightarrow> int \<Rightarrow> int \<Rightarrow> real \<Rightarrow> int \<Rightarrow> real \<Rightarrow> 'r world \<Rightarrow> 'r ProductionRAGManager" where
  "ProductionRAGManager_init h p maxc thr tmo attempts factor w =
     \<lparr>chroma_host = h, chroma_port = p, retry_attempts = attempts,
      retry_backoff_factor = factor,
      connection_pool = ConnectionPool_init maxc 300,
      circuit_breaker = CircuitBreaker_init thr tmo,
      vector_stores = Map.empty, metrics = ConnectionMetrics_init, world = w\<rparr>"

text \<open>\<open>CircuitBreaker.call\<close> on the manager's breaker. The wrapped callable acts on the
  whole manager: the closures the manager passes use its pool, and some re-enter the
  breaker.\<close>

definition call ::
  "('r ProductionRAGManager \<Rightarrow> (exn + 'a) \<times> 'r ProductionRAGManager) \<Rightarrow> 'r ProductionRAGManager \<Rightarrow>
     (exn + 'a) \<times> 'r ProductionRAGManager" where
  "call func s =
     (case can_execute (circuit_breaker s) (clock (world s)) of
        (Inl e, b) \<Rightarrow> (Inl e, s\<lparr>circuit_breaker := b\<rparr>)
      | (Inr False, b) \<Rightarrow>
          (Inl (Exception (''Circuit breaker is '' @ state_value (cb_state b))),
           s\<lparr>circuit_breaker := b\<rparr>)
      | (Inr True, b) \<Rightarrow>
          (case func (s\<lparr>circuit_breaker := b\<rparr>) of
             (Inr result, s1) \<Rightarrow>
               (Inr result, s1\<lparr>circuit_breaker := on_success (circuit_breaker s1)\<rparr>)
           | (Inl e, s1) \<Rightarrow>
               if expected_exception (circuit_breaker s1) e
               then (Inl e, s1\<lparr>circuit_breaker :=
                              on_failure (circuit_breaker s1) (clock (world s1))\<rparr>)
               else (Inl e, s1)))"

definition record_success :: "real \<Rightarrow> 'r ProductionRAGManager \<Rightarrow> 'r ProductionRAGManager" where
  "record_success response_time s =
     (let m = metrics s;
          times = response_times m @ [response_time]
      in s\<lparr>metrics := m\<lparr>total_requests := total_requests m + 1,
                         successful_requests := successful_requests m + 1,
                         total_response_time := total_response_time m + response_time,
                         response_times :=
                           (if length times > 1000 then drop (length times - 1000) times
                            else times),
                         last_success := Some (clock (world s))\<rparr>\<rparr>)"

definition record_failure :: "'r ProductionRAGManager \<Rightarrow> 'r ProductionRAGManager" where
  "record_failure s =
     (let m = metrics s
      in s\<lparr>metrics := m\<lparr>total_requests := total_requests m + 1,
                         failed_requests := failed_requests m + 1,
                         last_failure := Some (clock (world s))\<rparr>\<rparr>)"

text \<open>\<open>time.sleep\<close>: a negative duration raises \<open>ValueError\<close>.\<close>

definition sleep :: "real \<Rightarrow> 'r world \<Rightarrow> (exn + unit) \<times> 'r world" where
  "sleep d w =
     (if d < 0 then (Inl (ValueError ''sleep length must be non-negative''), w)
      else (Inr (), w\<lparr>clock := clock w + d, slept := slept w @ [d]\<rparr>))"

text \<open>\<open>_retry_with_backoff\<close>: the loop over \<open>range(self.retry_attempts)\<close>, with the
  attempts still to run as a list and \<open>last_exception\<close> as an argument. An exception
  raised in the handler (by \<open>time.sleep\<close>) leaves the loop; \<open>raise None\<close> after an empty
  loop is a \<open>TypeError\<close>.\<close>

fun retry_loop ::
  "('r ProductionRAGManager \<Rightarrow> (exn + 'a) \<times> 'r ProductionRAGManager) \<Rightarrow> nat list \<Rightarrow> exn option \<Rightarrow>
     'r ProductionRAGManager \<Rightarrow> (exn + 'a) \<times> 'r ProductionRAGManager" where
  "retry_loop func [] last_exception s =
     (case last_exception of
        None \<Rightarrow> (Inl (TypeError ''exceptions must derive from BaseException''), s)
      | Some e \<Rightarrow> (Inl e, s))"
| "retry_loop func (attempt # rest) last_exception s =
     (let start_time = clock (world s) in
      case call func s of
        (Inr result, s1) \<Rightarrow> (Inr result, record_success (clock (world s1) - start_time) s1)
      | (Inl e, s1) \<Rightarrow>
          (let s2 = record_failure s1 in
           if int attempt < retry_attempts s2 - 1 then
             (case sleep (retry_backoff_factor s2 ^ attempt) (world s2) of
                (Inl e', w) \<Rightarrow> (Inl e', s2\<lparr>world := w\<rparr>)
              | (Inr u, w) \<Rightarrow> retry_loop func rest (Some e) (s2\<lparr>world := w\<rparr>))
           else retry_loop func rest (Some e) s2))"

definition retry_with_backoff ::
  "('r ProductionRAGManager \<Rightarrow> (exn + 'a) \<times> 'r ProductionRAGManager) \<Rightarrow> 'r ProductionRAGManager \<Rightarrow>
     (exn + 'a) \<times> 'r ProductionRAGManager" where
  "retry_with_backoff func s = retry_loop func [0..<nat (retry_attempts s)] None s"

text \<open>\<open>_get_connection\<close>: the context manager; the client is released on every exit of
  the body, and nothing is released when acquiring failed.\<close>

definition with_connection ::
  "'r chromadb \<Rightarrow> (nat \<Rightarrow> 'r ProductionRAGManager \<Rightarrow> (exn + 'a) \<times> 'r ProductionRAGManager) \<Rightarrow>
     'r ProductionRAGManager \<Rightarrow> (exn + 'a) \<times> 'r ProductionRAGManager" where
  "with_connection lib body s =
     (case get_connection (HttpClient lib) (connection_pool s) (chroma_host s) (chroma_port s)
             (world s) of
        (Inl e, pool, w) \<Rightarrow> (Inl e, s\<lparr>connection_pool := pool, world := w\<rparr>)
      | (Inr c, pool, w) \<Rightarrow>
          (case body c (s\<lparr>connection_pool := pool, world := w\<rparr>) of
             (r, s1) \<Rightarrow>
               (r, s1\<lparr>connection_pool :=
                        release_connection (connection_pool s1) c (clock (world s1))\<rparr>)))"

text \<open>A library call made from the manager.\<close>

definition lib_call ::
  "('r world \<Rightarrow> (exn + 'a) \<times> 'r world) \<Rightarrow> 'r ProductionRAGManager \<Rightarrow>
     (exn + 'a) \<times> 'r ProductionRAGManager" where
  "lib_call f s = (case f (world s) of (r, w) \<Rightarrow> (r, s\<lparr>world := w\<rparr>))"

definition create_store ::
  "'r chromadb \<Rightarrow> string \<Rightarrow> 'r ProductionRAGManager \<Rightarrow> (exn + nat) \<times> 'r ProductionRAGManager" where
  "create_store lib store_label = with_connection lib (\<lambda>c. lib_call (Chroma lib c store_label))"

definition get_vector_store ::
  "'r chromadb \<Rightarrow> string \<Rightarrow> 'r ProductionRAGManager \<Rightarrow> nat option \<times> 'r ProductionRAGManager" where
  "get_vector_store lib store_label s =
     (case vector_stores s store_label of
        Some store \<Rightarrow> (Some store, s)
      | None \<Rightarrow>
          (case retry_with_backoff (create_store lib store_label) s of
             (Inr store, s1) \<Rightarrow>
               (Some store, s1\<lparr>vector_stores := (vector_stores s1)(store_label \<mapsto> store)\<rparr>)
           | (Inl e, s1) \<Rightarrow> (None, s1)))"

text \<open>The closures \<open>_add_docs\<close>, \<open>_search\<close> and \<open>_delete\<close>. The optional \<open>filter\<close> of a
  search is an argument handed on to the store; it is not modelled.\<close>

definition add_docs ::
  "'r chromadb \<Rightarrow> string list \<Rightarrow> string \<Rightarrow> string list option \<Rightarrow> 'r ProductionRAGManager \<Rightarrow>
     (exn + unit) \<times> 'r ProductionRAGManager" where
  "add_docs lib documents store_label ids s =
     (case get_vector_store lib store_label s of
        (None, s1) \<Rightarrow>
          (Inl (Exception (''Failed to get vector store '' @ [CHR 0x27] @ store_label @ [CHR 0x27])), s1)
      | (Some store, s1) \<Rightarrow>
          (case ids of
             None \<Rightarrow> lib_call (store_add_documents lib store documents None) s1
           | Some [] \<Rightarrow> lib_call (store_add_documents lib store documents None) s1
           | Some is \<Rightarrow> lib_call (store_add_documents lib store documents (Some is)) s1))"

definition search ::
  "'r chromadb \<Rightarrow> string \<Rightarrow> string \<Rightarrow> int \<Rightarrow> 'r ProductionRAGManager \<Rightarrow>
     (exn + string list) \<times> 'r ProductionRAGManager" where
  "search lib query store_label k s =
     (case get_vector_store lib store_label s of
        (None, s1) \<Rightarrow>
          (Inl (Exception (''Failed to get vector store '' @ [CHR 0x27] @ store_label @ [CHR 0x27])), s1)
      | (Some store, s1) \<Rightarrow> lib_call (store_similarity_search lib store query k) s1)"

definition delete ::
  "'r chromadb \<Rightarrow> string \<Rightarrow> 'r ProductionRAGManager \<Rightarrow> (exn + unit) \<times> 'r ProductionRAGManager" where
  "delete lib store_label =
     with_connection lib (\<lambda>c. lib_call (client_delete_collection lib c store_label))"

text \<open>The facade operations. Each wraps its body in \<open>try\<close> / \<open>except Exception\<close> and
  returns a value in the handler.\<close>

definition add_documents ::
  "'r chromadb \<Rightarrow> string list \<Rightarrow> string \<Rightarrow> string list option \<Rightarrow> 'r ProductionRAGManager \<Rightarrow>
     (exn + bool) \<times> 'r ProductionRAGManager" where
  "add_documents lib documents store_label ids s =
     (case retry_with_backoff (add_docs lib documents store_label ids) s of
        (Inr u, s1) \<Rightarrow> (Inr True, s1)
      | (Inl e, s1) \<Rightarrow> (Inr False, s1))"

definition similarity_search ::
  "'r chromadb \<Rightarrow> string \<Rightarrow> string \<Rightarrow> int \<Rightarrow> 'r ProductionRAGManager \<Rightarrow>
     (exn + string list) \<times> 'r ProductionRAGManager" where
  "similarity_search lib query store_label k s =
     (case retry_with_backoff (search lib query store_label k) s of
        (Inr results, s1) \<Rightarrow> (Inr results, s1)
      | (Inl e, s1) \<Rightarrow> (Inr [], s1))"

definition delete_collection ::
  "'r chromadb \<Rightarrow> string \<Rightarrow> 'r ProductionRAGManager \<Rightarrow> (exn + bool) \<times> 'r ProductionRAGManager" where
  "delete_collection lib store_label s =
     (case retry_with_backoff (delete lib store_label) s of
        (Inr u, s1) \<Rightarrow> (Inr True, s1\<lparr>vector_stores := (vector_stores s1)(store_label := None)\<rparr>)
      | (Inl e, s1) \<Rightarrow> (Inr False, s1))"

text \<open>\<open>health_check\<close> returns one of two dictionaries. \<open>metrics_view\<close> is the computation
  of the \<open>'metrics'\<close> entry (success rate, mean and 95th percentile of the response
  times, from the \<open>statistics\<close> module), which can raise.\<close>

datatype 'm health =
    Healthy real nat string nat 'm
  | Unhealthy string string

text \<open>The body of the \<open>try\<close> of \<open>health_check\<close>.\<close>

definition health_probe ::
  "'r chromadb \<Rightarrow> (ConnectionMetrics \<Rightarrow> exn + 'm) \<Rightarrow> 'r ProductionRAGManager \<Rightarrow>
     (exn + 'm health) \<times> 'r ProductionRAGManager" where
  "health_probe lib metrics_view =
     with_connection lib
       (\<lambda>c s0.
          let start_time = clock (world s0) in
          case lib_call (heartbeat lib c) s0 of
            (Inl e, s1) \<Rightarrow> (Inl e, s1)
          | (Inr u, s1) \<Rightarrow>
              (let response_time = clock (world s1) - start_time in
               case lib_call (list_collections lib c) s1 of
                 (Inl e, s2) \<Rightarrow> (Inl e, s2)
               | (Inr collections, s2) \<Rightarrow>
                   (case metrics_view (metrics s2) of
                      Inl e \<Rightarrow> (Inl e, s2)
                    | Inr mv \<Rightarrow>
                        (Inr (Healthy (response_time * 1000) (length collections)
                                (state_value (cb_state (circuit_breaker s2)))
                                (length (connections (connection_pool s2))) mv),
                         s2))))"

definition health_check ::
  "'r chromadb \<Rightarrow> (ConnectionMetrics \<Rightarrow> exn + 'm) \<Rightarrow> 'r ProductionRAGManager \<Rightarrow>
     (exn + 'm health) \<times> 'r ProductionRAGManager" where
  "health_check lib metrics_view s =
     (case health_probe lib metrics_view s of
        (Inr h, s1) \<Rightarrow> (Inr h, s1)
      | (Inl e, s1) \<Rightarrow>
          (Inr (Unhealthy (str e) (state_value (cb_state (circuit_breaker s1)))), s1))"

section \<open>async_production_rag_manager.py\<close>

subsection \<open>JSON values\<close>

datatype json =
    JNull
  | JBool bool
  | JNum int
  | JStr string
  | JList "json list"
  | JDict "(string \<times> json) list"

text \<open>Python's truth value of a decoded JSON value; \<open>None\<close> is \<open>JNull\<close>.\<close>

fun truthy :: "json \<Rightarrow> bool" where
  "truthy JNull = False"
| "truthy (JBool b) = b"
| "truthy (JNum n) = (n \<noteq> 0)"
| "truthy (JStr t) = (t \<noteq> [])"
| "truthy (JList xs) = (xs \<noteq> [])"
| "truthy (JDict kvs) = (kvs \<noteq> [])"

text \<open>The name of the Python type of a decoded value, and \<open>d.get(key)\<close>: only a
  dictionary has the method.\<close>

fun type_name :: "json \<Rightarrow> string" where
  "type_name JNull = ''NoneType''"
| "type_name (JBool b) = ''bool''"
| "type_name (JNum n) = ''int''"
| "type_name (JStr t) = ''str''"
| "type_name (JList xs) = ''list''"
| "type_name (JDict kvs) = ''dict''"

fun dict_get :: "json \<Rightarrow> string \<Rightarrow> exn + json" where
  "dict_get (JDict kvs) k = Inr (case map_of kvs k of None \<Rightarrow> JNull | Some v \<Rightarrow> v)"
| "dict_get j k =
     Inl (AttributeError (repr (type_name j) @ '' object has no attribute '' @ repr ''get''))"

text \<open>\<open>int(x)\<close> of a float truncates towards zero.\<close>

definition int_of_float :: "real \<Rightarrow> int" where
  "int_of_float x = (if x < 0 then \<lceil>x\<rceil> else \<lfloor>x\<rfloor>)"

subsection \<open>Sequencing computations that can raise\<close>

definition seq ::
  "('s \<Rightarrow> (exn + 'a) \<times> 's) \<Rightarrow> ('a \<Rightarrow> 's \<Rightarrow> (exn + 'b) \<times> 's) \<Rightarrow> 's \<Rightarrow> (exn + 'b) \<times> 's" where
  "seq m f s = (case m s of (Inl e, s1) \<Rightarrow> (Inl e, s1) | (Inr x, s1) \<Rightarrow> f x s1)"

definition try_except ::
  "('s \<Rightarrow> (exn + 'a) \<times> 's) \<Rightarrow> (exn \<Rightarrow> 's \<Rightarrow> (exn + 'a) \<times> 's) \<Rightarrow> 's \<Rightarrow> (exn + 'a) \<times> 's" where
  "try_except m handler s = (case m s of (Inl e, s1) \<Rightarrow> handler e s1 | (Inr x, s1) \<Rightarrow> (Inr x, s1))"

definition return :: "'a \<Rightarrow> 's \<Rightarrow> (exn + 'a) \<times> 's" where
  "return x s = (Inr x, s)"

definition raise :: "exn \<Rightarrow> 's \<Rightarrow> (exn + 'a) \<times> 's" where
  "raise e s = (Inl e, s)"

subsection \<open>Configuration\<close>

text \<open>\<open>cc_retry_attempts\<close> is the field \<open>retry_attempts\<close> of \<open>ConnectionConfig\<close>.\<close>

record ConnectionConfig =
  cc_retry_attempts :: int
  retry_delay :: real
  circuit_breaker_threshold :: int
  circuit_breaker_timeout :: real

record CacheConfig =
  enabled :: bool
  ttl_seconds :: int
  enable_query_cache :: bool

subsection \<open>AsyncCircuitBreaker\<close>

datatype CircuitState = A_CLOSED | A_OPEN | A_HALF_OPEN

record AsyncCircuitBreaker =
  threshold :: int
  timeout :: real
  state :: CircuitState
  failure_count :: int
  last_failure_time :: real

definition AsyncCircuitBreaker_init :: "int \<Rightarrow> real \<Rightarrow> AsyncCircuitBreaker" where
  "AsyncCircuitBreaker_init n t =
     \<lparr>threshold = n, timeout = t, state = A_CLOSED, failure_count = 0, last_failure_time = 0\<rparr>"

definition check_state :: "AsyncCircuitBreaker \<Rightarrow> real \<Rightarrow> (exn + unit) \<times> AsyncCircuitBreaker" where
  "check_state b now =
     (if state b = A_OPEN then
        (if now - last_failure_time b > timeout b
         then (Inr (), b\<lparr>state := A_HALF_OPEN\<rparr>)
         else (Inl (Exception ''Circuit breaker is OPEN''), b))
      else (Inr (), b))"

text \<open>
  \<open>record_success\<close> and \<open>record_failure\<close> schedule their update as a task
  (\<open>asyncio.create_task\<close>). The two functions below are the bodies \<open>_record\<close> of those
  tasks. The event loop runs a task at the next suspension of the running coroutine: in
  \<open>request\<close> that is the backoff sleep or, after the last attempt, the first suspension
  of the caller. \<open>request_loop\<close> applies the update where the task is created, so the
  breaker it returns is the one the event loop leaves once the scheduled updates have
  run; a request that is started before that suspension still reads the breaker as it
  was before the update.
\<close>

definition async_record_success :: "AsyncCircuitBreaker \<Rightarrow> AsyncCircuitBreaker" where
  "async_record_success b =
     (let b1 = (if state b = A_HALF_OPEN then b\<lparr>state := A_CLOSED\<rparr> else b)
      in b1\<lparr>failure_count := 0\<rparr>)"

definition async_record_failure :: "AsyncCircuitBreaker \<Rightarrow> real \<Rightarrow> AsyncCircuitBreaker" where
  "async_record_failure b now =
     (let b1 = b\<lparr>failure_count := failure_count b + 1, last_failure_time := now\<rparr>
      in if failure_count b1 \<ge> threshold b1 then b1\<lparr>state := A_OPEN\<rparr> else b1)"

subsection \<open>AsyncConnectionPool\<close>

record response =
  status :: int
  response_json :: "exn + json"

text \<open>
  The libraries of the async manager: \<open>session_request\<close> is
  \<open>aiohttp.ClientSession.request\<close> (method, URL, the \<open>json\<close> keyword), the \<open>redis_\<close>
  functions are the methods of the aioredis client, \<open>redis_connect\<close> is
  \<open>aioredis.from_url\<close> followed by \<open>ping\<close>, and \<open>json_dumps\<close>, \<open>json_loads\<close> and
  \<open>md5_hexdigest\<close> are the functions of \<open>json\<close> and \<open>hashlib\<close>.
\<close>

record 'r aiolib =
  session_request :: "string \<Rightarrow> string \<Rightarrow> json option \<Rightarrow> 'r world \<Rightarrow> (exn + response) \<times> 'r world"
  redis_connect :: "'r world \<Rightarrow> (exn + nat) \<times> 'r world"
  redis_get :: "nat \<Rightarrow> string \<Rightarrow> 'r world \<Rightarrow> (exn + string option) \<times> 'r world"
  redis_setex :: "nat \<Rightarrow> string \<Rightarrow> int \<Rightarrow> string \<Rightarrow> 'r world \<Rightarrow> (exn + unit) \<times> 'r world"
  redis_keys :: "nat \<Rightarrow> string \<Rightarrow> 'r world \<Rightarrow> (exn + string list) \<times> 'r world"
  redis_delete :: "nat \<Rightarrow> string list \<Rightarrow> 'r world \<Rightarrow> (exn + unit) \<times> 'r world"
  json_dumps :: "json \<Rightarrow> exn + string"
  json_loads :: "string \<Rightarrow> exn + json"
  md5_hexdigest :: "string \<Rightarrow> string"

text \<open>\<open>session_open\<close> says that \<open>session\<close> is set and not closed; \<open>breaker\<close> is the
  attribute \<open>_circuit_breaker\<close>.\<close>

record AsyncConnectionPool =
  base_url :: string
  config :: ConnectionConfig
  session_open :: bool
  breaker :: AsyncCircuitBreaker

definition AsyncConnectionPool_init :: "string \<Rightarrow> ConnectionConfig \<Rightarrow> AsyncConnectionPool" where
  "AsyncConnectionPool_init url cfg =
     \<lparr>base_url = url, config = cfg, session_open = False,
      breaker = AsyncCircuitBreaker_init (circuit_breaker_threshold cfg)
                  (circuit_breaker_timeout cfg)\<rparr>"

definition ensure_session :: "AsyncConnectionPool \<Rightarrow> AsyncConnectionPool" where
  "ensure_session pool = pool\<lparr>session_open := True\<rparr>"

definition close :: "AsyncConnectionPool \<Rightarrow> AsyncConnectionPool" where
  "close pool = pool\<lparr>session_open := False\<rparr>"

text \<open>\<open>asyncio.sleep\<close>: a delay that is not positive returns at once.\<close>

definition asyncio_sleep :: "real \<Rightarrow> 'r world \<Rightarrow> 'r world" where
  "asyncio_sleep d w = w\<lparr>clock := clock w + max d 0, slept := slept w @ [d]\<rparr>"

text \<open>The body of the \<open>try\<close> in \<open>request\<close> up to the decoded response.\<close>

definition send ::
  "'r aiolib \<Rightarrow> string \<Rightarrow> string \<Rightarrow> json option \<Rightarrow> 'r world \<Rightarrow> (exn + json) \<times> 'r world" where
  "send lib method url kwargs w =
     (case session_request lib method url kwargs w of
        (Inl e, w1) \<Rightarrow> (Inl e, w1)
      | (Inr resp, w1) \<Rightarrow>
          if status resp \<ge> 400
          then (Inl (ClientResponseError url (status resp) (''HTTP '' @ str_int (status resp))), w1)
          else (response_json resp, w1))"

text \<open>The retry loop of \<open>request\<close>; a loop that ends without \<open>return\<close> or \<open>raise\<close>
  returns \<open>None\<close>.\<close>

fun request_loop ::
  "'r aiolib \<Rightarrow> string \<Rightarrow> string \<Rightarrow> json option \<Rightarrow> nat list \<Rightarrow> AsyncConnectionPool \<times> 'r world \<Rightarrow>
     (exn + json) \<times> AsyncConnectionPool \<times> 'r world" where
  "request_loop lib method url kwargs [] (pool, w) = (Inr JNull, pool, w)"
| "request_loop lib method url kwargs (attempt # rest) (pool, w) =
     (let pool1 = ensure_session pool in
      case send lib method url kwargs w of
        (Inr data, w1) \<Rightarrow>
          (Inr data, pool1\<lparr>breaker := async_record_success (breaker pool1)\<rparr>, w1)
      | (Inl e, w1) \<Rightarrow>
          (let pool2 = pool1\<lparr>breaker := async_record_failure (breaker pool1) (clock w1)\<rparr> in
           if int attempt = cc_retry_attempts (config pool2) - 1 then (Inl e, pool2, w1)
           else request_loop lib method url kwargs rest
                  (pool2, asyncio_sleep (retry_delay (config pool2) * 2 ^ attempt) w1)))"

definition request ::
  "'r aiolib \<Rightarrow> string \<Rightarrow> string \<Rightarrow> json option \<Rightarrow> AsyncConnectionPool \<times> 'r world \<Rightarrow>
     (exn + json) \<times> AsyncConnectionPool \<times> 'r world" where
  "request lib method endpoint kwargs pw =
     (case pw of (pool, w) \<Rightarrow>
        (case check_state (breaker pool) (clock w) of
           (Inl e, b) \<Rightarrow> (Inl e, pool\<lparr>breaker := b\<rparr>, w)
         | (Inr u, b) \<Rightarrow>
             request_loop lib method (base_url pool @ endpoint) kwargs
               [0..<nat (cc_retry_attempts (config pool))] (pool\<lparr>breaker := b\<rparr>, w)))"

subsection \<open>AsyncRedisCache\<close>

text \<open>\<open>redis\<close> is the client handle, \<open>None\<close> until \<open>connect\<close> succeeds.\<close>

record AsyncRedisCache =
  redis_config :: CacheConfig
  redis :: "nat option"

definition connect :: "'r aiolib \<Rightarrow> AsyncRedisCache \<Rightarrow> 'r world \<Rightarrow> AsyncRedisCache \<times> 'r world" where
  "connect lib c w =
     (if \<not> enabled (redis_config c) then (c, w)
      else (case redis_connect lib w of
              (Inl e, w1) \<Rightarrow> (c\<lparr>redis := None\<rparr>, w1)
            | (Inr h, w1) \<Rightarrow> (c\<lparr>redis := Some h\<rparr>, w1)))"

definition generate_key :: "'r aiolib \<Rightarrow> string \<Rightarrow> json \<Rightarrow> exn + string" where
  "generate_key lib prefix data =
     (case json_dumps lib data of
        Inl e \<Rightarrow> Inl e
      | Inr data_str \<Rightarrow> Inr (prefix @ '':'' @ md5_hexdigest lib data_str))"

text \<open>\<open>get\<close>: \<open>None\<close> is the miss. The value read is decoded only when it is a non-empty
  string, and a decoded \<open>null\<close> is Python's \<open>None\<close>.\<close>

definition cache_get ::
  "'r aiolib \<Rightarrow> AsyncRedisCache \<Rightarrow> string \<Rightarrow> json \<Rightarrow> 'r world \<Rightarrow> (exn + json option) \<times> 'r world" where
  "cache_get lib c prefix data w =
     (if \<not> enabled (redis_config c) then (Inr None, w)
      else (case redis c of
              None \<Rightarrow> (Inr None, w)
            | Some h \<Rightarrow>
                try_except
                  (\<lambda>w0. case generate_key lib prefix data of
                           Inl e \<Rightarrow> (Inl e, w0)
                         | Inr key \<Rightarrow>
                             (case redis_get lib h key w0 of
                                (Inl e, w1) \<Rightarrow> (Inl e, w1)
                              | (Inr None, w1) \<Rightarrow> (Inr None, w1)
                              | (Inr (Some v), w1) \<Rightarrow>
                                  if v = [] then (Inr None, w1)
                                  else (case json_loads lib v of
                                          Inl e \<Rightarrow> (Inl e, w1)
                                        | Inr JNull \<Rightarrow> (Inr None, w1)
                                        | Inr j \<Rightarrow> (Inr (Some j), w1))))
                  (\<lambda>e w1. (Inr None, w1)) w))"

definition cache_set ::
  "'r aiolib \<Rightarrow> AsyncRedisCache \<Rightarrow> string \<Rightarrow> json \<Rightarrow> json \<Rightarrow> 'r world \<Rightarrow> (exn + unit) \<times> 'r world" where
  "cache_set lib c prefix data v w =
     (if \<not> enabled (redis_config c) then (Inr (), w)
      else (case redis c of
              None \<Rightarrow> (Inr (), w)
            | Some h \<Rightarrow>
                try_except
                  (\<lambda>w0. case generate_key lib prefix data of
                           Inl e \<Rightarrow> (Inl e, w0)
                         | Inr key \<Rightarrow>
                             (case json_dumps lib v of
                                Inl e \<Rightarrow> (Inl e, w0)
                              | Inr txt \<Rightarrow>
                                  redis_setex lib h key (ttl_seconds (redis_config c)) txt w0))
                  (\<lambda>e w1. (Inr (), w1)) w))"

definition invalidate_pattern ::
  "'r aiolib \<Rightarrow> AsyncRedisCache \<Rightarrow> string \<Rightarrow> 'r world \<Rightarrow> (exn + unit) \<times> 'r world" where
  "invalidate_pattern lib c pattern w =
     (if \<not> enabled (redis_config c) then (Inr (), w)
      else (case redis c of
              None \<Rightarrow> (Inr (), w)
            | Some h \<Rightarrow>
                try_except
                  (\<lambda>w0. case redis_keys lib h pattern w0 of
                           (Inl e, w1) \<Rightarrow> (Inl e, w1)
                         | (Inr keys, w1) \<Rightarrow>
                             if keys \<noteq> [] then redis_delete lib h keys w1 else (Inr (), w1))
                  (\<lambda>e w1. (Inr (), w1)) w))"

subsection \<open>AsyncProductionRAGManager\<close>

record Metrics =
  requests_total :: int
  requests_success :: int
  requests_failed :: int
  cache_hits :: int
  cache_misses :: int
  avg_response_time :: real

text \<open>
  The manager object and its environment. \<open>a_connection_pool\<close>, \<open>a_metrics\<close> and
  \<open>a_world\<close> are the attributes \<open>connection_pool\<close> and \<open>metrics\<close> of the async manager
  and the environment; the pool and the cache are \<open>None\<close> until \<open>initialize\<close>.
\<close>

record 'r AsyncProductionRAGManager =
  cache_config :: CacheConfig
  a_connection_pool :: "AsyncConnectionPool option"
  cache :: "AsyncRedisCache option"
  a_metrics :: Metrics
  a_world :: "'r world"

definition Metrics_init :: Metrics where
  "Metrics_init =
     \<lparr>requests_total = 0, requests_success = 0, requests_failed = 0, cache_hits = 0,
      cache_misses = 0, avg_response_time = 0\<rparr>"

text \<open>\<open>async with self.connection_pool as pool\<close>: the session is ensured on entry and
  closed on every exit. Without a pool the statement raises \<open>TypeError\<close> (Python 3.11
  and later; \<open>AttributeError\<close> before).\<close>

definition with_pool ::
  "('r AsyncProductionRAGManager \<Rightarrow> (exn + 'a) \<times> 'r AsyncProductionRAGManager) \<Rightarrow>
     'r AsyncProductionRAGManager \<Rightarrow> (exn + 'a) \<times> 'r AsyncProductionRAGManager" where
  "with_pool body s =
     (case a_connection_pool s of
        None \<Rightarrow>
          (Inl (TypeError (repr ''NoneType'' @
                  '' object does not support the asynchronous context manager protocol'')), s)
      | Some pool \<Rightarrow>
          (case body (s\<lparr>a_connection_pool := Some (ensure_session pool)\<rparr>) of
             (r, s1) \<Rightarrow> (r, s1\<lparr>a_connection_pool := map_option close (a_connection_pool s1)\<rparr>)))"

text \<open>\<open>pool.get\<close>, \<open>pool.post\<close> and \<open>pool.delete\<close> are \<open>request\<close> with the method name.
  Inside \<open>with_pool\<close> the pool is always there.\<close>

definition pool_request ::
  "'r aiolib \<Rightarrow> string \<Rightarrow> string \<Rightarrow> json option \<Rightarrow> 'r AsyncProductionRAGManager \<Rightarrow>
     (exn + json) \<times> 'r AsyncProductionRAGManager" where
  "pool_request lib method endpoint kwargs s =
     (case a_connection_pool s of
        None \<Rightarrow>
          (Inl (AttributeError (repr ''NoneType'' @ '' object has no attribute '' @
                                repr ''request'')), s)
      | Some pool \<Rightarrow>
          (case request lib method endpoint kwargs (pool, a_world s) of
             (r, pool1, w1) \<Rightarrow> (r, s\<lparr>a_connection_pool := Some pool1, a_world := w1\<rparr>)))"

text \<open>The method \<open>name\<close> of \<open>self.cache\<close> called from the manager.\<close>

definition on_cache ::
  "string \<Rightarrow> (AsyncRedisCache \<Rightarrow> 'r world \<Rightarrow> (exn + 'a) \<times> 'r world) \<Rightarrow>
     'r AsyncProductionRAGManager \<Rightarrow> (exn + 'a) \<times> 'r AsyncProductionRAGManager" where
  "on_cache name f s =
     (case cache s of
        None \<Rightarrow>
          (Inl (AttributeError (repr ''NoneType'' @ '' object has no attribute '' @ repr name)), s)
      | Some c \<Rightarrow> (case f c (a_world s) of (r, w1) \<Rightarrow> (r, s\<lparr>a_world := w1\<rparr>)))"

definition bump_success :: "'r AsyncProductionRAGManager \<Rightarrow> 'r AsyncProductionRAGManager" where
  "bump_success s = s\<lparr>a_metrics := (a_metrics s)\<lparr>requests_success := requests_success (a_metrics s) + 1\<rparr>\<rparr>"

definition bump_failed :: "'r AsyncProductionRAGManager \<Rightarrow> 'r AsyncProductionRAGManager" where
  "bump_failed s = s\<lparr>a_metrics := (a_metrics s)\<lparr>requests_failed := requests_failed (a_metrics s) + 1\<rparr>\<rparr>"

definition bump_hits :: "'r AsyncProductionRAGManager \<Rightarrow> 'r AsyncProductionRAGManager" where
  "bump_hits s = s\<lparr>a_metrics := (a_metrics s)\<lparr>cache_hits := cache_hits (a_metrics s) + 1\<rparr>\<rparr>"

definition bump_misses :: "'r AsyncProductionRAGManager \<Rightarrow> 'r AsyncProductionRAGManager" where
  "bump_misses s = s\<lparr>a_metrics := (a_metrics s)\<lparr>cache_misses := cache_misses (a_metrics s) + 1\<rparr>\<rparr>"

text \<open>\<open>_update_metrics\<close>: the counter is incremented before the division.\<close>

definition update_metrics ::
  "real \<Rightarrow> 'r AsyncProductionRAGManager \<Rightarrow> (exn + unit) \<times> 'r AsyncProductionRAGManager" where
  "update_metrics response_time s =
     (let m = (a_metrics s)\<lparr>requests_total := requests_total (a_metrics s) + 1\<rparr>;
          total_requests = requests_total m;
          current_avg = avg_response_time m
      in if total_requests = 0
         then (Inl (ZeroDivisionError ''float division by zero''), s\<lparr>a_metrics := m\<rparr>)
         else (Inr (),
               s\<lparr>a_metrics := m\<lparr>avg_response_time :=
                   (current_avg * (real_of_int total_requests - 1) + response_time)
                     / real_of_int total_requests\<rparr>\<rparr>))"

text \<open>\<open>health_check\<close> of the async manager, and the body of its \<open>try\<close>.\<close>

definition a_health_probe ::
  "'r aiolib \<Rightarrow> 'r AsyncProductionRAGManager \<Rightarrow> (exn + bool) \<times> 'r AsyncProductionRAGManager" where
  "a_health_probe lib =
     with_pool
       (seq (pool_request lib ''GET'' ''/heartbeat'' None)
          (\<lambda>response s. case dict_get response ''status'' of
                           Inl e \<Rightarrow> (Inl e, s)
                         | Inr v \<Rightarrow> (Inr (v = JStr ''ok''), s)))"

definition a_health_check ::
  "'r aiolib \<Rightarrow> 'r AsyncProductionRAGManager \<Rightarrow> (exn + bool) \<times> 'r AsyncProductionRAGManager" where
  "a_health_check lib = try_except (a_health_probe lib) (\<lambda>e. return False)"

text \<open>The arguments of the facade operations that \<open>batch_operations\<close> dispatches.\<close>

record search_args =
  s_collection_name :: string
  query_texts :: "string list"
  n_results :: int
  where_filter :: json
  where_document :: json

record add_args =
  a_collection_name :: string
  documents :: "string list"
  metadatas :: "json list option"
  ids :: "string list option"

definition search_params :: "search_args \<Rightarrow> json" where
  "search_params a = JDict
     [(''collection_name'', JStr (s_collection_name a)),
      (''query_texts'', JList (map JStr (query_texts a))),
      (''n_results'', JNum (n_results a)),
      (''where'', where_filter a),
      (''where_document'', where_document a)]"

definition a_similarity_search ::
  "'r aiolib \<Rightarrow> search_args \<Rightarrow> 'r AsyncProductionRAGManager \<Rightarrow>
     (exn + json) \<times> 'r AsyncProductionRAGManager" where
  "a_similarity_search lib a s =
     (let start_time = clock (a_world s);
          cache_key = ''search:'' @ s_collection_name a;
          fetch =
            try_except
              (with_pool
                 (seq (pool_request lib ''POST'' ''/collections/query'' (Some (search_params a)))
                    (\<lambda>response s1.
                       seq (\<lambda>s2. if enable_query_cache (cache_config s2)
                                  then on_cache ''set'' (\<lambda>c. cache_set lib c cache_key (search_params a) response) s2
                                  else (Inr (), s2))
                         (\<lambda>u s3. seq (update_metrics (clock (a_world s3) - start_time))
                                    (\<lambda>u. return response) (bump_misses s3))
                         (bump_success s1))))
              (\<lambda>e s1. (Inl e, bump_failed s1))
      in if enable_query_cache (cache_config s) then
           (case on_cache ''get'' (\<lambda>c. cache_get lib c cache_key (search_params a)) s of
              (Inl e, s1) \<Rightarrow> (Inl e, s1)
            | (Inr None, s1) \<Rightarrow> fetch s1
            | (Inr (Some cached), s1) \<Rightarrow>
                if truthy cached then (Inr cached, bump_hits s1) else fetch s1)
         else fetch s)"

text \<open>The dictionary \<open>batch_data\<close> of \<open>add_documents\<close>; \<open>now\<close> is the clock when the
  identifiers are generated.\<close>

definition batch_data :: "add_args \<Rightarrow> real \<Rightarrow> json" where
  "batch_data a now =
     (let the_ids =
            (case ids a of
               None \<Rightarrow> map (\<lambda>i. ''doc_'' @ str_nat i @ ''_'' @ str_int (int_of_float now))
                         [0..<length (documents a)]
             | Some given \<Rightarrow> given);
          the_metadatas =
            (case metadatas a of
               None \<Rightarrow> replicate (length (documents a)) (JDict [])
             | Some [] \<Rightarrow> replicate (length (documents a)) (JDict [])
             | Some given \<Rightarrow> given)
      in JDict
           [(''collection_name'', JStr (a_collection_name a)),
            (''documents'', JList (map JStr (documents a))),
            (''metadatas'', JList the_metadatas),
            (''ids'', JList (map JStr the_ids))])"

definition a_add_documents ::
  "'r aiolib \<Rightarrow> add_args \<Rightarrow> 'r AsyncProductionRAGManager \<Rightarrow>
     (exn + json) \<times> 'r AsyncProductionRAGManager" where
  "a_add_documents lib a s =
     (let start_time = clock (a_world s)
      in try_except
           (with_pool
              (seq (pool_request lib ''POST'' ''/collections/add''
                      (Some (batch_data a (clock (a_world s)))))
                 (\<lambda>response s1.
                    seq (\<lambda>s2. if enabled (cache_config s2)
                               then on_cache ''invalidate_pattern'' (\<lambda>c. invalidate_pattern lib c
                                      (''collection:'' @ a_collection_name a @ '':*'')) s2
                               else (Inr (), s2))
                      (\<lambda>u s3. seq (update_metrics (clock (a_world s3) - start_time))
                                 (\<lambda>u. return response) s3)
                      (bump_success s1))))
           (\<lambda>e s1. (Inl e, bump_failed s1)) s)"

definition a_get_collection_info ::
  "'r aiolib \<Rightarrow> string \<Rightarrow> 'r AsyncProductionRAGManager \<Rightarrow>
     (exn + json) \<times> 'r AsyncProductionRAGManager" where
  "a_get_collection_info lib collection_name s =
     (let fetch =
            (\<lambda>s0. let start_time = clock (a_world s0) in
               try_except
                 (with_pool
                    (seq (pool_request lib ''GET'' (''/collections/'' @ collection_name) None)
                       (\<lambda>response s1.
                          seq (\<lambda>s2. if enabled (cache_config s2)
                                     then on_cache ''set'' (\<lambda>c. cache_set lib c ''collection_info''
                                            (JStr collection_name) response) s2
                                     else (Inr (), s2))
                            (\<lambda>u s3. seq (update_metrics (clock (a_world s3) - start_time))
                                       (\<lambda>u. return response) (bump_misses s3))
                            (bump_success s1))))
                 (\<lambda>e s1. (Inl e, bump_failed s1)) s0)
      in if enabled (cache_config s) then
           (case on_cache ''get'' (\<lambda>c. cache_get lib c ''collection_info'' (JStr collection_name)) s of
              (Inl e, s1) \<Rightarrow> (Inl e, s1)
            | (Inr None, s1) \<Rightarrow> fetch s1
            | (Inr (Some cached), s1) \<Rightarrow>
                if truthy cached then (Inr cached, bump_hits s1) else fetch s1)
         else fetch s)"

definition a_delete_collection ::
  "'r aiolib \<Rightarrow> string \<Rightarrow> 'r AsyncProductionRAGManager \<Rightarrow>
     (exn + json) \<times> 'r AsyncProductionRAGManager" where
  "a_delete_collection lib collection_name s =
     (let start_time = clock (a_world s)
      in try_except
           (with_pool
              (seq (pool_request lib ''DELETE'' (''/collections/'' @ collection_name) None)
                 (\<lambda>response s1.
                    seq (\<lambda>s2. if enabled (cache_config s2)
                               then on_cache ''invalidate_pattern'' (\<lambda>c. invalidate_pattern lib c
                                      (''*'' @ collection_name @ ''*'')) s2
                               else (Inr (), s2))
                      (\<lambda>u s3. seq (update_metrics (clock (a_world s3) - start_time))
                                 (\<lambda>u. return response) s3)
                      (bump_success s1))))
           (\<lambda>e s1. (Inl e, bump_failed s1)) s)"

text \<open>
  An entry of the list given to \<open>batch_operations\<close>: \<open>op_type\<close> is
  \<open>operation.get('type')\<close> and \<open>params\<close> the entry \<open>'params'\<close>, \<open>None\<close> when the key is
  missing. The keyword arguments are given by the operation whose signature they fit;
  passing them to another operation is a \<open>TypeError\<close> of the call, which names the
  keyword that is not taken or the argument that is missing (in the wording of Python
  3.10 and later).
\<close>

definition unexpected_keyword :: "string \<Rightarrow> string \<Rightarrow> exn" where
  "unexpected_keyword f k =
     TypeError (''AsyncProductionRAGManager.'' @ f @
                ''() got an unexpected keyword argument '' @ repr k)"

definition missing_argument :: "string \<Rightarrow> string \<Rightarrow> exn" where
  "missing_argument f k =
     TypeError (''AsyncProductionRAGManager.'' @ f @
                ''() missing 1 required positional argument: '' @ repr k)"

datatype op_params = SearchParams search_args | AddParams add_args | InfoParams string

record operation =
  op_type :: "string option"
  params :: "op_params option"

text \<open>The first loop of \<open>batch_operations\<close>: the coroutines, in the order of the
  operations; an entry of unknown type is skipped.\<close>

fun make_tasks ::
  "'r aiolib \<Rightarrow> operation list \<Rightarrow>
     exn + ('r AsyncProductionRAGManager \<Rightarrow> (exn + json) \<times> 'r AsyncProductionRAGManager) list" where
  "make_tasks lib [] = Inr []"
| "make_tasks lib (operation # rest) =
     (let task =
            (if op_type operation = Some ''search'' then
               (case params operation of
                  None \<Rightarrow> Inl (KeyError ''params'')
                | Some (SearchParams a) \<Rightarrow> Inr (Some (a_similarity_search lib a))
                | Some (AddParams a) \<Rightarrow> Inl (unexpected_keyword ''similarity_search'' ''documents'')
                | Some (InfoParams name) \<Rightarrow>
                    Inl (missing_argument ''similarity_search'' ''query_texts''))
             else if op_type operation = Some ''add'' then
               (case params operation of
                  None \<Rightarrow> Inl (KeyError ''params'')
                | Some (AddParams a) \<Rightarrow> Inr (Some (a_add_documents lib a))
                | Some (SearchParams a) \<Rightarrow> Inl (unexpected_keyword ''add_documents'' ''query_texts'')
                | Some (InfoParams name) \<Rightarrow> Inl (missing_argument ''add_documents'' ''documents''))
             else if op_type operation = Some ''get_info'' then
               (case params operation of
                  None \<Rightarrow> Inl (KeyError ''params'')
                | Some (InfoParams name) \<Rightarrow> Inr (Some (a_get_collection_info lib name))
                | Some (SearchParams a) \<Rightarrow>
                    Inl (unexpected_keyword ''get_collection_info'' ''query_texts'')
                | Some (AddParams a) \<Rightarrow>
                    Inl (unexpected_keyword ''get_collection_info'' ''documents''))
             else Inr None)
      in case task of
           Inl e \<Rightarrow> Inl e
         | Inr None \<Rightarrow> make_tasks lib rest
         | Inr (Some t) \<Rightarrow>
             (case make_tasks lib rest of Inl e \<Rightarrow> Inl e | Inr ts \<Rightarrow> Inr (t # ts)))"

text \<open>The body of the second loop of \<open>batch_operations\<close>: an exception among the
  results becomes a dictionary with its text.\<close>

definition processed :: "exn + json \<Rightarrow> json" where
  "processed result =
     (case result of Inl e \<Rightarrow> JDict [(''error'', JStr (str e))] | Inr v \<Rightarrow> v)"

text \<open>
  \<open>batch_operations\<close>. \<open>asyncio.gather(*tasks, return_exceptions=True)\<close> belongs to the
  library and is a parameter, \<open>gather\<close>: it takes the coroutines and the state they start
  in, runs them interleaved at their suspension points in an order that depends on when
  the awaited replies arrive, and yields what each one returned or raised together with
  the state they left. Nothing is fixed about that order here.
\<close>

definition batch_operations ::
  "(('r AsyncProductionRAGManager \<Rightarrow> (exn + json) \<times> 'r AsyncProductionRAGManager) list \<Rightarrow>
      'r AsyncProductionRAGManager \<Rightarrow> (exn + json) list \<times> 'r AsyncProductionRAGManager) \<Rightarrow>
     'r aiolib \<Rightarrow> operation list \<Rightarrow> 'r AsyncProductionRAGManager \<Rightarrow>
     (exn + json list) \<times> 'r AsyncProductionRAGManager" where
  "batch_operations gather lib operations s =
     (case make_tasks lib operations of
        Inl e \<Rightarrow> (Inl e, s)
      | Inr tasks \<Rightarrow> (case gather tasks s of (results, s1) \<Rightarrow> (Inr (map processed results), s1)))"

section \<open>Histories and example inputs\<close>

text \<open>The breaker after failures were recorded at the times \<open>ts\<close> (oldest first), with
  nothing recorded in between.\<close>

definition record_failures :: "CircuitBreaker \<Rightarrow> real list \<Rightarrow> CircuitBreaker" where
  "record_failures b ts = foldl on_failure b ts"

text \<open>An environment with nothing remote, at a given time.\<close>

definition example_world :: "real \<Rightarrow> unit world" where
  "example_world t = \<lparr>clock = t, slept = [], remote = ()\<rparr>"

text \<open>A breaker with threshold 1 and a timeout of 60 seconds, opened by a failure at time
  0, and the same breaker after the admission check at time 60; the async counterparts,
  checked at time 61.\<close>

definition tripped :: CircuitBreaker where
  "tripped = on_failure (CircuitBreaker_init 1 60) 0"

definition on_trial :: CircuitBreaker where
  "on_trial = snd (can_execute tripped 60)"

definition a_tripped :: AsyncCircuitBreaker where
  "a_tripped = async_record_failure (AsyncCircuitBreaker_init 1 60) 0"

definition a_on_trial :: AsyncCircuitBreaker where
  "a_on_trial = snd (check_state a_tripped 61)"

text \<open>
  A history of a pool: callers acquire and release, the background thread runs
  \<open>_health_check_connections\<close>, and time passes.
\<close>

datatype pool_op = Acquire string int | Release nat | HealthCheck | Wait real

fun pool_step ::
  "'r chromadb \<Rightarrow> ConnectionPool \<times> 'r world \<Rightarrow> pool_op \<Rightarrow> ConnectionPool \<times> 'r world" where
  "pool_step lib (pool, w) (Acquire h p) =
     (case get_connection (HttpClient lib) pool h p w of (r, pool1, w1) \<Rightarrow> (pool1, w1))"
| "pool_step lib (pool, w) (Release c) = (release_connection pool c (clock w), w)"
| "pool_step lib (pool, w) HealthCheck = health_check_connections (heartbeat lib) pool w"
| "pool_step lib (pool, w) (Wait d) = (pool, w\<lparr>clock := clock w + d\<rparr>)"

definition run_pool ::
  "'r chromadb \<Rightarrow> pool_op list \<Rightarrow> ConnectionPool \<times> 'r world \<Rightarrow> ConnectionPool \<times> 'r world" where
  "run_pool lib ops pw = foldl (pool_step lib) pw ops"

definition within_capacity :: "ConnectionPool \<Rightarrow> bool" where
  "within_capacity pool = (int (length (connections pool)) \<le> max_connections pool)"

text \<open>
  Two services for running the sync manager on concrete inputs. In \<open>service_up\<close> every
  library call succeeds; the remote state counts the objects constructed, and the count
  is the identity of the next one. In \<open>service_down\<close> every library call raises.
\<close>

definition service_up :: "nat chromadb" where
  "service_up =
     \<lparr>HttpClient = (\<lambda>h p w. (Inr (remote w), w\<lparr>remote := remote w + 1\<rparr>)),
      heartbeat = (\<lambda>c w. (Inr (), w)),
      list_collections = (\<lambda>c w. (Inr [], w)),
      client_delete_collection = (\<lambda>c name w. (Inr (), w)),
      Chroma = (\<lambda>c name w. (Inr (remote w), w\<lparr>remote := remote w + 1\<rparr>)),
      store_add_documents = (\<lambda>st docs is w. (Inr (), w)),
      store_similarity_search = (\<lambda>st q k w. (Inr [], w))\<rparr>"

definition service_down :: "nat chromadb" where
  "service_down =
     \<lparr>HttpClient = (\<lambda>h p w. (Inl (Exception ''service down''), w)),
      heartbeat = (\<lambda>c w. (Inl (Exception ''service down''), w)),
      list_collections = (\<lambda>c w. (Inl (Exception ''service down''), w)),
      client_delete_collection = (\<lambda>c name w. (Inl (Exception ''service down''), w)),
      Chroma = (\<lambda>c name w. (Inl (Exception ''service down''), w)),
      store_add_documents = (\<lambda>st docs is w. (Inl (Exception ''service down''), w)),
      store_similarity_search = (\<lambda>st q k w. (Inl (Exception ''service down''), w))\<rparr>"

definition world0 :: "nat world" where
  "world0 = \<lparr>clock = 0, slept = [], remote = 0\<rparr>"

text \<open>A sync manager with three attempts and backoff factor 2 whose breaker (threshold 1,
  timeout 60) was opened by a failure at time 0; the clock shows 10.\<close>

definition rejected_manager :: "unit ProductionRAGManager" where
  "rejected_manager =
     (ProductionRAGManager_init ''db'' 8000 20 1 60 3 2 (example_world 10))
        \<lparr>circuit_breaker := tripped\<rparr>"

text \<open>
  Frame conditions on a callable passed to \<open>_retry_with_backoff\<close>: it leaves the retry
  configuration alone (\<open>keeps_retry_config\<close>); and, in addition, it neither sleeps nor
  records failed requests itself (\<open>quiet\<close>), as a callable that does not re-enter the
  executor.
\<close>

definition keeps_retry_config ::
  "('r ProductionRAGManager \<Rightarrow> (exn + 'a) \<times> 'r ProductionRAGManager) \<Rightarrow> bool" where
  "keeps_retry_config func =
     (\<forall>s. retry_attempts (snd (func s)) = retry_attempts s \<and>
          retry_backoff_factor (snd (func s)) = retry_backoff_factor s)"

definition quiet ::
  "('r ProductionRAGManager \<Rightarrow> (exn + 'a) \<times> 'r ProductionRAGManager) \<Rightarrow> bool" where
  "quiet func =
     (\<forall>s. retry_attempts (snd (func s)) = retry_attempts s \<and>
          retry_backoff_factor (snd (func s)) = retry_backoff_factor s \<and>
          slept (world (snd (func s))) = slept (world s) \<and>
          failed_requests (metrics (snd (func s))) = failed_requests (metrics s))"

text \<open>The transport does not sleep.\<close>

definition transport_quiet :: "'r aiolib \<Rightarrow> bool" where
  "transport_quiet lib =
     (\<forall>method url kwargs w. slept (snd (session_request lib method url kwargs w)) = slept w)"

text \<open>A transport that answers from a script: the remote state is the list of the
  outcomes still to come. The cache server is unreachable.\<close>

definition scripted :: "(exn + response) list aiolib" where
  "scripted =
     \<lparr>session_request =
        (\<lambda>method url kwargs w.
           case remote w of
             [] \<Rightarrow> (Inl (Exception ''nothing scripted''), w)
           | r # rs \<Rightarrow> (r, w\<lparr>remote := rs\<rparr>)),
      redis_connect = (\<lambda>w. (Inl (Exception ''connection refused''), w)),
      redis_get = (\<lambda>h k w. (Inl (Exception ''connection refused''), w)),
      redis_setex = (\<lambda>h k t v w. (Inl (Exception ''connection refused''), w)),
      redis_keys = (\<lambda>h p w. (Inl (Exception ''connection refused''), w)),
      redis_delete = (\<lambda>h ks w. (Inl (Exception ''connection refused''), w)),
      json_dumps = (\<lambda>j. Inr ''{}''),
      json_loads = (\<lambda>t. Inr (JDict [])),
      md5_hexdigest = (\<lambda>t. ''d41d8cd9'')\<rparr>"

definition timed_out :: "exn + response" where
  "timed_out = Inl (Exception ''timeout'')"

definition ok_response :: "exn + response" where
  "ok_response = Inr \<lparr>status = 200, response_json = Inr (JDict [(''status'', JStr ''ok'')])\<rparr>"

definition default_config :: ConnectionConfig where
  "default_config =
     \<lparr>cc_retry_attempts = 3, retry_delay = 1, circuit_breaker_threshold = 5,
      circuit_breaker_timeout = 60\<rparr>"

definition script_world :: "(exn + response) list \<Rightarrow> (exn + response) list world" where
  "script_world rs = \<lparr>clock = 0, slept = [], remote = rs\<rparr>"

text \<open>Three requests in a row against the scripted transport; before the third one
  the clock is moved to 100.\<close>

definition after_first :: "AsyncConnectionPool \<times> (exn + response) list world" where
  "after_first =
     snd (request scripted ''GET'' ''/collections'' None
            (AsyncConnectionPool_init ''http://db:8000/api/v1'' default_config,
             script_world [timed_out, timed_out, timed_out,
                           timed_out, timed_out, ok_response,
                           timed_out, timed_out, timed_out]))"

definition after_second :: "AsyncConnectionPool \<times> (exn + response) list world" where
  "after_second = snd (request scripted ''GET'' ''/collections'' None after_first)"

definition third :: "(exn + json) \<times> AsyncConnectionPool \<times> (exn + response) list world" where
  "third =
     request scripted ''GET'' ''/collections'' None
       (fst after_second, (snd after_second)\<lparr>clock := 100\<rparr>)"

text \<open>A callable that always times out, and a fresh sync manager with three attempts,
  factor 2, threshold 5 and timeout 60.\<close>

definition always_timeout ::
  "'r ProductionRAGManager \<Rightarrow> (exn + unit) \<times> 'r ProductionRAGManager" where
  "always_timeout s = (Inl (Exception ''timeout''), s)"

definition fresh_manager :: "unit ProductionRAGManager" where
  "fresh_manager = ProductionRAGManager_init ''db'' 8000 20 5 60 3 2 (example_world 0)"

text \<open>
  The delay the specification gives for the failed attempt \<open>i\<close> under \<open>retry_delay\<close>
  \<open>d\<close> and backoff factor \<open>b\<close>; and the two managers built from a configuration with
  three attempts: the sync manager takes the factor and no delay, the async pool takes
  the delay and no factor.
\<close>

definition spec_delay :: "real \<Rightarrow> real \<Rightarrow> nat \<Rightarrow> real" where
  "spec_delay d b i = d * b ^ i"

definition manager_with_factor :: "real \<Rightarrow> unit ProductionRAGManager" where
  "manager_with_factor b = ProductionRAGManager_init ''db'' 8000 20 5 60 3 b (example_world 0)"

definition pool_with_delay :: "real \<Rightarrow> AsyncConnectionPool" where
  "pool_with_delay d =
     AsyncConnectionPool_init ''http://db:8000/api/v1''
       \<lparr>cc_retry_attempts = 3, retry_delay = d, circuit_breaker_threshold = 5,
        circuit_breaker_timeout = 60\<rparr>"

text \<open>
  The state in which the last attempt starts when every earlier attempt failed: what
  the loop leaves after the attempts \<open>0, ..., retry_attempts - 2\<close> with their recorded
  failures and their sleeps. For the sync executor it is a manager, for the async
  request (admitted by the breaker) a pool and an environment.
\<close>

definition before_last_attempt ::
  "('r ProductionRAGManager \<Rightarrow> (exn + 'a) \<times> 'r ProductionRAGManager) \<Rightarrow> 'r ProductionRAGManager \<Rightarrow>
     'r ProductionRAGManager" where
  "before_last_attempt func s = snd (retry_loop func [0..<nat (retry_attempts s) - 1] None s)"

definition a_before_last_attempt ::
  "'r aiolib \<Rightarrow> string \<Rightarrow> string \<Rightarrow> json option \<Rightarrow> AsyncConnectionPool \<times> 'r world \<Rightarrow>
     AsyncConnectionPool \<times> 'r world" where
  "a_before_last_attempt lib method endpoint kwargs pw =
     (case pw of (pool, w) \<Rightarrow>
        snd (request_loop lib method (base_url pool @ endpoint) kwargs
               [0..<nat (cc_retry_attempts (config pool)) - 1]
               (pool\<lparr>breaker := snd (check_state (breaker pool) (clock w))\<rparr>, w)))"

text \<open>A fresh sync manager (three attempts, factor 2, threshold 5, timeout 60) for the
  services above; and an async manager with the default configuration whose cache server
  was unreachable at \<open>connect\<close>, with the transport script \<open>rs\<close>.\<close>

definition sync0 :: "nat ProductionRAGManager" where
  "sync0 = ProductionRAGManager_init ''db'' 8000 20 5 60 3 2 world0"

definition three_timeouts :: "(exn + response) list" where
  "three_timeouts = [timed_out, timed_out, timed_out]"

definition pool0 :: AsyncConnectionPool where
  "pool0 = AsyncConnectionPool_init ''http://db:8000/api/v1'' default_config"

definition default_cache_config :: CacheConfig where
  "default_cache_config = \<lparr>enabled = True, ttl_seconds = 120, enable_query_cache = True\<rparr>"

definition a_manager :: "(exn + response) list \<Rightarrow> (exn + response) list AsyncProductionRAGManager" where
  "a_manager rs =
     \<lparr>cache_config = default_cache_config,
      a_connection_pool = Some pool0,
      cache = Some \<lparr>redis_config = default_cache_config, redis = None\<rparr>,
      a_metrics = Metrics_init,
      a_world = script_world rs\<rparr>"

definition some_documents :: add_args where
  "some_documents =
     \<lparr>a_collection_name = ''notes'', documents = [''doc''], metadatas = None,
      ids = Some [''id1'']\<rparr>"

definition some_query :: search_args where
  "some_query =
     \<lparr>s_collection_name = ''notes'', query_texts = [''query''], n_results = 10,
      where_filter = JNull, where_document = JNull\<rparr>"

text \<open>A cache object whose client was connected; with the scripted library every call
  to the cache server is refused.\<close>

definition cache0 :: AsyncRedisCache where
  "cache0 = \<lparr>redis_config = default_cache_config, redis = Some 0\<rparr>"

text \<open>The body the service sends for a heartbeat, and a metrics view that computes
  nothing.\<close>

definition heartbeat_reply :: "exn + response" where
  "heartbeat_reply =
     Inr \<lparr>status = 200, response_json = Inr (JDict [(''nanosecond heartbeat'', JNum 1)])\<rparr>"

text \<open>A service whose heartbeat answers and whose other calls raise.\<close>

definition service_degraded :: "nat chromadb" where
  "service_degraded = service_down
     \<lparr>HttpClient := (\<lambda>h p w. (Inr (remote w), w\<lparr>remote := remote w + 1\<rparr>)),
      heartbeat := (\<lambda>c w. (Inr (), w))\<rparr>"

text \<open>A service that accepts connections and raises on every call.\<close>

definition service_unresponsive :: "nat chromadb" where
  "service_unresponsive = service_down
     \<lparr>HttpClient := (\<lambda>h p w. (Inr (remote w), w\<lparr>remote := remote w + 1\<rparr>))\<rparr>"

definition no_metrics :: "ConnectionMetrics \<Rightarrow> exn + unit" where
  "no_metrics m = Inr ()"

text \<open>A metrics view that raises, as \<open>statistics.quantiles\<close> does on too few samples.\<close>

definition failing_metrics :: "ConnectionMetrics \<Rightarrow> exn + unit" where
  "failing_metrics m = Inl (Exception ''no data points'')"

text \<open>
  An operation is recognised when its type is one of the three that \<open>batch_operations\<close>
  dispatches, and well formed when, in addition, its \<open>params\<close> fit the operation of that
  type. \<open>dispatch\<close> is the coroutine a well-formed operation stands for.
\<close>

definition recognised :: "operation \<Rightarrow> bool" where
  "recognised operation =
     (op_type operation = Some ''search'' \<or> op_type operation = Some ''add'' \<or>
      op_type operation = Some ''get_info'')"

definition well_formed :: "operation \<Rightarrow> bool" where
  "well_formed operation =
     (case params operation of
        None \<Rightarrow> False
      | Some (SearchParams a) \<Rightarrow> op_type operation = Some ''search''
      | Some (AddParams a) \<Rightarrow> op_type operation = Some ''add''
      | Some (InfoParams name) \<Rightarrow> op_type operation = Some ''get_info'')"

definition dispatch ::
  "'r aiolib \<Rightarrow> operation \<Rightarrow> 'r AsyncProductionRAGManager \<Rightarrow>
     (exn + json) \<times> 'r AsyncProductionRAGManager" where
  "dispatch lib operation =
     (case params operation of
        None \<Rightarrow> raise (KeyError ''params'')
      | Some (SearchParams a) \<Rightarrow> a_similarity_search lib a
      | Some (AddParams a) \<Rightarrow> a_add_documents lib a
      | Some (InfoParams name) \<Rightarrow> a_get_collection_info lib name)"

text \<open>
  What \<open>asyncio.gather\<close> guarantees to \<open>batch_operations\<close> whatever the interleaving: one
  outcome for every coroutine, in the order of the coroutines.
\<close>

definition one_outcome_per_task ::
  "(('s \<Rightarrow> (exn + 'a) \<times> 's) list \<Rightarrow> 's \<Rightarrow> (exn + 'a) list \<times> 's) \<Rightarrow> bool" where
  "one_outcome_per_task gather = (\<forall>tasks s. length (fst (gather tasks s)) = length tasks)"

text \<open>
  One instance for the examples: every coroutine is resumed until it ends before the
  next one starts. The examples use it on batches of at most one coroutine, where there
  is nothing to interleave, and on a batch whose coroutines get their replies from a
  transport without state, so that no entry of the result depends on the interleaving.
\<close>

fun one_after_another ::
  "('s \<Rightarrow> (exn + 'a) \<times> 's) list \<Rightarrow> 's \<Rightarrow> (exn + 'a) list \<times> 's" where
  "one_after_another [] s = ([], s)"
| "one_after_another (t # ts) s =
     (case t s of (r, s1) \<Rightarrow> (case one_after_another ts s1 of (rs, s2) \<Rightarrow> (r # rs, s2)))"

text \<open>Operations: two of a dispatched type, on the collections \<open>notes\<close> and \<open>missing\<close>,
  one of a type that is not dispatched, and one of a dispatched type without the entry
  \<open>'params'\<close>.\<close>

definition get_info_op :: operation where
  "get_info_op = \<lparr>op_type = Some ''get_info'', params = Some (InfoParams ''notes'')\<rparr>"

definition get_missing_op :: operation where
  "get_missing_op = \<lparr>op_type = Some ''get_info'', params = Some (InfoParams ''missing'')\<rparr>"

definition delete_op :: operation where
  "delete_op = \<lparr>op_type = Some ''delete'', params = Some (InfoParams ''notes'')\<rparr>"

definition add_without_params :: operation where
  "add_without_params = \<lparr>op_type = Some ''add'', params = None\<rparr>"

text \<open>A transport without state: a request for the collection \<open>missing\<close> times out, every
  other request is answered. The cache server is unreachable.\<close>

definition by_url :: "'r aiolib" where
  "by_url =
     \<lparr>session_request =
        (\<lambda>method url kwargs w.
           if url = ''http://db:8000/api/v1/collections/missing''
           then (Inl (Exception ''timeout''), w)
           else (Inr \<lparr>status = 200, response_json = Inr (JDict [(''status'', JStr ''ok'')])\<rparr>, w)),
      redis_connect = (\<lambda>w. (Inl (Exception ''connection refused''), w)),
      redis_get = (\<lambda>h k w. (Inl (Exception ''connection refused''), w)),
      redis_setex = (\<lambda>h k t v w. (Inl (Exception ''connection refused''), w)),
      redis_keys = (\<lambda>h p w. (Inl (Exception ''connection refused''), w)),
      redis_delete = (\<lambda>h ks w. (Inl (Exception ''connection refused''), w)),
      json_dumps = (\<lambda>j. Inr ''{}''),
      json_loads = (\<lambda>t. Inr (JDict [])),
      md5_hexdigest = (\<lambda>t. ''d41d8cd9'')\<rparr>"

text \<open>
  The invariant of the sync breaker: outside CLOSED the failure counter has reached the
  threshold. \<open>leaves_breaker\<close> says that a callable does not use the breaker itself.
\<close>

definition cb_inv :: "CircuitBreaker \<Rightarrow> bool" where
  "cb_inv b = (cb_state b = CLOSED \<or> failure_threshold b \<le> cb_failure_count b)"

definition leaves_breaker ::
  "('r ProductionRAGManager \<Rightarrow> (exn + 'a) \<times> 'r ProductionRAGManager) \<Rightarrow> bool" where
  "leaves_breaker func = (\<forall>s. circuit_breaker (snd (func s)) = circuit_breaker s)"

text \<open>A sync manager whose breaker is on trial at time 70, and an async pool whose
  breaker was opened at time 0.\<close>

definition trial_manager :: "unit ProductionRAGManager" where
  "trial_manager =
     (ProductionRAGManager_init ''db'' 8000 20 1 60 3 2 (example_world 70))
        \<lparr>circuit_breaker := on_trial\<rparr>"

definition tripped_pool :: AsyncConnectionPool where
  "tripped_pool = pool0\<lparr>breaker := a_tripped\<rparr>"

section \<open>The circuit breaker of the sync manager\<close>

lemma on_failure_frame:
  "failure_threshold (on_failure b t) = failure_threshold b"
  "recovery_timeout (on_failure b t) = recovery_timeout b"
  "expected_exception (on_failure b t) = expected_exception b"
  "cb_failure_count (on_failure b t) = cb_failure_count b + 1"
  "cb_last_failure_time (on_failure b t) = Some t"
  by (simp_all add: on_failure_def Let_def)

lemma on_failure_state:
  "cb_state (on_failure b t) =
     (if failure_threshold b \<le> cb_failure_count b + 1 then OPEN else cb_state b)"
  by (simp add: on_failure_def Let_def)

lemma record_failures_snoc:
  "record_failures b (ts @ [t]) = on_failure (record_failures b ts) t"
  by (simp add: record_failures_def)

lemma record_failures_frame:
  "failure_threshold (record_failures b ts) = failure_threshold b"
  "recovery_timeout (record_failures b ts) = recovery_timeout b"
  "cb_failure_count (record_failures b ts) = cb_failure_count b + int (length ts)"
  by (induction ts rule: rev_induct)
     (simp_all add: record_failures_snoc on_failure_frame, simp_all add: record_failures_def)

lemma record_failures_open:
  assumes "0 \<le> cb_failure_count b" and "ts \<noteq> []"
    and "failure_threshold b \<le> int (length ts)"
  shows "cb_state (record_failures b ts) = OPEN \<and>
         cb_last_failure_time (record_failures b ts) = Some (last ts)"
proof -
  obtain us t where ts: "ts = us @ [t]"
    using assms(2) by (metis rev_exhaust)
  have "failure_threshold b \<le> cb_failure_count (record_failures b us) + 1"
    using assms(1,3) by (simp add: record_failures_frame ts)
  then show ?thesis
    by (simp add: ts record_failures_snoc on_failure_state on_failure_frame record_failures_frame)
qed

text \<open>
  Claim C1. Take a breaker whose failure counter is not negative (it starts at 0 and is
  only incremented or reset to 0) and record at least \<open>failure_threshold\<close> failures, at
  least one, with nothing in between. Then every call made while less than
  \<open>recovery_timeout\<close> has elapsed since the last of these failures raises
  \<open>Exception("Circuit breaker is open")\<close>, and the manager and the environment are left
  exactly as they were: the result does not depend on the wrapped callable, which is not
  invoked. As the breaker is unchanged, the same holds for the next call.
\<close>

theorem open_breaker_rejects_calls:
  assumes "0 \<le> cb_failure_count b" and "ts \<noteq> []"
    and "failure_threshold b \<le> int (length ts)"
    and "circuit_breaker s = record_failures b ts"
    and "clock (world s) - last ts < recovery_timeout b"
  shows "call func s = (Inl (Exception ''Circuit breaker is open''), s)"
proof -
  have st: "cb_state (circuit_breaker s) = OPEN"
    and lt: "cb_last_failure_time (circuit_breaker s) = Some (last ts)"
    using record_failures_open [OF assms(1-3)] assms(4) by simp_all
  have rt: "recovery_timeout (circuit_breaker s) = recovery_timeout b"
    using assms(4) by (simp add: record_failures_frame)
  have "can_execute (circuit_breaker s) (clock (world s)) = (Inr False, circuit_breaker s)"
    using st lt rt assms(5) by (simp add: can_execute_def)
  then show ?thesis
    using st by (simp add: call_def)
qed

theorem open_breaker_rejects_calls_witness:
  "call (\<lambda>s. (Inr (), s))
     ((ProductionRAGManager_init ''db'' 8000 20 2 60 3 2 (example_world 30))
        \<lparr>circuit_breaker := record_failures (CircuitBreaker_init 2 60) [1, 2]\<rparr>)
   = (Inl (Exception ''Circuit breaker is open''),
      (ProductionRAGManager_init ''db'' 8000 20 2 60 3 2 (example_world 30))
        \<lparr>circuit_breaker := record_failures (CircuitBreaker_init 2 60) [1, 2]\<rparr>)"
  by (rule open_breaker_rejects_calls [where b = "CircuitBreaker_init 2 60" and ts = "[1, 2]"])
     (simp_all add: CircuitBreaker_init_def ProductionRAGManager_init_def example_world_def)

text \<open>
  Claim C7, as stated, fails: the admission check returns \<open>True\<close> for every call that
  finds the breaker in HALF_OPEN and leaves the state as it is, so a second call is
  admitted before the first trial has recorded an outcome. Here the breaker opened at
  time 0 is checked at 60 (trial admitted, state HALF_OPEN) and again at 61 (admitted,
  state still HALF_OPEN); the async breaker behaves the same at 61 and 62.
\<close>

theorem half_open_second_call_counterexample:
  "fst (can_execute tripped 60) = Inr True \<and> cb_state on_trial = HALF_OPEN \<and>
   can_execute on_trial 61 = (Inr True, on_trial) \<and>
   fst (check_state a_tripped 61) = Inr () \<and> state a_on_trial = A_HALF_OPEN \<and>
   check_state a_on_trial 62 = (Inr (), a_on_trial)"
  by (simp add: tripped_def on_trial_def a_tripped_def a_on_trial_def can_execute_def
      on_failure_def CircuitBreaker_init_def check_state_def async_record_failure_def
      AsyncCircuitBreaker_init_def Let_def)

text \<open>
  Claim C7, amended. Once \<open>recovery_timeout\<close> has elapsed since the last failure, the
  admission check moves an OPEN breaker to HALF_OPEN and admits the call; and every call
  that finds the breaker in HALF_OPEN is admitted, with the breaker unchanged. The number
  of calls admitted in HALF_OPEN is not limited; the state is left only when an outcome is
  recorded. This holds for \<open>_can_execute\<close> of the sync breaker and for \<open>_check_state\<close> of
  the async breaker (whose timeout comparison is strict).
\<close>

theorem half_open_admits_every_call:
  "(cb_state b = OPEN \<and> cb_last_failure_time b = Some t \<and> recovery_timeout b \<le> now - t \<longrightarrow>
      can_execute b now = (Inr True, b\<lparr>cb_state := HALF_OPEN\<rparr>)) \<and>
   (cb_state b = HALF_OPEN \<longrightarrow> can_execute b now = (Inr True, b)) \<and>
   (state ab = A_OPEN \<and> timeout ab < now - last_failure_time ab \<longrightarrow>
      check_state ab now = (Inr (), ab\<lparr>state := A_HALF_OPEN\<rparr>)) \<and>
   (state ab = A_HALF_OPEN \<longrightarrow> check_state ab now = (Inr (), ab))"
  by (simp add: can_execute_def check_state_def)

theorem half_open_admits_every_call_witness:
  "can_execute tripped 60 = (Inr True, tripped\<lparr>cb_state := HALF_OPEN\<rparr>) \<and>
   can_execute on_trial 61 = (Inr True, on_trial) \<and>
   check_state a_tripped 61 = (Inr (), a_tripped\<lparr>state := A_HALF_OPEN\<rparr>) \<and>
   check_state a_on_trial 62 = (Inr (), a_on_trial)"
proof -
  have 1: "cb_state tripped = OPEN \<and> cb_last_failure_time tripped = Some 0 \<and>
           recovery_timeout tripped \<le> 60 - 0"
    by (simp add: tripped_def on_failure_def CircuitBreaker_init_def Let_def)
  have 2: "cb_state on_trial = HALF_OPEN"
    by (simp add: on_trial_def tripped_def can_execute_def on_failure_def
        CircuitBreaker_init_def Let_def)
  have 3: "state a_tripped = A_OPEN \<and> timeout a_tripped < 61 - last_failure_time a_tripped"
    by (simp add: a_tripped_def async_record_failure_def AsyncCircuitBreaker_init_def Let_def)
  have 4: "state a_on_trial = A_HALF_OPEN"
    by (simp add: a_on_trial_def a_tripped_def check_state_def async_record_failure_def
        AsyncCircuitBreaker_init_def Let_def)
  show ?thesis
    using half_open_admits_every_call [of tripped 0 60 a_tripped]
      half_open_admits_every_call [of on_trial 0 61 a_on_trial]
      half_open_admits_every_call [of tripped 0 62 a_on_trial]
      half_open_admits_every_call [of tripped 0 61 a_tripped]
      1 2 3 4
    by simp
qed

section \<open>The connection pool\<close>

lemma take_available_length:
  "take_available h p idle now conns = Some (c, conns') \<Longrightarrow> length conns' = length conns"
  by (induction conns arbitrary: conns') (auto split: if_splits option.splits)

lemma take_available_None:
  "take_available h p idle now conns = None \<longleftrightarrow> \<not> list_ex (available h p idle now) conns"
  by (induction conns) (auto split: option.splits)

lemma release_first_length: "length (release_first c now conns) = length conns"
  by (induction conns) auto

lemma health_check_scan_length:
  "length (fst (health_check_scan hb todo conns w)) \<le> length conns"
proof (induction todo arbitrary: conns w)
  case Nil
  then show ?case by simp
next
  case (Cons conn rest)
  have "length (remove1 conn conns) \<le> length conns"
    by (simp add: length_remove1)
  then show ?case
    using Cons.IH [of conns] Cons.IH [of "remove1 conn conns"]
    by (auto split: prod.splits sum.splits intro: order_trans)
qed

lemma get_connection_capacity:
  assumes "within_capacity pool" and "get_connection mk pool h p w = (r, pool1, w1)"
  shows "within_capacity pool1 \<and> max_connections pool1 = max_connections pool"
  using assms
  by (auto simp: get_connection_def within_capacity_def take_available_length
      split: option.splits prod.splits sum.splits if_splits)

lemma pool_step_capacity:
  assumes "within_capacity (fst pw)"
  shows "within_capacity (fst (pool_step lib pw op)) \<and>
         max_connections (fst (pool_step lib pw op)) = max_connections (fst pw)"
proof (cases pw)
  case (Pair pool w)
  show ?thesis
  proof (cases op)
    case (Acquire h p)
    obtain r pool1 w1 where g: "get_connection (HttpClient lib) pool h p w = (r, pool1, w1)"
      by (metis prod_cases3)
    show ?thesis
      using get_connection_capacity [OF _ g] assms by (simp add: Pair Acquire g)
  next
    case (Release c)
    then show ?thesis
      using assms
      by (simp add: Pair release_connection_def within_capacity_def release_first_length)
  next
    case HealthCheck
    have "length (fst (health_check_scan (heartbeat lib) (connections pool) (connections pool) w))
            \<le> length (connections pool)"
      by (rule health_check_scan_length)
    then show ?thesis
      using assms
      by (auto simp: Pair HealthCheck health_check_connections_def within_capacity_def
          split: prod.splits)
  next
    case (Wait d)
    then show ?thesis using assms by (simp add: Pair)
  qed
qed

lemma run_pool_capacity:
  "within_capacity (fst pw) \<Longrightarrow>
     within_capacity (fst (run_pool lib ops pw)) \<and>
     max_connections (fst (run_pool lib ops pw)) = max_connections (fst pw)"
proof (induction ops arbitrary: pw)
  case Nil
  then show ?case by (simp add: run_pool_def)
next
  case (Cons op ops)
  have "within_capacity (fst (pool_step lib pw op))"
    and "max_connections (fst (pool_step lib pw op)) = max_connections (fst pw)"
    using pool_step_capacity [OF Cons.prems] by simp_all
  then show ?case
    using Cons.IH [of "pool_step lib pw op"] by (simp add: run_pool_def)
qed

lemma active_le_length: "active_connections pool \<le> length (connections pool)"
  by (simp add: active_connections_def)

text \<open>
  Claim C3. Starting from the empty pool with limit \<open>max_connections = n\<close> (not negative),
  after every history of acquires, releases, health checks and waiting the number of
  entries marked in use is at most \<open>n\<close>. And whenever no entry is available for the
  requested host and port (matching, free and not idle-expired) and the pool holds
  \<open>max_connections\<close> entries or more, \<open>get_connection\<close> raises
  \<open>Exception("Connection pool exhausted")\<close>; the constructor is not called and the pool
  and the environment are unchanged.
\<close>

theorem pool_never_exceeds_max_connections:
  "(0 \<le> n \<longrightarrow>
      int (active_connections (fst (run_pool lib ops (ConnectionPool_init n idle, w)))) \<le> n) \<and>
   (\<not> list_ex (available h p (max_idle_time pool) (clock w')) (connections pool) \<and>
    max_connections pool \<le> int (length (connections pool)) \<longrightarrow>
      get_connection mk pool h p w' = (Inl (Exception ''Connection pool exhausted''), pool, w'))"
proof (intro conjI impI)
  assume n: "0 \<le> n"
  let ?p = "fst (run_pool lib ops (ConnectionPool_init n idle, w))"
  have "within_capacity (fst (ConnectionPool_init n idle, w))"
    using n by (simp add: within_capacity_def ConnectionPool_init_def)
  from run_pool_capacity [OF this, of lib ops]
  have "int (length (connections ?p)) \<le> n"
    by (simp add: within_capacity_def ConnectionPool_init_def)
  moreover have "int (active_connections ?p) \<le> int (length (connections ?p))"
    using active_le_length [of ?p] by simp
  ultimately show "int (active_connections ?p) \<le> n" by linarith
next
  assume "\<not> list_ex (available h p (max_idle_time pool) (clock w')) (connections pool) \<and>
    max_connections pool \<le> int (length (connections pool))"
  then show "get_connection mk pool h p w' = (Inl (Exception ''Connection pool exhausted''), pool, w')"
    by (simp add: get_connection_def take_available_None [symmetric])
qed


theorem pool_never_exceeds_max_connections_witness:
  "int (active_connections
          (fst (run_pool service_up [Acquire ''db'' 8000, Acquire ''db'' 8000]
                  (ConnectionPool_init 1 300, world0)))) \<le> 1 \<and>
   get_connection (HttpClient service_up)
     (fst (run_pool service_up [Acquire ''db'' 8000] (ConnectionPool_init 1 300, world0)))
     ''db'' 8000 (world0\<lparr>clock := 5\<rparr>)
   = (Inl (Exception ''Connection pool exhausted''),
      fst (run_pool service_up [Acquire ''db'' 8000] (ConnectionPool_init 1 300, world0)),
      world0\<lparr>clock := 5\<rparr>)"
proof -
  let ?pool = "fst (run_pool service_up [Acquire ''db'' 8000] (ConnectionPool_init 1 300, world0))"
  have pool: "?pool = \<lparr>max_connections = 1, max_idle_time = 300,
      connections = [\<lparr>client = 0, host = ''db'', port = 8000, in_use = True,
                      created = 0, last_used = 0\<rparr>]\<rparr>"
    by (simp add: run_pool_def get_connection_def ConnectionPool_init_def service_up_def
        world0_def)
  have hyp: "\<not> list_ex (available ''db'' 8000 (max_idle_time ?pool) (clock (world0\<lparr>clock := 5\<rparr>)))
                 (connections ?pool) \<and>
             max_connections ?pool \<le> int (length (connections ?pool))"
    unfolding pool by (simp add: available_def)
  show ?thesis
    using pool_never_exceeds_max_connections
            [of 1 service_up "[Acquire ''db'' 8000, Acquire ''db'' 8000]" 300 world0
                "''db''" 8000 ?pool "world0\<lparr>clock := 5\<rparr>" "HttpClient service_up"]
          hyp
    by simp
qed

section \<open>The retry loop of the sync manager\<close>

lemma upt3: "[0..<3] = [0, 1, 2]"
  by (simp add: upt_rec)

lemmas eval_async =
  request_def pool_request_def pool0_def AsyncConnectionPool_init_def default_config_def
  AsyncCircuitBreaker_init_def check_state_def script_world_def upt3 send_def scripted_def
  timed_out_def three_timeouts_def ensure_session_def async_record_failure_def
  asyncio_sleep_def Let_def

lemmas eval_sync =
  retry_with_backoff_def sync0_def ProductionRAGManager_init_def world0_def upt3
  call_def can_execute_def CircuitBreaker_init_def add_docs_def search_def delete_def
  get_vector_store_def create_store_def with_connection_def get_connection_def
  ConnectionPool_init_def service_down_def record_failure_def sleep_def on_failure_def
  ConnectionMetrics_init_def Let_def

text \<open>
  Claim C2 (the code departs from it). In \<open>_retry_with_backoff\<close> the breaker's
  rejection is an exception like any other: it is caught by \<open>except Exception\<close>,
  counted as a failed request, followed by the backoff sleep, and the call is tried
  again. With three attempts and factor 2, a call made at time 10 against a breaker that
  stays open until 60 is rejected three times, sleeps 1 and 2 seconds, and surfaces the
  rejection at time 13, whatever the wrapped callable is.
\<close>

theorem rejected_call_is_retried_with_backoff:
  "fst (retry_with_backoff func rejected_manager) = Inl (Exception ''Circuit breaker is open'') \<and>
   slept (world (snd (retry_with_backoff func rejected_manager))) = [1, 2] \<and>
   clock (world (snd (retry_with_backoff func rejected_manager))) = 13 \<and>
   failed_requests (metrics (snd (retry_with_backoff func rejected_manager))) = 3"
  by (simp add: retry_with_backoff_def rejected_manager_def ProductionRAGManager_init_def
      example_world_def tripped_def on_failure_def CircuitBreaker_init_def Let_def upt3
      call_def can_execute_def record_failure_def sleep_def ConnectionMetrics_init_def)

lemma call_quiet:
  assumes "quiet func"
  shows "retry_attempts (snd (call func s)) = retry_attempts s \<and>
         retry_backoff_factor (snd (call func s)) = retry_backoff_factor s \<and>
         slept (world (snd (call func s))) = slept (world s) \<and>
         failed_requests (metrics (snd (call func s))) = failed_requests (metrics s)"
proof -
  have q: "retry_attempts (snd (func (s\<lparr>circuit_breaker := b\<rparr>))) = retry_attempts s \<and>
         retry_backoff_factor (snd (func (s\<lparr>circuit_breaker := b\<rparr>))) = retry_backoff_factor s \<and>
         slept (world (snd (func (s\<lparr>circuit_breaker := b\<rparr>)))) = slept (world s) \<and>
         failed_requests (metrics (snd (func (s\<lparr>circuit_breaker := b\<rparr>)))) = failed_requests (metrics s)"
    for b
    using assms [unfolded quiet_def, rule_format, of "s\<lparr>circuit_breaker := b\<rparr>"] by simp
  obtain r b where c: "can_execute (circuit_breaker s) (clock (world s)) = (r, b)"
    by (metis surj_pair)
  obtain r1 s1 where f: "func (s\<lparr>circuit_breaker := b\<rparr>) = (r1, s1)"
    by (metis surj_pair)
  show ?thesis
    using q [of b]
    by (simp add: call_def c f split: sum.splits bool.splits)
qed

lemma retry_loop_sleeps:
  assumes "quiet func" and "0 \<le> retry_backoff_factor s" and "n = nat (retry_attempts s)"
    and "k \<le> n"
  shows "failed_requests (metrics s) \<le> failed_requests (metrics (snd (retry_loop func [k..<n] lx s))) \<and>
         slept (world (snd (retry_loop func [k..<n] lx s))) =
           slept (world s) @ map (\<lambda>i. retry_backoff_factor s ^ i)
             [k..<min (k + nat (failed_requests (metrics (snd (retry_loop func [k..<n] lx s)))
                               - failed_requests (metrics s))) (n - 1)]"
  using assms(2-)
proof (induction "n - k" arbitrary: k s lx)
  case 0
  then have "k = n" by simp
  then show ?case by (simp split: option.splits)
next
  case (Suc m)
  then have kn: "k < n" by simp
  then have upt: "[k..<n] = k # [Suc k..<n]" by (simp add: upt_conv_Cons)
  obtain r s1 where c: "call func s = (r, s1)" by (metis surj_pair)
  have fr: "retry_attempts s1 = retry_attempts s" "retry_backoff_factor s1 = retry_backoff_factor s"
    "slept (world s1) = slept (world s)" "failed_requests (metrics s1) = failed_requests (metrics s)"
    using call_quiet [OF assms(1), of s] by (simp_all add: c)
  show ?case
  proof (cases r)
    case (Inr v)
    then show ?thesis
      by (simp add: upt c fr record_success_def Let_def)
  next
    case (Inl e)
    let ?s2 = "record_failure s1"
    have s2: "retry_attempts ?s2 = retry_attempts s" "retry_backoff_factor ?s2 = retry_backoff_factor s"
      "slept (world ?s2) = slept (world s)"
      "failed_requests (metrics ?s2) = failed_requests (metrics s) + 1"
      by (simp_all add: record_failure_def Let_def fr)
    show ?thesis
    proof (cases "int k < retry_attempts s - 1")
      case True
      then have k1: "Suc k \<le> n" "k < n - 1" using Suc.prems(2) by linarith+
      let ?d = "retry_backoff_factor s ^ k"
      let ?s3 = "?s2\<lparr>world := (world ?s2)\<lparr>clock := clock (world ?s2) + ?d,
                                              slept := slept (world ?s2) @ [?d]\<rparr>\<rparr>"
      have d: "0 \<le> ?d" using Suc.prems(1) by simp
      have step: "retry_loop func [k..<n] lx s = retry_loop func [Suc k..<n] (Some e) ?s3"
        using True Suc.prems(1) by (simp add: upt c Inl s2 sleep_def Let_def)
      have s3: "retry_attempts ?s3 = retry_attempts s" "retry_backoff_factor ?s3 = retry_backoff_factor s"
        "slept (world ?s3) = slept (world s) @ [?d]"
        "failed_requests (metrics ?s3) = failed_requests (metrics s) + 1"
        by (simp_all add: s2)
      have m: "m = n - Suc k" using Suc.hyps(2) by simp
      note IH = Suc.hyps(1) [OF m, of ?s3 "Some e", unfolded s3, OF Suc.prems(1) Suc.prems(2) k1(1)]
      let ?f' = "failed_requests (metrics (snd (retry_loop func [Suc k..<n] (Some e) ?s3)))"
      have ge: "failed_requests (metrics s) + 1 \<le> ?f'" using IH by simp
      have f: "nat (?f' - failed_requests (metrics s)) = Suc (nat (?f' - (failed_requests (metrics s) + 1)))"
        using ge by linarith
      have lt: "k < min (k + nat (?f' - failed_requests (metrics s))) (n - 1)"
        using k1(2) f by simp
      have sl: "slept (world (snd (retry_loop func [Suc k..<n] (Some e) ?s3))) =
          (slept (world s) @ [?d]) @ map (\<lambda>i. retry_backoff_factor s ^ i)
             [Suc k..<min (Suc k + nat (?f' - (failed_requests (metrics s) + 1))) (n - 1)]"
        using IH by simp
      show ?thesis
        unfolding step
        using ge sl f upt_conv_Cons [OF lt] by simp
    next
      case False
      then have last: "Suc k = n" using kn Suc.prems(2) by linarith
      then have rest: "[Suc k..<n] = []" by simp
      have res: "retry_loop func [k..<n] lx s = (Inl e, ?s2)"
        using False by (simp add: upt rest c Inl s2 Let_def)
      have "min (k + nat (failed_requests (metrics ?s2) - failed_requests (metrics s))) (n - 1) \<le> k"
        using last by simp
      then show ?thesis
        unfolding res by (simp add: s2)
    qed
  qed
qed

section \<open>The request loop and the breaker of the async manager\<close>

lemma after_first_eq:
  "after_first =
     (\<lparr>base_url = ''http://db:8000/api/v1'', config = default_config, session_open = True,
        breaker = \<lparr>threshold = 5, timeout = 60, state = A_CLOSED, failure_count = 3,
                   last_failure_time = 3\<rparr>\<rparr>,
      \<lparr>clock = 3, slept = [1, 2],
        remote = [timed_out, timed_out, ok_response, timed_out, timed_out, timed_out]\<rparr>)"
  by (simp add: after_first_def request_def AsyncConnectionPool_init_def default_config_def
      AsyncCircuitBreaker_init_def check_state_def script_world_def upt3 send_def scripted_def
      timed_out_def ensure_session_def async_record_failure_def asyncio_sleep_def Let_def)

lemma after_second_eq:
  "after_second =
     (\<lparr>base_url = ''http://db:8000/api/v1'', config = default_config, session_open = True,
        breaker = \<lparr>threshold = 5, timeout = 60, state = A_OPEN, failure_count = 0,
                   last_failure_time = 4\<rparr>\<rparr>,
      \<lparr>clock = 6, slept = [1, 2, 1, 2],
        remote = [timed_out, timed_out, timed_out]\<rparr>)"
  unfolding after_second_def after_first_eq
  by (simp add: request_def default_config_def
      check_state_def upt3 send_def scripted_def ok_response_def
      timed_out_def ensure_session_def async_record_failure_def async_record_success_def
      asyncio_sleep_def Let_def)

text \<open>
  Claim C4 (the async breaker departs from it). With the default configuration (three
  attempts, threshold 5, timeout 60) a first request fails three times; a second one
  fails twice, which opens the breaker, and then succeeds, which resets the counter but
  leaves the breaker OPEN. After the timeout a third request finds the breaker OPEN,
  moves it to HALF_OPEN, and fails three times: the counter only reaches 3, below the
  threshold, and the breaker is left in HALF_OPEN, not in OPEN.
\<close>

theorem failed_trial_leaves_breaker_half_open:
  "state (breaker (fst after_second)) = A_OPEN \<and>
   fst third = Inl (Exception ''timeout'') \<and>
   state (breaker (fst (snd third))) = A_HALF_OPEN \<and>
   failure_count (breaker (fst (snd third))) = 3"
  unfolding third_def after_second_eq
  by (simp add: request_def default_config_def
      check_state_def upt3 send_def scripted_def
      timed_out_def ensure_session_def async_record_failure_def
      asyncio_sleep_def Let_def)

lemma request_loop_last_attempt:
  assumes "n = nat (cc_retry_attempts (config pool))" and "k < n"
    and "request_loop lib meth url kwargs [k..<n] (pool, w) = (Inl e, pool', w')"
  shows "send lib meth url kwargs
           (snd (snd (request_loop lib meth url kwargs [k..<n - 1] (pool, w)))) = (Inl e, w') \<and>
         pool' = (ensure_session (fst (snd (request_loop lib meth url kwargs [k..<n - 1] (pool, w)))))
                   \<lparr>breaker := async_record_failure
                       (breaker (fst (snd (request_loop lib meth url kwargs [k..<n - 1] (pool, w)))))
                       (clock w')\<rparr>"
  using assms
proof (induction "n - k" arbitrary: k pool w)
  case 0
  then show ?case by simp
next
  case (Suc m)
  have upt: "[k..<n] = k # [Suc k..<n]" using Suc.prems(2) by (simp add: upt_conv_Cons)
  obtain r1 w1 where s: "send lib meth url kwargs w = (r1, w1)" by (metis surj_pair)
  show ?case
  proof (cases r1)
    case (Inr d)
    then show ?thesis using Suc.prems(3) by (simp add: upt s Let_def)
  next
    case (Inl e1)
    let ?pool2 = "(ensure_session pool)\<lparr>breaker := async_record_failure (breaker (ensure_session pool)) (clock w1)\<rparr>"
    have cfg: "config ?pool2 = config pool" by (simp add: ensure_session_def)
    show ?thesis
    proof (cases "int k = cc_retry_attempts (config pool) - 1")
      case True
      then have last: "k = n - 1" using Suc.prems(1,2) by linarith
      then have rest: "[k..<n - 1] = []" by simp
      have res: "e1 = e" "w1 = w'" "pool' = ?pool2"
        using Suc.prems(3) True by (auto simp add: upt s Inl Let_def ensure_session_def)
      show ?thesis
        unfolding rest using s Inl res by (simp add: ensure_session_def)
    next
      case False
      then have k1: "Suc k < n" "k < n - 1" using Suc.prems(1,2) by linarith+
      let ?d = "retry_delay (config pool) * 2 ^ k"
      have step: "request_loop lib meth url kwargs [Suc k..<n] (?pool2, asyncio_sleep ?d w1) = (Inl e, pool', w')"
        using Suc.prems(3) False by (simp add: upt s Inl Let_def ensure_session_def)
      have pre: "request_loop lib meth url kwargs [k..<n - 1] (pool, w) =
                 request_loop lib meth url kwargs [Suc k..<n - 1] (?pool2, asyncio_sleep ?d w1)"
        using False k1(2) by (simp add: upt_conv_Cons s Inl Let_def ensure_session_def)
      have m: "m = n - Suc k" using Suc.hyps(2) by simp
      have n2: "n = nat (cc_retry_attempts (config ?pool2))" using Suc.prems(1) cfg by simp
      show ?thesis
        unfolding pre by (rule Suc.hyps(1) [OF m n2 k1(1) step])
    qed
  qed
qed

lemma send_quiet:
  assumes "transport_quiet lib"
  shows "slept (snd (send lib meth url kwargs w)) = slept w"
proof -
  obtain r w1 where s: "session_request lib meth url kwargs w = (r, w1)"
    by (metis surj_pair)
  have "slept w1 = slept w"
    using assms [unfolded transport_quiet_def, rule_format, of meth url kwargs w]
    by (simp add: s)
  then show ?thesis
    by (simp add: send_def s split: sum.splits)
qed

lemma request_loop_sleeps:
  assumes "transport_quiet lib" and "n = nat (cc_retry_attempts (config pool))" and "k \<le> n"
    and "request_loop lib meth url kwargs [k..<n] (pool, w) = (r, pool', w')"
  shows "\<exists>j. k \<le> j \<and> j \<le> max k (n - 1) \<and>
           slept w' = slept w @ map (\<lambda>i. retry_delay (config pool) * 2 ^ i) [k..<j] \<and>
           (isl r \<longrightarrow> j = n - 1)"
  using assms(2-)
proof (induction "n - k" arbitrary: k pool w)
  case 0
  then have "k = n" by simp
  then show ?case using "0.prems"(3) by auto
next
  case (Suc m)
  then have kn: "k < n" by simp
  then have upt: "[k..<n] = k # [Suc k..<n]" by (simp add: upt_conv_Cons)
  obtain r1 w1 where s: "send lib meth url kwargs w = (r1, w1)" by (metis surj_pair)
  have sl: "slept w1 = slept w" using send_quiet [OF assms(1), of meth url kwargs w] by (simp add: s)
  show ?case
  proof (cases r1)
    case (Inr d)
    then have "r = Inr d" "w' = w1"
      using Suc.prems(3) by (simp_all add: upt s Let_def)
    then show ?thesis using sl by (intro exI [of _ k]) simp
  next
    case (Inl e)
    let ?pool2 = "(ensure_session pool)\<lparr>breaker := async_record_failure (breaker (ensure_session pool)) (clock w1)\<rparr>"
    have cfg: "config ?pool2 = config pool" by (simp add: ensure_session_def)
    show ?thesis
    proof (cases "int k = cc_retry_attempts (config pool) - 1")
      case True
      then have "r = Inl e" "w' = w1"
        using Suc.prems(3) by (simp_all add: upt s Inl Let_def ensure_session_def)
      moreover have "k = n - 1" using True Suc.prems(1) by linarith
      ultimately show ?thesis using sl by (intro exI [of _ k]) simp
    next
      case False
      then have k1: "Suc k \<le> n" "k < n - 1" using kn Suc.prems(1) by linarith+
      let ?d = "retry_delay (config pool) * 2 ^ k"
      have step: "request_loop lib meth url kwargs [Suc k..<n] (?pool2, asyncio_sleep ?d w1) = (r, pool', w')"
        using Suc.prems(3) False by (simp add: upt s Inl Let_def ensure_session_def)
      have m: "m = n - Suc k" using Suc.hyps(2) by simp
      have n2: "n = nat (cc_retry_attempts (config ?pool2))" using Suc.prems(1) cfg by simp
      from Suc.hyps(1) [OF m n2 k1(1) step]
      obtain j where j: "Suc k \<le> j" "j \<le> max (Suc k) (n - 1)"
        "slept w' = slept (asyncio_sleep ?d w1) @ map (\<lambda>i. retry_delay (config ?pool2) * 2 ^ i) [Suc k..<j]"
        "isl r \<longrightarrow> j = n - 1"
        by blast
      have kj: "k < j" using j(1) by simp
      have "slept w' = slept w @ map (\<lambda>i. retry_delay (config pool) * 2 ^ i) [k..<j]"
        using j(3) sl by (simp add: asyncio_sleep_def ensure_session_def upt_conv_Cons [OF kj])
      moreover have "j \<le> max k (n - 1)" using j(2) k1(2) by simp
      ultimately show ?thesis using j(4) kj by (intro exI [of _ j]) simp
    qed
  qed
qed

section \<open>Backoff\<close>

text \<open>
  Claim C5, as stated, fails: neither executor computes \<open>retry_delay * backoff_factor ^ i\<close>
  from a delay and a factor. For three attempts, \<open>retry_delay = 1/2\<close> and factor 3 the
  specification gives the delays 1/2 and 3/2. The sync manager is built from the factor
  alone and sleeps 1 and 3; the async pool is built from the delay alone and sleeps 1/2
  and 1. And a sync manager with the factor -2 sleeps 1 after the first failure and then
  hands -2 to \<open>time.sleep\<close>, which raises \<open>ValueError\<close>: there is no second sleep and no
  third attempt.
\<close>

theorem backoff_parameters_counterexample:
  "map (spec_delay (1/2) 3) [0, 1] = [1/2, 3/2] \<and>
   slept (world (snd (retry_with_backoff always_timeout (manager_with_factor 3)))) = [1, 3] \<and>
   slept (snd (snd (request scripted ''GET'' ''/collections'' None
            (pool_with_delay (1/2), script_world three_timeouts)))) = [1/2, 1] \<and>
   fst (retry_with_backoff always_timeout (manager_with_factor (- 2))) =
     Inl (ValueError ''sleep length must be non-negative'') \<and>
   slept (world (snd (retry_with_backoff always_timeout (manager_with_factor (- 2))))) = [1] \<and>
   failed_requests (metrics (snd (retry_with_backoff always_timeout (manager_with_factor (- 2))))) = 2"
  by (simp add: spec_delay_def retry_with_backoff_def manager_with_factor_def
      ProductionRAGManager_init_def example_world_def CircuitBreaker_init_def Let_def upt3
      always_timeout_def on_failure_def call_def can_execute_def record_failure_def sleep_def
      ConnectionMetrics_init_def request_def pool_with_delay_def AsyncConnectionPool_init_def
      AsyncCircuitBreaker_init_def check_state_def script_world_def send_def scripted_def
      timed_out_def three_timeouts_def ensure_session_def async_record_failure_def
      asyncio_sleep_def)

text \<open>
  Claim C5, amended. The sync executor has a backoff factor and no delay, the async
  request a delay and the constant factor 2.

  Sync, for every callable (the closures of the facade, which re-enter the executor,
  included) and every state in which attempt \<open>i\<close> starts: when the call through the
  breaker raises and \<open>i\<close> is not the last attempt, then, with \<open>b\<close> the backoff factor, a
  power \<open>b ^ i\<close> that is not negative is slept, exactly once, and the loop goes on with
  the attempts that remain.
  Async, for every transport and every environment in which attempt \<open>i\<close> starts: when
  the attempt fails and is not the last one, the request sleeps \<open>retry_delay * 2 ^ i\<close>,
  exactly once, and goes on with the attempts that remain.
\<close>

theorem backoff_delays:
  "(call func s = (Inl e, s1) \<and> int i < retry_attempts s1 - 1 \<and>
      0 \<le> retry_backoff_factor s1 ^ i \<longrightarrow>
        retry_loop func (i # rest) lx s =
          retry_loop func rest (Some e)
            ((record_failure s1)
               \<lparr>world := (world s1)\<lparr>clock := clock (world s1) + retry_backoff_factor s1 ^ i,
                                   slept := slept (world s1) @ [retry_backoff_factor s1 ^ i]\<rparr>\<rparr>)) \<and>
   (send lib meth url kwargs w = (Inl e, w1) \<and> int i \<noteq> cc_retry_attempts (config pool) - 1 \<longrightarrow>
        request_loop lib meth url kwargs (i # rest) (pool, w) =
          request_loop lib meth url kwargs rest
            ((ensure_session pool)\<lparr>breaker := async_record_failure (breaker pool) (clock w1)\<rparr>,
             w1\<lparr>clock := clock w1 + max (retry_delay (config pool) * 2 ^ i) 0,
                slept := slept w1 @ [retry_delay (config pool) * 2 ^ i]\<rparr>))"
proof (intro conjI impI)
  assume a: "call func s = (Inl e, s1) \<and> int i < retry_attempts s1 - 1 \<and>
      0 \<le> retry_backoff_factor s1 ^ i"
  have "\<not> retry_backoff_factor s1 ^ i < 0"
    using conjunct2 [OF conjunct2 [OF a]] by (rule leD)
  then have sl: "sleep (retry_backoff_factor s1 ^ i) (world s1) =
      (Inr (), (world s1)\<lparr>clock := clock (world s1) + retry_backoff_factor s1 ^ i,
                          slept := slept (world s1) @ [retry_backoff_factor s1 ^ i]\<rparr>)"
    unfolding sleep_def by (rule if_not_P)
  show "retry_loop func (i # rest) lx s =
          retry_loop func rest (Some e)
            ((record_failure s1)
               \<lparr>world := (world s1)\<lparr>clock := clock (world s1) + retry_backoff_factor s1 ^ i,
                                   slept := slept (world s1) @ [retry_backoff_factor s1 ^ i]\<rparr>\<rparr>)"
    using a by (simp add: record_failure_def sl Let_def)
next
  assume "send lib meth url kwargs w = (Inl e, w1) \<and> int i \<noteq> cc_retry_attempts (config pool) - 1"
  then show "request_loop lib meth url kwargs (i # rest) (pool, w) =
          request_loop lib meth url kwargs rest
            ((ensure_session pool)\<lparr>breaker := async_record_failure (breaker pool) (clock w1)\<rparr>,
             w1\<lparr>clock := clock w1 + max (retry_delay (config pool) * 2 ^ i) 0,
                slept := slept w1 @ [retry_delay (config pool) * 2 ^ i]\<rparr>)"
    by (simp add: ensure_session_def asyncio_sleep_def Let_def)
qed

theorem backoff_delays_witness:
  "slept (world (snd (retry_with_backoff always_timeout fresh_manager))) = [1, 2] \<and>
   slept (world (snd (retry_with_backoff (add_docs service_down [''doc''] ''notes'' None) sync0)))
     = [1, 2, 1, 1, 2, 2] \<and>
   slept (snd (snd (request scripted ''GET'' ''/collections'' None
            (pool0, script_world three_timeouts)))) = [1, 2] \<and>
   slept (snd (snd (request scripted ''GET'' ''/collections'' None
            (pool0, script_world [timed_out, ok_response])))) = [1]"
proof -
  let ?t = "always_timeout :: unit ProductionRAGManager \<Rightarrow> _"
  let ?g = "add_docs service_down [''doc''] ''notes'' None :: nat ProductionRAGManager \<Rightarrow> _"
  let ?e = "Exception (''Failed to get vector store '' @ [CHR 0x27] @ ''notes'' @ [CHR 0x27])"
  let ?url = "''http://db:8000/api/v1/collections''"
  let ?w3 = "script_world three_timeouts"
  let ?w = "script_world [timed_out, ok_response]"
  have h0: "call ?t fresh_manager = (Inl (Exception ''timeout''), snd (call ?t fresh_manager)) \<and>
      int 0 < retry_attempts (snd (call ?t fresh_manager)) - 1 \<and>
      0 \<le> retry_backoff_factor (snd (call ?t fresh_manager)) ^ 0"
    by (simp add: prod_eq_iff fresh_manager_def ProductionRAGManager_init_def
        example_world_def CircuitBreaker_init_def always_timeout_def call_def can_execute_def
        on_failure_def Let_def)
  have h1: "call ?g sync0 = (Inl ?e, snd (call ?g sync0)) \<and>
      int 0 < retry_attempts (snd (call ?g sync0)) - 1 \<and>
      0 \<le> retry_backoff_factor (snd (call ?g sync0)) ^ 0"
    by (simp add: prod_eq_iff eval_sync)
  have h2: "send scripted ''GET'' ?url None ?w3 =
        (Inl (Exception ''timeout''), script_world [timed_out, timed_out]) \<and>
      int 0 \<noteq> cc_retry_attempts (config pool0) - 1"
    by (simp add: eval_async)
  have h3: "send scripted ''GET'' ?url None ?w = (Inl (Exception ''timeout''), script_world [ok_response]) \<and>
      int 0 \<noteq> cc_retry_attempts (config pool0) - 1"
    by (simp add: eval_async)
  note c0 = backoff_delays [where func = ?t and s = fresh_manager and e = "Exception ''timeout''"
      and ?s1.0 = "snd (call ?t fresh_manager)" and i = 0 and rest = "[1, 2]" and lx = None,
      THEN conjunct1, THEN mp, OF h0]
  note c1 = backoff_delays [where func = ?g and s = sync0 and e = ?e and ?s1.0 = "snd (call ?g sync0)"
      and i = 0 and rest = "[1, 2]" and lx = None, THEN conjunct1, THEN mp, OF h1]
  note c2 = backoff_delays [where lib = scripted and meth = "''GET''" and url = ?url
      and kwargs = None and w = ?w3 and e = "Exception ''timeout''"
      and ?w1.0 = "script_world [timed_out, timed_out]" and i = 0 and pool = pool0 and rest = "[1, 2]",
      THEN conjunct2, THEN mp, OF h2]
  note c3 = backoff_delays [where lib = scripted and meth = "''GET''" and url = ?url
      and kwargs = None and w = ?w and e = "Exception ''timeout''"
      and ?w1.0 = "script_world [ok_response]" and i = 0 and pool = pool0 and rest = "[1, 2]",
      THEN conjunct2, THEN mp, OF h3]
  have r0: "retry_with_backoff ?t fresh_manager = retry_loop ?t (0 # [1, 2]) None fresh_manager"
    unfolding retry_with_backoff_def
    by (simp only: fresh_manager_def ProductionRAGManager_init_def upt3
        ProductionRAGManager.simps nat_numeral)
  have r1: "retry_with_backoff ?g sync0 = retry_loop ?g (0 # [1, 2]) None sync0"
    unfolding retry_with_backoff_def
    by (simp only: sync0_def ProductionRAGManager_init_def upt3 ProductionRAGManager.simps nat_numeral)
  have q: "request scripted ''GET'' ''/collections'' None (pool0, w) =
           request_loop scripted ''GET'' ?url None (0 # [1, 2]) (pool0, w)" for w
    by (simp add: request_def check_state_def pool0_def AsyncConnectionPool_init_def
        AsyncCircuitBreaker_init_def default_config_def upt3 del: request_loop.simps)
  have g0: "slept (world (snd (retry_with_backoff ?t fresh_manager))) = [1, 2]"
    unfolding r0 c0
    by (simp add: fresh_manager_def ProductionRAGManager_init_def example_world_def
        CircuitBreaker_init_def always_timeout_def call_def can_execute_def on_failure_def
        record_failure_def sleep_def ConnectionMetrics_init_def Let_def)
  have g1: "slept (world (snd (retry_with_backoff ?g sync0))) = [1, 2, 1, 1, 2, 2]"
    unfolding r1 c1 by (simp add: eval_sync)
  have g2: "slept (snd (snd (request scripted ''GET'' ''/collections'' None (pool0, ?w3)))) = [1, 2]"
    unfolding q c2 by (simp add: eval_async)
  have g3: "slept (snd (snd (request scripted ''GET'' ''/collections'' None (pool0, ?w)))) = [1]"
    unfolding q c3 by (simp add: eval_async ok_response_def async_record_success_def)
  show ?thesis
    by (intro conjI) (rule g0 g1 g2 g3)+
qed

lemma quiet_always_timeout: "quiet always_timeout"
  by (simp add: quiet_def always_timeout_def)

lemma transport_quiet_scripted: "transport_quiet scripted"
  by (simp add: transport_quiet_def scripted_def split: list.splits)

text \<open>
  The sleeps of a whole call. For a callable that does not itself sleep or record
  failures and a factor that is not negative, the sleeps of one \<open>_retry_with_backoff\<close>
  are exactly \<open>b^0, b^1, ...\<close>, one for each failed attempt, capped at
  \<open>retry_attempts - 1\<close>. For a transport that does not itself sleep, the sleeps of one
  \<open>request\<close> are \<open>d * 2^0, d * 2^1, ...\<close>, at most \<open>retry_attempts - 1\<close> of them, and
  exactly that many when the request was admitted by the breaker and raised.
\<close>

theorem backoff_sleep_log:
  "(quiet func \<and> 0 \<le> retry_backoff_factor s \<longrightarrow>
      slept (world (snd (retry_with_backoff func s))) =
        slept (world s) @ map (\<lambda>i. retry_backoff_factor s ^ i)
          [0..<min (nat (failed_requests (metrics (snd (retry_with_backoff func s)))
                         - failed_requests (metrics s)))
                   (nat (retry_attempts s) - 1)]) \<and>
   (transport_quiet lib \<and> request lib meth endpoint kwargs (pool, w) = (r, pool', w') \<longrightarrow>
      (\<exists>j \<le> nat (cc_retry_attempts (config pool)) - 1.
          slept w' = slept w @ map (\<lambda>i. retry_delay (config pool) * 2 ^ i) [0..<j] \<and>
          (fst (check_state (breaker pool) (clock w)) = Inr () \<and> isl r \<longrightarrow>
             j = nat (cc_retry_attempts (config pool)) - 1)))"
proof (intro conjI impI)
  assume "quiet func \<and> 0 \<le> retry_backoff_factor s"
  then show "slept (world (snd (retry_with_backoff func s))) =
        slept (world s) @ map (\<lambda>i. retry_backoff_factor s ^ i)
          [0..<min (nat (failed_requests (metrics (snd (retry_with_backoff func s)))
                         - failed_requests (metrics s)))
                   (nat (retry_attempts s) - 1)]"
    using retry_loop_sleeps [of func s "nat (retry_attempts s)" 0 None]
    by (simp add: retry_with_backoff_def)
next
  assume a: "transport_quiet lib \<and> request lib meth endpoint kwargs (pool, w) = (r, pool', w')"
  let ?n = "nat (cc_retry_attempts (config pool))"
  obtain c b where c: "check_state (breaker pool) (clock w) = (c, b)" by (metis surj_pair)
  show "\<exists>j \<le> ?n - 1.
          slept w' = slept w @ map (\<lambda>i. retry_delay (config pool) * 2 ^ i) [0..<j] \<and>
          (fst (check_state (breaker pool) (clock w)) = Inr () \<and> isl r \<longrightarrow> j = ?n - 1)"
  proof (cases c)
    case (Inl e)
    then have "w' = w" using a by (simp add: request_def c)
    then show ?thesis using Inl c by (intro exI [of _ 0]) simp
  next
    case (Inr u)
    then have loop: "request_loop lib meth (base_url pool @ endpoint) kwargs [0..<?n]
                 (pool\<lparr>breaker := b\<rparr>, w) = (r, pool', w')"
      using a by (simp add: request_def c)
    have n: "?n = nat (cc_retry_attempts (config (pool\<lparr>breaker := b\<rparr>)))" by simp
    from request_loop_sleeps [OF conjunct1 [OF a] n _ loop]
    obtain j where "j \<le> max 0 (?n - 1)"
      "slept w' = slept w @ map (\<lambda>i. retry_delay (config (pool\<lparr>breaker := b\<rparr>)) * 2 ^ i) [0..<j]"
      "isl r \<longrightarrow> j = ?n - 1"
      by auto
    then show ?thesis by (intro exI [of _ j]) simp
  qed
qed

theorem backoff_sleep_log_witness:
  "slept (world (snd (retry_with_backoff always_timeout (manager_with_factor 3)))) = [1, 3] \<and>
   slept (snd (snd (request scripted ''GET'' ''/collections'' None
            (pool_with_delay (1/2), script_world three_timeouts)))) = [1/2, 1]"
proof -
  let ?t = "always_timeout :: unit ProductionRAGManager \<Rightarrow> _"
  let ?m = "manager_with_factor 3"
  let ?p = "pool_with_delay (1/2)"
  let ?req = "request scripted ''GET'' ''/collections'' None (?p, script_world three_timeouts)"
  have h4: "quiet ?t \<and> 0 \<le> retry_backoff_factor ?m"
    by (simp add: quiet_always_timeout manager_with_factor_def ProductionRAGManager_init_def)
  have h5: "transport_quiet scripted \<and> ?req = (fst ?req, fst (snd ?req), snd (snd ?req))"
    by (simp add: transport_quiet_scripted)
  note c4 = backoff_sleep_log [where func = ?t and s = ?m, THEN conjunct1, THEN mp, OF h4]
  note c5 = backoff_sleep_log [where lib = scripted and meth = "''GET''"
      and endpoint = "''/collections''" and kwargs = None and pool = ?p
      and w = "script_world three_timeouts"
      and r = "fst ?req" and pool' = "fst (snd ?req)" and w' = "snd (snd ?req)",
      THEN conjunct2, THEN mp, OF h5]
  have f4: "failed_requests (metrics (snd (retry_with_backoff ?t ?m))) = 3"
    by (simp add: retry_with_backoff_def manager_with_factor_def ProductionRAGManager_init_def
      example_world_def CircuitBreaker_init_def Let_def upt3 always_timeout_def on_failure_def
      call_def can_execute_def record_failure_def sleep_def ConnectionMetrics_init_def)
  have u2: "[0..<2] = [0, Suc 0]" by (simp add: upt_rec)
  have g4: "slept (world (snd (retry_with_backoff ?t ?m))) = [1, 3]"
    using c4 f4 u2
    by (simp add: manager_with_factor_def ProductionRAGManager_init_def example_world_def
        ConnectionMetrics_init_def)
  have a5: "fst (check_state (breaker ?p) (clock (script_world three_timeouts))) = Inr () \<and>
            isl (fst ?req)"
    by (simp add: eval_async pool_with_delay_def)
  from c5 obtain j where j: "j \<le> nat (cc_retry_attempts (config ?p)) - 1"
      "slept (snd (snd ?req)) = slept (script_world three_timeouts) @
         map (\<lambda>i. retry_delay (config ?p) * 2 ^ i) [0..<j]"
      "fst (check_state (breaker ?p) (clock (script_world three_timeouts))) = Inr () \<and> isl (fst ?req)
         \<longrightarrow> j = nat (cc_retry_attempts (config ?p)) - 1"
    by blast
  have "j = 2" using j(3) a5 by (simp add: pool_with_delay_def AsyncConnectionPool_init_def)
  then have g5: "slept (snd (snd ?req)) = [1/2, 1]"
    using j(2) u2
    by (simp add: pool_with_delay_def AsyncConnectionPool_init_def script_world_def)
  show ?thesis
    by (intro conjI) (rule g4 g5)+
qed

section \<open>What the facades surface\<close>

lemma call_keeps_config:
  assumes "keeps_retry_config func"
  shows "retry_attempts (snd (call func s)) = retry_attempts s \<and>
         retry_backoff_factor (snd (call func s)) = retry_backoff_factor s"
proof -
  have q: "retry_attempts (snd (func (s\<lparr>circuit_breaker := b\<rparr>))) = retry_attempts s \<and>
         retry_backoff_factor (snd (func (s\<lparr>circuit_breaker := b\<rparr>))) = retry_backoff_factor s"
    for b
    using assms [unfolded keeps_retry_config_def, rule_format, of "s\<lparr>circuit_breaker := b\<rparr>"]
    by simp
  obtain r b where c: "can_execute (circuit_breaker s) (clock (world s)) = (r, b)"
    by (metis surj_pair)
  obtain r1 s1 where f: "func (s\<lparr>circuit_breaker := b\<rparr>) = (r1, s1)"
    by (metis surj_pair)
  show ?thesis
    using q [of b]
    by (simp add: call_def c f split: sum.splits bool.splits)
qed

lemma retry_loop_last_attempt:
  assumes "keeps_retry_config func" and "0 \<le> retry_backoff_factor s"
    and "n = nat (retry_attempts s)" and "k < n"
    and "retry_loop func [k..<n] lx s = (Inl e, s')"
  shows "fst (call func (snd (retry_loop func [k..<n - 1] lx s))) = Inl e \<and>
         s' = record_failure (snd (call func (snd (retry_loop func [k..<n - 1] lx s))))"
  using assms(2-)
proof (induction "n - k" arbitrary: k s lx)
  case 0
  then show ?case by simp
next
  case (Suc m)
  have upt: "[k..<n] = k # [Suc k..<n]" using Suc.prems(3) by (simp add: upt_conv_Cons)
  obtain r s1 where c: "call func s = (r, s1)" by (metis surj_pair)
  have fr: "retry_attempts s1 = retry_attempts s" "retry_backoff_factor s1 = retry_backoff_factor s"
    using call_keeps_config [OF assms(1), of s] by (simp_all add: c)
  show ?case
  proof (cases r)
    case (Inr v)
    then show ?thesis using Suc.prems(4) by (simp add: upt c)
  next
    case (Inl e1)
    let ?s2 = "record_failure s1"
    have s2: "retry_attempts ?s2 = retry_attempts s" "retry_backoff_factor ?s2 = retry_backoff_factor s"
      by (simp_all add: record_failure_def Let_def fr)
    show ?thesis
    proof (cases "int k < retry_attempts s - 1")
      case True
      then have k1: "Suc k < n" "k < n - 1" using Suc.prems(2) by linarith+
      let ?d = "retry_backoff_factor s ^ k"
      let ?s3 = "?s2\<lparr>world := (world ?s2)\<lparr>clock := clock (world ?s2) + ?d,
                                              slept := slept (world ?s2) @ [?d]\<rparr>\<rparr>"
      have step: "retry_loop func [Suc k..<n] (Some e1) ?s3 = (Inl e, s')"
        using True Suc.prems(1) Suc.prems(4) by (simp add: upt c Inl s2 sleep_def Let_def)
      have pre: "retry_loop func [k..<n - 1] lx s = retry_loop func [Suc k..<n - 1] (Some e1) ?s3"
        using True Suc.prems(1) k1(2) by (simp add: upt_conv_Cons c Inl s2 sleep_def Let_def)
      have s3: "retry_attempts ?s3 = retry_attempts s" "retry_backoff_factor ?s3 = retry_backoff_factor s"
        by (simp_all add: s2)
      have m: "m = n - Suc k" using Suc.hyps(2) by simp
      have b3: "0 \<le> retry_backoff_factor ?s3" using Suc.prems(1) s3 by simp
      have n3: "n = nat (retry_attempts ?s3)" using Suc.prems(2) s3 by simp
      show ?thesis
        unfolding pre by (rule Suc.hyps(1) [OF m b3 n3 k1(1) step])
    next
      case False
      then have last: "Suc k = n" using Suc.prems(2,3) by linarith
      then have rest: "[Suc k..<n] = []" and pre: "[k..<n - 1] = []" by auto
      have res: "e1 = e" "s' = ?s2"
        using False Suc.prems(4) by (simp_all add: upt rest c Inl s2 Let_def)
      have sn: "snd (retry_loop func [] lx s) = s" by (simp split: option.splits)
      show ?thesis unfolding pre sn using c Inl res by simp
    qed
  qed
qed

text \<open>
  Claim C6, as stated, fails on the sync manager. Its facade does not surface errors:
  \<open>add_documents\<close>, \<open>delete_collection\<close> and \<open>similarity_search\<close> wrap their body in
  \<open>try\<close> / \<open>except Exception\<close> and return \<open>False\<close>, \<open>False\<close> and \<open>[]\<close> from the handler;
  with the service down, every attempt fails and the caller gets these values. And what
  its executor raises is not always the last underlying failure: the failures of the
  nested attempts to create the store open the breaker, the last attempts of
  \<open>_add_docs\<close> and \<open>_search\<close> are rejected by it, and the executor raises the rejection.
\<close>

theorem sync_facade_swallows_counterexample:
  "fst (add_documents service_down [''doc''] ''notes'' None sync0) = Inr False \<and>
   fst (similarity_search service_down ''query'' ''notes'' 4 sync0) = Inr [] \<and>
   fst (delete_collection service_down ''notes'' sync0) = Inr False \<and>
   fst (retry_with_backoff (add_docs service_down [''doc''] ''notes'' None) sync0) =
     Inl (Exception ''Circuit breaker is open'') \<and>
   fst (retry_with_backoff (search service_down ''query'' ''notes'' 4) sync0) =
     Inl (Exception ''Circuit breaker is open'')"
  by (simp add: add_documents_def similarity_search_def delete_collection_def eval_sync)


lemma keeps_lib_call: "keeps_retry_config (lib_call f)"
  by (simp add: keeps_retry_config_def lib_call_def split: prod.splits)

lemma keeps_with_connection:
  assumes "\<And>c. keeps_retry_config (body c)"
  shows "keeps_retry_config (with_connection lib body)"
  unfolding keeps_retry_config_def
proof
  fix s :: "'a ProductionRAGManager"
  obtain r pool w where g: "get_connection (HttpClient lib) (connection_pool s) (chroma_host s)
      (chroma_port s) (world s) = (r, pool, w)"
    by (metis prod_cases3)
  show "retry_attempts (snd (with_connection lib body s)) = retry_attempts s \<and>
        retry_backoff_factor (snd (with_connection lib body s)) = retry_backoff_factor s"
  proof (cases r)
    case (Inl e)
    then show ?thesis by (simp add: with_connection_def g)
  next
    case (Inr c)
    obtain r1 s1 where b: "body c (s\<lparr>connection_pool := pool, world := w\<rparr>) = (r1, s1)"
      by (metis surj_pair)
    have "retry_attempts s1 = retry_attempts s \<and> retry_backoff_factor s1 = retry_backoff_factor s"
      using assms [of c, unfolded keeps_retry_config_def, rule_format,
          of "s\<lparr>connection_pool := pool, world := w\<rparr>"]
      by (simp add: b)
    then show ?thesis by (simp add: with_connection_def g Inr b)
  qed
qed

lemma keeps_delete: "keeps_retry_config (delete lib store_label)"
  unfolding delete_def by (rule keeps_with_connection) (rule keeps_lib_call)

lemma keeps_create_store: "keeps_retry_config (create_store lib store_label)"
  unfolding create_store_def by (rule keeps_with_connection) (rule keeps_lib_call)

lemma retry_loop_keeps_config:
  assumes "keeps_retry_config func"
  shows "retry_attempts (snd (retry_loop func attempts lx s)) = retry_attempts s \<and>
         retry_backoff_factor (snd (retry_loop func attempts lx s)) = retry_backoff_factor s"
proof (induction attempts arbitrary: lx s)
  case Nil
  then show ?case by (simp split: option.splits)
next
  case (Cons a rest)
  obtain r s1 where c: "call func s = (r, s1)" by (metis surj_pair)
  have fr: "retry_attempts s1 = retry_attempts s" "retry_backoff_factor s1 = retry_backoff_factor s"
    using call_keeps_config [OF assms, of s] by (simp_all add: c)
  show ?case
  proof (cases r)
    case (Inr v)
    then show ?thesis by (simp add: c fr record_success_def Let_def)
  next
    case (Inl e)
    let ?s2 = "record_failure s1"
    have s2: "retry_attempts ?s2 = retry_attempts s" "retry_backoff_factor ?s2 = retry_backoff_factor s"
      by (simp_all add: record_failure_def Let_def fr)
    show ?thesis
      using Cons.IH [of "Some e" ?s2]
        Cons.IH [of "Some e" "?s2\<lparr>world := (world ?s2)\<lparr>clock := clock (world ?s2) + retry_backoff_factor s ^ a,
                                              slept := slept (world ?s2) @ [retry_backoff_factor s ^ a]\<rparr>\<rparr>"]
      by (simp add: c Inl s2 sleep_def Let_def)
  qed
qed

lemma get_vector_store_keeps_config:
  "retry_attempts (snd (get_vector_store lib store_label s)) = retry_attempts s \<and>
   retry_backoff_factor (snd (get_vector_store lib store_label s)) = retry_backoff_factor s"
proof (cases "vector_stores s store_label")
  case None
  obtain r s1 where r: "retry_with_backoff (create_store lib store_label) s = (r, s1)"
    by (metis surj_pair)
  have "retry_attempts s1 = retry_attempts s \<and> retry_backoff_factor s1 = retry_backoff_factor s"
    using retry_loop_keeps_config [OF keeps_create_store, of lib store_label
        "[0..<nat (retry_attempts s)]" None s] r
    by (simp add: retry_with_backoff_def)
  then show ?thesis by (simp add: get_vector_store_def None r split: sum.splits)
next
  case (Some st)
  then show ?thesis by (simp add: get_vector_store_def)
qed

lemma keeps_add_docs: "keeps_retry_config (add_docs lib ds store_label idl)"
  unfolding keeps_retry_config_def
proof
  fix s :: "'a ProductionRAGManager"
  obtain st s1 where g: "get_vector_store lib store_label s = (st, s1)" by (metis surj_pair)
  have "retry_attempts s1 = retry_attempts s \<and> retry_backoff_factor s1 = retry_backoff_factor s"
    using get_vector_store_keeps_config [of lib store_label s] by (simp add: g)
  then show "retry_attempts (snd (add_docs lib ds store_label idl s)) = retry_attempts s \<and>
        retry_backoff_factor (snd (add_docs lib ds store_label idl s)) = retry_backoff_factor s"
    by (simp add: add_docs_def g lib_call_def split: option.splits list.splits prod.splits)
qed

lemma keeps_search: "keeps_retry_config (search lib q store_label k)"
  unfolding keeps_retry_config_def
proof
  fix s :: "'a ProductionRAGManager"
  obtain st s1 where g: "get_vector_store lib store_label s = (st, s1)" by (metis surj_pair)
  have "retry_attempts s1 = retry_attempts s \<and> retry_backoff_factor s1 = retry_backoff_factor s"
    using get_vector_store_keeps_config [of lib store_label s] by (simp add: g)
  then show "retry_attempts (snd (search lib q store_label k s)) = retry_attempts s \<and>
        retry_backoff_factor (snd (search lib q store_label k s)) = retry_backoff_factor s"
    by (simp add: search_def g lib_call_def split: option.splits prod.splits)
qed


lemma request_last_attempt:
  assumes "fst (check_state (breaker pool) (clock w)) = Inr ()"
    and "request lib meth endpoint kwargs (pool, w) = (Inl e, pool', w')"
  shows "send lib meth (base_url pool @ endpoint) kwargs
           (snd (a_before_last_attempt lib meth endpoint kwargs (pool, w))) = (Inl e, w') \<and>
         pool' = (ensure_session (fst (a_before_last_attempt lib meth endpoint kwargs (pool, w))))
                   \<lparr>breaker := async_record_failure
                       (breaker (fst (a_before_last_attempt lib meth endpoint kwargs (pool, w))))
                       (clock w')\<rparr>"
proof -
  let ?n = "nat (cc_retry_attempts (config pool))"
  obtain b where c: "check_state (breaker pool) (clock w) = (Inr (), b)"
    using assms(1) by (metis prod.collapse)
  have loop: "request_loop lib meth (base_url pool @ endpoint) kwargs [0..<?n]
                (pool\<lparr>breaker := b\<rparr>, w) = (Inl e, pool', w')"
    using assms(2) by (simp add: request_def c)
  have pos: "0 < ?n"
  proof (rule ccontr)
    assume "\<not> 0 < ?n"
    then have "[0..<?n] = []" by simp
    then show False using loop by simp
  qed
  have n: "?n = nat (cc_retry_attempts (config (pool\<lparr>breaker := b\<rparr>)))" by simp
  show ?thesis
    using request_loop_last_attempt [OF n pos loop]
    by (simp add: a_before_last_attempt_def c)
qed

lemma fetch_propagates:
  assumes "a_connection_pool t = Some pool"
    and "fst (req (t\<lparr>a_connection_pool := Some (ensure_session pool)\<rparr>)) = Inl e"
  shows "fst (try_except (with_pool (seq req k)) (\<lambda>e s1. (Inl e, bump_failed s1)) t) = Inl e"
proof -
  obtain t1 where "req (t\<lparr>a_connection_pool := Some (ensure_session pool)\<rparr>) = (Inl e, t1)"
    using assms(2) by (metis prod.collapse)
  then show ?thesis
    by (simp add: try_except_def with_pool_def seq_def assms(1))
qed

lemma call_raises:
  assumes "call func s0 = (Inl e, s1)"
  shows "case can_execute (circuit_breaker s0) (clock (world s0)) of
           (Inl e', b) \<Rightarrow> e = e'
         | (Inr False, b) \<Rightarrow> e = Exception (''Circuit breaker is '' @ state_value (cb_state b))
         | (Inr True, b) \<Rightarrow> fst (func (s0\<lparr>circuit_breaker := b\<rparr>)) = Inl e"
proof -
  obtain r b where x: "can_execute (circuit_breaker s0) (clock (world s0)) = (r, b)"
    by (metis surj_pair)
  obtain r1 s2 where f: "func (s0\<lparr>circuit_breaker := b\<rparr>) = (r1, s2)"
    by (metis surj_pair)
  show ?thesis
    using assms
    by (auto simp add: call_def x f split: sum.splits bool.splits if_splits)
qed

text \<open>
  Claim C6, amended. Each executor raises, unchanged, what its last attempt raised.
  When \<open>_retry_with_backoff\<close> (at least one attempt, factor not negative, callable
  leaving the retry configuration alone) raises \<open>e\<close>, then \<open>e\<close> is what the call through
  the breaker raised in the state the earlier attempts left, and the final state is the
  one that call left, with the failure recorded; and when the breaker admitted that
  call, \<open>e\<close> is the exception the wrapped callable raised in it. When an admitted
  \<open>request\<close> raises \<open>e\<close>, then \<open>e\<close> is what the transport call raised in the environment
  the earlier attempts left, and the final environment is the one that call left.
  The async facade passes this error on: \<open>add_documents\<close> and \<open>delete_collection\<close> raise
  the error of their request, and so does \<open>similarity_search\<close> after a cache miss (or
  with the query cache off). The sync facade does not: whenever its executor raises,
  \<open>add_documents\<close> and \<open>delete_collection\<close> return \<open>False\<close> and \<open>similarity_search\<close>
  returns \<open>[]\<close>.
\<close>

theorem surfaced_errors:
  "(keeps_retry_config func \<and> 0 \<le> retry_backoff_factor s \<and> 1 \<le> retry_attempts s \<and>
      retry_with_backoff func s = (Inl e, s') \<longrightarrow>
        fst (call func (before_last_attempt func s)) = Inl e \<and>
        s' = record_failure (snd (call func (before_last_attempt func s))) \<and>
        (can_execute (circuit_breaker (before_last_attempt func s))
             (clock (world (before_last_attempt func s))) = (Inr True, b) \<longrightarrow>
           fst (func ((before_last_attempt func s)\<lparr>circuit_breaker := b\<rparr>)) = Inl e)) \<and>
   (fst (check_state (breaker pool) (clock w)) = Inr () \<and>
      request alib meth endpoint kwargs (pool, w) = (Inl e, pool', w') \<longrightarrow>
        send alib meth (base_url pool @ endpoint) kwargs
          (snd (a_before_last_attempt alib meth endpoint kwargs (pool, w))) = (Inl e, w')) \<and>
   (a_connection_pool t = Some pool \<and>
      fst (pool_request alib ''POST'' ''/collections/add''
             (Some (batch_data a (clock (a_world t))))
             (t\<lparr>a_connection_pool := Some (ensure_session pool)\<rparr>)) = Inl e \<longrightarrow>
        fst (a_add_documents alib a t) = Inl e) \<and>
   (a_connection_pool t = Some pool \<and>
      fst (pool_request alib ''DELETE'' (''/collections/'' @ name) None
             (t\<lparr>a_connection_pool := Some (ensure_session pool)\<rparr>)) = Inl e \<longrightarrow>
        fst (a_delete_collection alib name t) = Inl e) \<and>
   ((if enable_query_cache (cache_config t)
     then on_cache ''get'' (\<lambda>c. cache_get alib c (''search:'' @ s_collection_name q) (search_params q)) t
            = (Inr None, t1)
     else t1 = t) \<and>
    a_connection_pool t1 = Some pool \<and>
      fst (pool_request alib ''POST'' ''/collections/query'' (Some (search_params q))
             (t1\<lparr>a_connection_pool := Some (ensure_session pool)\<rparr>)) = Inl e \<longrightarrow>
        fst (a_similarity_search alib q t) = Inl e) \<and>
   (isl (fst (retry_with_backoff (add_docs lib ds l idl) s)) \<longrightarrow>
      fst (add_documents lib ds l idl s) = Inr False) \<and>
   (isl (fst (retry_with_backoff (delete lib l) s)) \<longrightarrow>
      fst (delete_collection lib l s) = Inr False) \<and>
   (isl (fst (retry_with_backoff (search lib qs l k) s)) \<longrightarrow>
      fst (similarity_search lib qs l k s) = Inr [])"
proof (intro conjI impI)
  assume a: "keeps_retry_config func \<and> 0 \<le> retry_backoff_factor s \<and> 1 \<le> retry_attempts s \<and>
      retry_with_backoff func s = (Inl e, s')"
  then have pos: "0 < nat (retry_attempts s)" by simp
  have loop: "retry_loop func [0..<nat (retry_attempts s)] None s = (Inl e, s')"
    using a by (simp add: retry_with_backoff_def)
  note L = retry_loop_last_attempt [OF conjunct1 [OF a] conjunct1 [OF conjunct2 [OF a]] refl pos loop]
  show "fst (call func (before_last_attempt func s)) = Inl e"
    using L by (simp add: before_last_attempt_def)
  show "s' = record_failure (snd (call func (before_last_attempt func s)))"
    using L by (simp add: before_last_attempt_def)
  have c: "call func (before_last_attempt func s) =
             (Inl e, snd (call func (before_last_attempt func s)))"
    using L by (simp add: before_last_attempt_def prod_eq_iff)
  assume "can_execute (circuit_breaker (before_last_attempt func s))
             (clock (world (before_last_attempt func s))) = (Inr True, b)"
  then show "fst (func ((before_last_attempt func s)\<lparr>circuit_breaker := b\<rparr>)) = Inl e"
    using call_raises [OF c] by simp
next
  assume a: "fst (check_state (breaker pool) (clock w)) = Inr () \<and>
      request alib meth endpoint kwargs (pool, w) = (Inl e, pool', w')"
  note L = request_last_attempt [OF conjunct1 [OF a] conjunct2 [OF a]]
  show "send alib meth (base_url pool @ endpoint) kwargs
          (snd (a_before_last_attempt alib meth endpoint kwargs (pool, w))) = (Inl e, w')"
    using L by blast
next
  assume "a_connection_pool t = Some pool \<and>
      fst (pool_request alib ''POST'' ''/collections/add''
             (Some (batch_data a (clock (a_world t))))
             (t\<lparr>a_connection_pool := Some (ensure_session pool)\<rparr>)) = Inl e"
  then have 1: "a_connection_pool t = Some pool"
    and 2: "fst (pool_request alib ''POST'' ''/collections/add''
             (Some (batch_data a (clock (a_world t))))
             (t\<lparr>a_connection_pool := Some (ensure_session pool)\<rparr>)) = Inl e"
    by blast+
  show "fst (a_add_documents alib a t) = Inl e"
    unfolding a_add_documents_def Let_def
    by (rule fetch_propagates [where req = "pool_request alib ''POST'' ''/collections/add''
             (Some (batch_data a (clock (a_world t))))", OF 1 2])
next
  assume "a_connection_pool t = Some pool \<and>
      fst (pool_request alib ''DELETE'' (''/collections/'' @ name) None
             (t\<lparr>a_connection_pool := Some (ensure_session pool)\<rparr>)) = Inl e"
  then have 1: "a_connection_pool t = Some pool"
    and 2: "fst (pool_request alib ''DELETE'' (''/collections/'' @ name) None
             (t\<lparr>a_connection_pool := Some (ensure_session pool)\<rparr>)) = Inl e"
    by blast+
  show "fst (a_delete_collection alib name t) = Inl e"
    unfolding a_delete_collection_def Let_def
    by (rule fetch_propagates [where req = "pool_request alib ''DELETE'' (''/collections/'' @ name) None",
          OF 1 2])
next
  assume a: "(if enable_query_cache (cache_config t)
     then on_cache ''get'' (\<lambda>c. cache_get alib c (''search:'' @ s_collection_name q) (search_params q)) t
            = (Inr None, t1)
     else t1 = t) \<and>
    a_connection_pool t1 = Some pool \<and>
      fst (pool_request alib ''POST'' ''/collections/query'' (Some (search_params q))
             (t1\<lparr>a_connection_pool := Some (ensure_session pool)\<rparr>)) = Inl e"
  from a have 1: "a_connection_pool t1 = Some pool"
    and 2: "fst (pool_request alib ''POST'' ''/collections/query'' (Some (search_params q))
             (t1\<lparr>a_connection_pool := Some (ensure_session pool)\<rparr>)) = Inl e"
    by blast+
  have f: "fst (try_except (with_pool (seq (pool_request alib ''POST'' ''/collections/query''
                  (Some (search_params q))) k))
             (\<lambda>e s1. (Inl e, bump_failed s1)) t1) = Inl e" for k
    by (rule fetch_propagates [where req = "pool_request alib ''POST'' ''/collections/query''
                  (Some (search_params q))", OF 1 2])
  show "fst (a_similarity_search alib q t) = Inl e"
  proof (cases "enable_query_cache (cache_config t)")
    case True
    then show ?thesis using a f by (simp add: a_similarity_search_def Let_def)
  next
    case False
    then show ?thesis using a f by (simp add: a_similarity_search_def Let_def)
  qed
next
  assume "isl (fst (retry_with_backoff (add_docs lib ds l idl) s))"
  then show "fst (add_documents lib ds l idl s) = Inr False"
    by (auto simp: add_documents_def split: prod.splits sum.splits)
next
  assume "isl (fst (retry_with_backoff (delete lib l) s))"
  then show "fst (delete_collection lib l s) = Inr False"
    by (auto simp: delete_collection_def split: prod.splits sum.splits)
next
  assume "isl (fst (retry_with_backoff (search lib qs l k) s))"
  then show "fst (similarity_search lib qs l k s) = Inr []"
    by (auto simp: similarity_search_def split: prod.splits sum.splits)
qed


theorem surfaced_errors_witness:
  "fst (call (delete service_down ''notes'')
          (before_last_attempt (delete service_down ''notes'') sync0)) =
     Inl (Exception ''service down'') \<and>
   snd (retry_with_backoff (delete service_down ''notes'') sync0) =
     record_failure (snd (call (delete service_down ''notes'')
                            (before_last_attempt (delete service_down ''notes'') sync0))) \<and>
   fst (call (add_docs service_down [''doc''] ''notes'' None)
          (before_last_attempt (add_docs service_down [''doc''] ''notes'' None) sync0)) =
     Inl (Exception ''Circuit breaker is open'') \<and>
   fst (delete service_down ''notes'' (before_last_attempt (delete service_down ''notes'') sync0)) =
     Inl (Exception ''service down'') \<and>
   send scripted ''GET'' (base_url pool0 @ ''/collections'') None
     (snd (a_before_last_attempt scripted ''GET'' ''/collections'' None
             (pool0, script_world three_timeouts))) =
     (Inl (Exception ''timeout''),
      snd (snd (request scripted ''GET'' ''/collections'' None (pool0, script_world three_timeouts)))) \<and>
   fst (a_add_documents scripted some_documents (a_manager three_timeouts)) = Inl (Exception ''timeout'') \<and>
   fst (a_delete_collection scripted ''notes'' (a_manager three_timeouts)) = Inl (Exception ''timeout'') \<and>
   fst (a_similarity_search scripted some_query (a_manager three_timeouts)) = Inl (Exception ''timeout'') \<and>
   fst (add_documents service_down [''doc''] ''notes'' None sync0) = Inr False \<and>
   fst (delete_collection service_down ''notes'' sync0) = Inr False \<and>
   fst (similarity_search service_down ''query'' ''notes'' 4 sync0) = Inr []"
proof -
  let ?f = "delete service_down ''notes'' :: nat ProductionRAGManager \<Rightarrow> _"
  let ?g = "add_docs service_down [''doc''] ''notes'' None :: nat ProductionRAGManager \<Rightarrow> _"
  let ?req = "request scripted ''GET'' ''/collections'' None (pool0, script_world three_timeouts)"
  let ?t = "a_manager three_timeouts"
  let ?t' = "?t\<lparr>a_connection_pool := Some (ensure_session pool0)\<rparr>"
  have r: "fst (retry_with_backoff ?f sync0) = Inl (Exception ''service down'')"
    by (simp add: eval_sync)
  have h1: "keeps_retry_config ?f \<and> 0 \<le> retry_backoff_factor sync0 \<and> 1 \<le> retry_attempts sync0 \<and>
      retry_with_backoff ?f sync0 = (Inl (Exception ''service down''), snd (retry_with_backoff ?f sync0))"
    using r keeps_delete [of service_down "''notes''"]
    by (simp add: sync0_def ProductionRAGManager_init_def prod_eq_iff)
  have rg: "fst (retry_with_backoff ?g sync0) = Inl (Exception ''Circuit breaker is open'')"
    by (simp add: eval_sync)
  have h1g: "keeps_retry_config ?g \<and> 0 \<le> retry_backoff_factor sync0 \<and> 1 \<le> retry_attempts sync0 \<and>
      retry_with_backoff ?g sync0 =
        (Inl (Exception ''Circuit breaker is open''), snd (retry_with_backoff ?g sync0))"
    using rg keeps_add_docs [of service_down "[''doc'']" "''notes''" None]
    by (simp add: sync0_def ProductionRAGManager_init_def prod_eq_iff)
  have hc: "can_execute (circuit_breaker (before_last_attempt ?f sync0))
                (clock (world (before_last_attempt ?f sync0))) =
              (Inr True, circuit_breaker (before_last_attempt ?f sync0))"
    by (simp add: before_last_attempt_def eval_sync upt_rec)
  have q: "fst ?req = Inl (Exception ''timeout'')"
    by (simp add: eval_async)
  have h2: "fst (check_state (breaker pool0) (clock (script_world three_timeouts))) = Inr () \<and>
      ?req = (Inl (Exception ''timeout''), fst (snd ?req), snd (snd ?req))"
    using q by (simp add: prod_eq_iff) (simp add: eval_async)
  have h3: "a_connection_pool ?t = Some pool0 \<and>
      fst (pool_request scripted ''POST'' ''/collections/add''
             (Some (batch_data some_documents (clock (a_world ?t)))) ?t') = Inl (Exception ''timeout'')"
    by (simp add: a_manager_def eval_async)
  have h4: "a_connection_pool ?t = Some pool0 \<and>
      fst (pool_request scripted ''DELETE'' (''/collections/'' @ ''notes'') None ?t')
        = Inl (Exception ''timeout'')"
    by (simp add: a_manager_def eval_async)
  have h5: "(if enable_query_cache (cache_config ?t)
     then on_cache ''get'' (\<lambda>c. cache_get scripted c (''search:'' @ s_collection_name some_query)
                           (search_params some_query)) ?t = (Inr None, ?t)
     else ?t = ?t) \<and>
    a_connection_pool ?t = Some pool0 \<and>
      fst (pool_request scripted ''POST'' ''/collections/query'' (Some (search_params some_query)) ?t')
        = Inl (Exception ''timeout'')"
    by (simp add: a_manager_def eval_async on_cache_def cache_get_def default_cache_config_def)
  have h6: "isl (fst (retry_with_backoff ?g sync0))"
    by (simp add: rg)
  have h7: "isl (fst (retry_with_backoff ?f sync0))"
    by (simp add: r)
  have h8: "isl (fst (retry_with_backoff (search service_down ''query'' ''notes'' 4) sync0))"
    by (simp add: eval_sync)
  note T = surfaced_errors [where s = sync0
      and pool = pool0 and w = "script_world three_timeouts" and alib = scripted
      and meth = "''GET''" and endpoint = "''/collections''" and kwargs = None
      and pool' = "fst (snd ?req)" and w' = "snd (snd ?req)"
      and t = ?t and a = some_documents and name = "''notes''" and ?t1.0 = ?t and q = some_query
      and lib = service_down and ds = "[''doc'']" and l = "''notes''" and idl = None
      and qs = "''query''" and k = 4]
  note Ts = T [where func = ?f and e = "Exception ''service down''"
      and s' = "snd (retry_with_backoff ?f sync0)"
      and b = "circuit_breaker (before_last_attempt ?f sync0)"]
  note Tg = T [where func = ?g and e = "Exception ''Circuit breaker is open''"
      and s' = "snd (retry_with_backoff ?g sync0)"]
  note Tt = T [where e = "Exception ''timeout''"]
  note c1 = Ts [THEN conjunct1, THEN mp, OF h1]
  note c1g = Tg [THEN conjunct1, THEN mp, OF h1g]
  note cc = c1 [THEN conjunct2, THEN conjunct2, THEN mp, OF hc]
  note c2 = Tt [THEN conjunct2, THEN conjunct1, THEN mp, OF h2]
  note c3 = Tt [THEN conjunct2, THEN conjunct2, THEN conjunct1, THEN mp, OF h3]
  note c4 = Tt [THEN conjunct2, THEN conjunct2, THEN conjunct2, THEN conjunct1, THEN mp, OF h4]
  note c5 = Tt [THEN conjunct2, THEN conjunct2, THEN conjunct2, THEN conjunct2, THEN conjunct1,
      THEN mp, OF h5]
  note c6 = Tt [THEN conjunct2, THEN conjunct2, THEN conjunct2, THEN conjunct2, THEN conjunct2,
      THEN conjunct1, THEN mp, OF h6]
  note c7 = Tt [THEN conjunct2, THEN conjunct2, THEN conjunct2, THEN conjunct2, THEN conjunct2,
      THEN conjunct2, THEN conjunct1, THEN mp, OF h7]
  note c8 = Tt [THEN conjunct2, THEN conjunct2, THEN conjunct2, THEN conjunct2, THEN conjunct2,
      THEN conjunct2, THEN conjunct2, THEN mp, OF h8]
  have d: "fst (?f (before_last_attempt ?f sync0)) = Inl (Exception ''service down'')"
    using cc by simp
  show ?thesis
    by (intro conjI)
       (rule c1 [THEN conjunct1] c1 [THEN conjunct2, THEN conjunct1] c1g [THEN conjunct1] d c2
          c3 c4 c5 c6 c7 c8)+
qed

section \<open>The cache\<close>

text \<open>
  Claim C9. For every behaviour of the cache server and of the JSON codec, \<open>get\<close>
  returns a value (\<open>None\<close> being the miss) and \<open>set\<close> and \<open>invalidate_pattern\<close> return
  normally: none of them raises. With no client (the server was unreachable at
  \<open>connect\<close>, which leaves \<open>redis = None\<close>) the three return at once and leave the
  environment untouched, \<open>get\<close> with a miss. With a client, an error of the server during
  the operation is absorbed: \<open>get\<close> returns the miss, \<open>set\<close> and \<open>invalidate_pattern\<close>
  return, and nothing is done after the failed call (the environment is the one that
  call left).
\<close>

theorem cache_failures_never_raise:
  "(\<exists>v. fst (cache_get lib c prefix data w) = Inr v) \<and>
   fst (cache_set lib c prefix data val w) = Inr () \<and>
   fst (invalidate_pattern lib c pat w) = Inr () \<and>
   (redis c = None \<longrightarrow>
      cache_get lib c prefix data w = (Inr None, w) \<and>
      cache_set lib c prefix data val w = (Inr (), w) \<and>
      invalidate_pattern lib c pat w = (Inr (), w)) \<and>
   (enabled (redis_config c) \<and> fst (redis_connect lib w) = Inl e \<longrightarrow>
      redis (fst (connect lib c w)) = None) \<and>
   (enabled (redis_config c) \<and> redis c = Some h \<and> generate_key lib prefix data = Inr key \<and>
    redis_get lib h key w = (Inl e, w1) \<longrightarrow>
      cache_get lib c prefix data w = (Inr None, w1)) \<and>
   (enabled (redis_config c) \<and> redis c = Some h \<and> generate_key lib prefix data = Inr key \<and>
    json_dumps lib val = Inr txt \<and>
    redis_setex lib h key (ttl_seconds (redis_config c)) txt w = (Inl e, w1) \<longrightarrow>
      cache_set lib c prefix data val w = (Inr (), w1)) \<and>
   (enabled (redis_config c) \<and> redis c = Some h \<and> redis_keys lib h pat w = (Inl e, w1) \<longrightarrow>
      invalidate_pattern lib c pat w = (Inr (), w1)) \<and>
   (enabled (redis_config c) \<and> redis c = Some h \<and> redis_keys lib h pat w = (Inr keys, w1) \<and>
    keys \<noteq> [] \<and> redis_delete lib h keys w1 = (Inl e, w2) \<longrightarrow>
      invalidate_pattern lib c pat w = (Inr (), w2))"
proof (intro conjI impI)
  show "\<exists>v. fst (cache_get lib c prefix data w) = Inr v"
    by (auto simp: cache_get_def try_except_def
        split: option.splits sum.splits prod.splits json.splits)
next
  show "fst (cache_set lib c prefix data val w) = Inr ()"
    by (auto simp: cache_set_def try_except_def split: option.splits sum.splits prod.splits)
next
  show "fst (invalidate_pattern lib c pat w) = Inr ()"
    by (auto simp: invalidate_pattern_def try_except_def
        split: option.splits sum.splits prod.splits)
qed (auto simp: cache_get_def cache_set_def invalidate_pattern_def try_except_def connect_def
      split: option.splits sum.splits prod.splits)

theorem cache_failures_never_raise_witness:
  "cache_get scripted cache0 ''search:notes'' (JStr ''q'') (script_world [])
     = (Inr None, script_world []) \<and>
   cache_set scripted cache0 ''search:notes'' (JStr ''q'') (JDict []) (script_world [])
     = (Inr (), script_world []) \<and>
   invalidate_pattern scripted cache0 ''collection:notes:*'' (script_world [])
     = (Inr (), script_world []) \<and>
   redis (fst (connect scripted cache0 (script_world []))) = None \<and>
   cache_get scripted (cache0\<lparr>redis := None\<rparr>) ''search:notes'' (JStr ''q'') (script_world [])
     = (Inr None, script_world [])"
proof -
  have h: "enabled (redis_config cache0)" "redis cache0 = Some 0"
    "generate_key scripted ''search:notes'' (JStr ''q'') = Inr ''search:notes:d41d8cd9''"
    "redis_get scripted 0 ''search:notes:d41d8cd9'' (script_world [])
       = (Inl (Exception ''connection refused''), script_world [])"
    "json_dumps scripted (JDict []) = Inr ''{}''"
    "redis_setex scripted 0 ''search:notes:d41d8cd9'' (ttl_seconds (redis_config cache0)) ''{}''
       (script_world []) = (Inl (Exception ''connection refused''), script_world [])"
    "redis_keys scripted 0 ''collection:notes:*'' (script_world [])
       = (Inl (Exception ''connection refused''), script_world [])"
    "fst (redis_connect scripted (script_world [])) = Inl (Exception ''connection refused'')"
    "redis (cache0\<lparr>redis := None\<rparr>) = None"
    by (simp_all add: cache0_def default_cache_config_def generate_key_def scripted_def)
  show ?thesis
    using cache_failures_never_raise [of scripted cache0 "''search:notes''" "JStr ''q''"
        "script_world []" "JDict []" "''collection:notes:*''" "Exception ''connection refused''"
        0 "''search:notes:d41d8cd9''" "script_world []" "''{}''"]
      cache_failures_never_raise [of scripted "cache0\<lparr>redis := None\<rparr>" "''search:notes''" "JStr ''q''"
        "script_world []" "JDict []" "''collection:notes:*''" "Exception ''connection refused''"
        0 "''search:notes:d41d8cd9''" "script_world []" "''{}''"]
      h
    by simp
qed

section \<open>Health checks\<close>

text \<open>
  Claim C10, as stated, fails in one part: a heartbeat that succeeds does not always give
  a healthy result. The async manager returns \<open>response.get('status') == 'ok'\<close>, which
  is \<open>False\<close> for a successful heartbeat whose body has no such entry; the sync manager
  also lists the collections inside the same \<open>try\<close>, and reports \<open>unhealthy\<close> when that
  call raises after a successful heartbeat.
\<close>

theorem health_check_success_counterexample:
  "fst (a_health_check scripted (a_manager [heartbeat_reply])) = Inr False \<and>
   fst (health_check service_degraded no_metrics sync0) = Inr (Unhealthy ''service down'' ''closed'')"
  by (simp add: a_health_check_def a_health_probe_def try_except_def with_pool_def seq_def
      return_def a_manager_def heartbeat_reply_def eval_async health_check_def health_probe_def
      service_degraded_def eval_sync lib_call_def release_connection_def)

text \<open>
  Claim C10, amended. Neither health check raises. The async one returns \<open>False\<close>
  whenever the body of its \<open>try\<close> raises, in particular when the heartbeat request
  raises, and when the request succeeds it returns whether the response is a dictionary
  whose \<open>status\<close> is \<open>'ok'\<close>. The sync one returns the \<open>unhealthy\<close> record with \<open>str(e)\<close>
  and the breaker state whenever its body raises \<open>e\<close>, which is the case when no
  connection can be acquired and when the heartbeat raises; it returns the \<open>healthy\<close>
  record when the connection, the heartbeat, the listing of the collections and the
  metrics view all succeed, and its body raises when the listing or the metrics view
  raises.
\<close>

theorem health_check_never_raises:
  "(\<exists>b. fst (a_health_check alib t) = Inr b) \<and>
   (isl (fst (a_health_probe alib t)) \<longrightarrow> fst (a_health_check alib t) = Inr False) \<and>
   (a_connection_pool t = Some pool \<and>
    fst (pool_request alib ''GET'' ''/heartbeat'' None
           (t\<lparr>a_connection_pool := Some (ensure_session pool)\<rparr>)) = Inl e \<longrightarrow>
      fst (a_health_check alib t) = Inr False) \<and>
   (a_connection_pool t = Some pool \<and>
    fst (pool_request alib ''GET'' ''/heartbeat'' None
           (t\<lparr>a_connection_pool := Some (ensure_session pool)\<rparr>)) = Inr response \<longrightarrow>
      fst (a_health_check alib t) = Inr (dict_get response ''status'' = Inr (JStr ''ok''))) \<and>
   (\<exists>h. fst (health_check lib mv s) = Inr h) \<and>
   (fst (health_probe lib mv s) = Inl e \<longrightarrow>
      fst (health_check lib mv s) =
        Inr (Unhealthy (str e) (state_value (cb_state (circuit_breaker (snd (health_probe lib mv s))))))) \<and>
   (get_connection (HttpClient lib) (connection_pool s) (chroma_host s) (chroma_port s) (world s)
      = (Inl e, p1, w1) \<longrightarrow>
      fst (health_probe lib mv s) = Inl e) \<and>
   (get_connection (HttpClient lib) (connection_pool s) (chroma_host s) (chroma_port s) (world s)
      = (Inr c, p1, w1) \<and> heartbeat lib c w1 = (Inl e, w2) \<longrightarrow>
      fst (health_probe lib mv s) = Inl e) \<and>
   (get_connection (HttpClient lib) (connection_pool s) (chroma_host s) (chroma_port s) (world s)
      = (Inr c, p1, w1) \<and> heartbeat lib c w1 = (Inr (), w2) \<and>
    list_collections lib c w2 = (Inr cols, w3) \<and> mv (metrics s) = Inr m \<longrightarrow>
      fst (health_check lib mv s) =
        Inr (Healthy ((clock w2 - clock w1) * 1000) (length cols)
               (state_value (cb_state (circuit_breaker s))) (length (connections p1)) m)) \<and>
   (get_connection (HttpClient lib) (connection_pool s) (chroma_host s) (chroma_port s) (world s)
      = (Inr c, p1, w1) \<and> heartbeat lib c w1 = (Inr (), w2) \<and>
    list_collections lib c w2 = (Inl e, w3) \<longrightarrow>
      fst (health_probe lib mv s) = Inl e) \<and>
   (get_connection (HttpClient lib) (connection_pool s) (chroma_host s) (chroma_port s) (world s)
      = (Inr c, p1, w1) \<and> heartbeat lib c w1 = (Inr (), w2) \<and>
    list_collections lib c w2 = (Inr cols, w3) \<and> mv (metrics s) = Inl e \<longrightarrow>
      fst (health_probe lib mv s) = Inl e)"
proof (intro conjI impI)
  show "\<exists>b. fst (a_health_check alib t) = Inr b"
    by (auto simp: a_health_check_def try_except_def return_def split: prod.splits sum.splits)
next
  assume "isl (fst (a_health_probe alib t))"
  then show "fst (a_health_check alib t) = Inr False"
    by (auto simp: a_health_check_def try_except_def return_def split: prod.splits sum.splits)
next
  assume a: "a_connection_pool t = Some pool \<and>
    fst (pool_request alib ''GET'' ''/heartbeat'' None
           (t\<lparr>a_connection_pool := Some (ensure_session pool)\<rparr>)) = Inl e"
  then obtain t1 where "pool_request alib ''GET'' ''/heartbeat'' None
           (t\<lparr>a_connection_pool := Some (ensure_session pool)\<rparr>) = (Inl e, t1)"
    by (metis prod.collapse)
  then show "fst (a_health_check alib t) = Inr False"
    using a by (simp add: a_health_check_def a_health_probe_def try_except_def with_pool_def
        seq_def return_def)
next
  assume a: "a_connection_pool t = Some pool \<and>
    fst (pool_request alib ''GET'' ''/heartbeat'' None
           (t\<lparr>a_connection_pool := Some (ensure_session pool)\<rparr>)) = Inr response"
  then obtain t1 where "pool_request alib ''GET'' ''/heartbeat'' None
           (t\<lparr>a_connection_pool := Some (ensure_session pool)\<rparr>) = (Inr response, t1)"
    by (metis prod.collapse)
  then show "fst (a_health_check alib t) = Inr (dict_get response ''status'' = Inr (JStr ''ok''))"
    using a by (auto simp: a_health_check_def a_health_probe_def try_except_def with_pool_def
        seq_def return_def split: sum.splits)
next
  show "\<exists>h. fst (health_check lib mv s) = Inr h"
    by (auto simp: health_check_def split: prod.splits sum.splits)
next
  assume "fst (health_probe lib mv s) = Inl e"
  then show "fst (health_check lib mv s) =
        Inr (Unhealthy (str e) (state_value (cb_state (circuit_breaker (snd (health_probe lib mv s))))))"
    by (auto simp: health_check_def split: prod.splits sum.splits)
next
  assume "get_connection (HttpClient lib) (connection_pool s) (chroma_host s) (chroma_port s) (world s)
      = (Inl e, p1, w1)"
  then show "fst (health_probe lib mv s) = Inl e"
    by (simp add: health_probe_def with_connection_def)
next
  assume "get_connection (HttpClient lib) (connection_pool s) (chroma_host s) (chroma_port s) (world s)
      = (Inr c, p1, w1) \<and> heartbeat lib c w1 = (Inl e, w2)"
  then show "fst (health_probe lib mv s) = Inl e"
    by (simp add: health_probe_def with_connection_def lib_call_def)
next
  assume "get_connection (HttpClient lib) (connection_pool s) (chroma_host s) (chroma_port s) (world s)
      = (Inr c, p1, w1) \<and> heartbeat lib c w1 = (Inr (), w2) \<and>
    list_collections lib c w2 = (Inr cols, w3) \<and> mv (metrics s) = Inr m"
  then show "fst (health_check lib mv s) =
        Inr (Healthy ((clock w2 - clock w1) * 1000) (length cols)
               (state_value (cb_state (circuit_breaker s))) (length (connections p1)) m)"
    by (simp add: health_check_def health_probe_def with_connection_def lib_call_def)
next
  assume "get_connection (HttpClient lib) (connection_pool s) (chroma_host s) (chroma_port s) (world s)
      = (Inr c, p1, w1) \<and> heartbeat lib c w1 = (Inr (), w2) \<and>
    list_collections lib c w2 = (Inl e, w3)"
  then show "fst (health_probe lib mv s) = Inl e"
    by (simp add: health_probe_def with_connection_def lib_call_def)
next
  assume "get_connection (HttpClient lib) (connection_pool s) (chroma_host s) (chroma_port s) (world s)
      = (Inr c, p1, w1) \<and> heartbeat lib c w1 = (Inr (), w2) \<and>
    list_collections lib c w2 = (Inr cols, w3) \<and> mv (metrics s) = Inl e"
  then show "fst (health_probe lib mv s) = Inl e"
    by (simp add: health_probe_def with_connection_def lib_call_def)
qed


theorem health_check_never_raises_witness:
  "fst (a_health_check scripted (a_manager three_timeouts)) = Inr False \<and>
   fst (a_health_check scripted (a_manager [ok_response])) = Inr True \<and>
   fst (health_check service_down no_metrics sync0) = Inr (Unhealthy ''service down'' ''closed'') \<and>
   fst (health_probe service_unresponsive no_metrics sync0) = Inl (Exception ''service down'') \<and>
   fst (health_check service_up no_metrics sync0) = Inr (Healthy 0 0 ''closed'' 1 ()) \<and>
   fst (health_probe service_degraded no_metrics sync0) = Inl (Exception ''service down'') \<and>
   fst (health_probe service_up failing_metrics sync0) = Inl (Exception ''no data points'')"
proof -
  let ?t = "a_manager three_timeouts"
  let ?u = "a_manager [ok_response]"
  let ?e = "Exception ''timeout''"
  let ?d = "Exception ''service down''"
  let ?ok = "JDict [(''status'', JStr ''ok'')]"
  have h3: "a_connection_pool ?t = Some pool0 \<and>
    fst (pool_request scripted ''GET'' ''/heartbeat'' None
           (?t\<lparr>a_connection_pool := Some (ensure_session pool0)\<rparr>)) = Inl ?e"
    by (simp add: a_manager_def eval_async)
  have h4: "a_connection_pool ?u = Some pool0 \<and>
    fst (pool_request scripted ''GET'' ''/heartbeat'' None
           (?u\<lparr>a_connection_pool := Some (ensure_session pool0)\<rparr>)) = Inr ?ok"
    by (simp add: a_manager_def eval_async ok_response_def async_record_success_def)
  have h6: "fst (health_probe service_down no_metrics sync0) = Inl ?d"
    by (simp add: health_probe_def eval_sync)
  have st: "state_value (cb_state (circuit_breaker (snd (health_probe service_down no_metrics sync0))))
      = ''closed''"
    by (simp add: health_probe_def eval_sync)
  have h8: "get_connection (HttpClient service_unresponsive) (connection_pool sync0)
        (chroma_host sync0) (chroma_port sync0) (world sync0)
      = (Inr 0, (connection_pool sync0)\<lparr>connections :=
            [\<lparr>client = 0, host = ''db'', port = 8000, in_use = True, created = 0, last_used = 0\<rparr>]\<rparr>,
         world0\<lparr>remote := 1\<rparr>) \<and>
     heartbeat service_unresponsive 0 (world0\<lparr>remote := 1\<rparr>) = (Inl ?d, world0\<lparr>remote := 1\<rparr>)"
    by (simp add: service_unresponsive_def eval_sync)
  have h9: "get_connection (HttpClient service_up) (connection_pool sync0)
        (chroma_host sync0) (chroma_port sync0) (world sync0)
      = (Inr 0, (connection_pool sync0)\<lparr>connections :=
            [\<lparr>client = 0, host = ''db'', port = 8000, in_use = True, created = 0, last_used = 0\<rparr>]\<rparr>,
         world0\<lparr>remote := 1\<rparr>) \<and>
     heartbeat service_up 0 (world0\<lparr>remote := 1\<rparr>) = (Inr (), world0\<lparr>remote := 1\<rparr>) \<and>
     list_collections service_up 0 (world0\<lparr>remote := 1\<rparr>) = (Inr [], world0\<lparr>remote := 1\<rparr>) \<and>
     no_metrics (metrics sync0) = Inr ()"
    by (simp add: service_up_def no_metrics_def eval_sync)
  note c3 = health_check_never_raises [where alib = scripted and t = ?t and pool = pool0 and e = ?e,
      THEN conjunct2, THEN conjunct2, THEN conjunct1, THEN mp, OF h3]
  note c4 = health_check_never_raises [where alib = scripted and t = ?u and pool = pool0
      and response = ?ok,
      THEN conjunct2, THEN conjunct2, THEN conjunct2, THEN conjunct1, THEN mp, OF h4]
  note c6 = health_check_never_raises [where lib = service_down and mv = no_metrics and s = sync0
      and e = ?d,
      THEN conjunct2, THEN conjunct2, THEN conjunct2, THEN conjunct2, THEN conjunct2,
      THEN conjunct1, THEN mp, OF h6]
  note c8 = health_check_never_raises [where lib = service_unresponsive and mv = no_metrics
      and s = sync0 and e = ?d,
      THEN conjunct2, THEN conjunct2, THEN conjunct2, THEN conjunct2, THEN conjunct2,
      THEN conjunct2, THEN conjunct2, THEN conjunct1, THEN mp, OF h8]
  have h10: "get_connection (HttpClient service_degraded) (connection_pool sync0)
        (chroma_host sync0) (chroma_port sync0) (world sync0)
      = (Inr 0, (connection_pool sync0)\<lparr>connections :=
            [\<lparr>client = 0, host = ''db'', port = 8000, in_use = True, created = 0, last_used = 0\<rparr>]\<rparr>,
         world0\<lparr>remote := 1\<rparr>) \<and>
     heartbeat service_degraded 0 (world0\<lparr>remote := 1\<rparr>) = (Inr (), world0\<lparr>remote := 1\<rparr>) \<and>
     list_collections service_degraded 0 (world0\<lparr>remote := 1\<rparr>)
       = (Inl ?d, world0\<lparr>remote := 1\<rparr>)"
    by (simp add: service_degraded_def eval_sync)
  have h11: "get_connection (HttpClient service_up) (connection_pool sync0)
        (chroma_host sync0) (chroma_port sync0) (world sync0)
      = (Inr 0, (connection_pool sync0)\<lparr>connections :=
            [\<lparr>client = 0, host = ''db'', port = 8000, in_use = True, created = 0, last_used = 0\<rparr>]\<rparr>,
         world0\<lparr>remote := 1\<rparr>) \<and>
     heartbeat service_up 0 (world0\<lparr>remote := 1\<rparr>) = (Inr (), world0\<lparr>remote := 1\<rparr>) \<and>
     list_collections service_up 0 (world0\<lparr>remote := 1\<rparr>) = (Inr [], world0\<lparr>remote := 1\<rparr>) \<and>
     failing_metrics (metrics sync0) = Inl (Exception ''no data points'')"
    by (simp add: service_up_def failing_metrics_def eval_sync)
  note c9 = health_check_never_raises [where lib = service_up and mv = no_metrics and s = sync0,
      THEN conjunct2, THEN conjunct2, THEN conjunct2, THEN conjunct2, THEN conjunct2,
      THEN conjunct2, THEN conjunct2, THEN conjunct2, THEN conjunct1, THEN mp, OF h9]
  note c10 = health_check_never_raises [where lib = service_degraded and mv = no_metrics
      and s = sync0 and e = ?d,
      THEN conjunct2, THEN conjunct2, THEN conjunct2, THEN conjunct2, THEN conjunct2,
      THEN conjunct2, THEN conjunct2, THEN conjunct2, THEN conjunct2, THEN conjunct1,
      THEN mp, OF h10]
  note c11 = health_check_never_raises [where lib = service_up and mv = failing_metrics
      and s = sync0 and e = "Exception ''no data points''",
      THEN conjunct2, THEN conjunct2, THEN conjunct2, THEN conjunct2, THEN conjunct2,
      THEN conjunct2, THEN conjunct2, THEN conjunct2, THEN conjunct2, THEN conjunct2,
      THEN mp, OF h11]
  show ?thesis
    using c3 c4 c6 c8 c9 c10 c11 st
    by (simp add: sync0_def ProductionRAGManager_init_def CircuitBreaker_init_def world0_def)
qed

section \<open>Batches\<close>

lemma make_tasks_filter:
  "list_all (\<lambda>operation. recognised operation \<longrightarrow> well_formed operation) ops \<Longrightarrow>
     make_tasks lib ops = Inr (map (dispatch lib) (filter recognised ops))"
proof (induction ops)
  case Nil
  then show ?case by simp
next
  case (Cons operation rest)
  then have IH: "make_tasks lib rest = Inr (map (dispatch lib) (filter recognised rest))"
    by simp
  have wf: "recognised operation \<longrightarrow> well_formed operation" using Cons.prems by simp
  show ?case
  proof (cases "recognised operation")
    case False
    then have "op_type operation \<noteq> Some ''search''" "op_type operation \<noteq> Some ''add''"
      "op_type operation \<noteq> Some ''get_info''"
      by (simp_all add: recognised_def)
    then show ?thesis using False by (simp add: IH)
  next
    case True
    then have "well_formed operation" using wf by simp
    then have "make_tasks lib (operation # rest) =
        Inr (dispatch lib operation # map (dispatch lib) (filter recognised rest))"
      by (auto simp: IH well_formed_def dispatch_def Let_def
          split: option.splits op_params.splits)
    then show ?thesis using True by simp
  qed
qed

lemma one_after_another_length: "length (fst (one_after_another ts s)) = length ts"
proof (induction ts arbitrary: s)
  case Nil
  then show ?case by simp
next
  case (Cons t ts)
  obtain r s1 where t: "t s = (r, s1)" by (metis surj_pair)
  obtain rs s2 where g: "one_after_another ts s1 = (rs, s2)" by (metis surj_pair)
  show ?case using Cons.IH [of s1] by (simp add: t g)
qed

lemmas eval_facade =
  batch_operations_def a_get_collection_info_def try_except_def with_pool_def seq_def return_def
  on_cache_def cache_get_def cache_set_def a_manager_def default_cache_config_def
  bump_success_def bump_misses_def bump_failed_def update_metrics_def Metrics_init_def
  processed_def close_def ok_response_def async_record_success_def

text \<open>
  Claim C8, as stated, fails for a list that holds an operation of a type other than
  \<open>search\<close>, \<open>add\<close> and \<open>get_info\<close>: the loop that builds the coroutines skips it
  (\<open>continue\<close>), so the result has no entry for it and the results of the operations
  after it move up. Two operations, the first of type \<open>delete\<close>, give one result, the
  one of the second operation, at index 0; one operation of type \<open>delete\<close> gives none.
  And an operation without \<open>params\<close> makes the loop raise \<open>KeyError\<close>: the call returns
  no list at all, whatever the other operations are.
\<close>

theorem unknown_operation_is_skipped_counterexample:
  "fst (batch_operations one_after_another scripted [delete_op, get_info_op]
          (a_manager [ok_response]))
   = Inr [JDict [(''status'', JStr ''ok'')]] \<and>
   fst (batch_operations one_after_another scripted [delete_op] (a_manager [])) = Inr [] \<and>
   fst (batch_operations one_after_another scripted [get_info_op, add_without_params]
          (a_manager [ok_response])) = Inl (KeyError ''params'')"
  by (simp add: get_info_op_def delete_op_def add_without_params_def eval_facade eval_async)

text \<open>
  Claim C8, amended. Whatever the interleaving of the coroutines, that is for every
  \<open>gather\<close> that yields one outcome per coroutine: for a list of well-formed operations
  the call returns the processed outcomes of the coroutines of the operations, so the
  list has exactly one entry per operation, and the entry at index \<open>i\<close> is the outcome
  of operation \<open>i\<close>: the value it returned, or the dictionary \<open>{'error': str(e)}\<close> when
  it raised \<open>e\<close>. The entries of the other operations are not affected by that
  exception: every entry is the outcome of its own operation, and had an operation
  raised \<open>e\<close> in place of its outcome, only the entry at its own index would differ. When every recognised operation is well formed, the result
  has one entry per recognised operation, in their order; operations of other types
  contribute no entry.
\<close>

theorem batch_results_positional:
  "(one_outcome_per_task gather \<and> list_all well_formed ops \<longrightarrow>
      fst (batch_operations gather lib ops t) =
        Inr (map processed (fst (gather (map (dispatch lib) ops) t))) \<and>
      length (map processed (fst (gather (map (dispatch lib) ops) t))) = length ops \<and>
      (\<forall>j<length ops.
         map processed (fst (gather (map (dispatch lib) ops) t)) ! j =
           (case fst (gather (map (dispatch lib) ops) t) ! j of
              Inl e \<Rightarrow> JDict [(''error'', JStr (str e))]
            | Inr v \<Rightarrow> v))) \<and>
   map processed (outcomes[i := Inl e]) =
     (map processed outcomes)[i := JDict [(''error'', JStr (str e))]] \<and>
   (one_outcome_per_task gather \<and>
    list_all (\<lambda>operation. recognised operation \<longrightarrow> well_formed operation) ops \<longrightarrow>
      (\<exists>results t'. batch_operations gather lib ops t = (Inr results, t') \<and>
         length results = length (filter recognised ops)))"
proof (intro conjI impI allI)
  assume a: "one_outcome_per_task gather \<and> list_all well_formed ops"
  then have wf: "list_all well_formed ops" and len: "\<And>ts s. length (fst (gather ts s)) = length ts"
    by (simp_all add: one_outcome_per_task_def)
  have rec: "filter recognised ops = ops"
    using wf
    by (induction ops)
       (auto simp: well_formed_def recognised_def split: option.splits op_params.splits)
  have "list_all (\<lambda>operation. recognised operation \<longrightarrow> well_formed operation) ops"
    using wf by (simp add: list_all_iff)
  then have mk: "make_tasks lib ops = Inr (map (dispatch lib) ops)"
    using make_tasks_filter [of ops lib] rec by simp
  show "fst (batch_operations gather lib ops t) =
        Inr (map processed (fst (gather (map (dispatch lib) ops) t)))"
    by (simp add: batch_operations_def mk split: prod.splits)
  show "length (map processed (fst (gather (map (dispatch lib) ops) t))) = length ops"
    by (simp add: len)
  fix j
  assume "j < length ops"
  then show "map processed (fst (gather (map (dispatch lib) ops) t)) ! j =
           (case fst (gather (map (dispatch lib) ops) t) ! j of
              Inl e \<Rightarrow> JDict [(''error'', JStr (str e))]
            | Inr v \<Rightarrow> v)"
    by (simp add: len processed_def)
next
  show "map processed (outcomes[i := Inl e]) =
     (map processed outcomes)[i := JDict [(''error'', JStr (str e))]]"
    by (simp add: map_update processed_def)
next
  assume a: "one_outcome_per_task gather \<and>
    list_all (\<lambda>operation. recognised operation \<longrightarrow> well_formed operation) ops"
  then have mk: "make_tasks lib ops = Inr (map (dispatch lib) (filter recognised ops))"
    using make_tasks_filter by blast
  have len: "\<And>ts s. length (fst (gather ts s)) = length ts"
    using a by (simp add: one_outcome_per_task_def)
  let ?g = "gather (map (dispatch lib) (filter recognised ops)) t"
  have "batch_operations gather lib ops t = (Inr (map processed (fst ?g)), snd ?g)"
    by (simp add: batch_operations_def mk split: prod.splits)
  then show "\<exists>results t'. batch_operations gather lib ops t = (Inr results, t') \<and>
         length results = length (filter recognised ops)"
    by (simp add: len)
qed

theorem batch_results_positional_witness:
  "fst (batch_operations one_after_another by_url [get_info_op, get_missing_op, get_info_op]
          (a_manager []))
   = Inr [JDict [(''status'', JStr ''ok'')], JDict [(''error'', JStr ''timeout'')],
          JDict [(''status'', JStr ''ok'')]] \<and>
   length (map processed
             (fst (one_after_another
                     (map (dispatch by_url) [get_info_op, get_missing_op, get_info_op])
                     (a_manager [])))) = 3 \<and>
   map processed
     (fst (one_after_another (map (dispatch by_url) [get_info_op, get_missing_op, get_info_op])
             (a_manager []))) ! 1
   = JDict [(''error'', JStr ''timeout'')] \<and>
   (\<exists>results t'.
      batch_operations one_after_another scripted [get_info_op, delete_op, get_info_op]
        (a_manager [ok_response, ok_response]) = (Inr results, t') \<and>
      length results = 2)"
proof -
  let ?ops = "[get_info_op, get_missing_op, get_info_op]"
  let ?t = "a_manager [] :: (exn + response) list AsyncProductionRAGManager"
  let ?outs = "fst (one_after_another (map (dispatch by_url) ?ops) ?t)"
  have g: "one_outcome_per_task
             (one_after_another ::
                ((exn + response) list AsyncProductionRAGManager \<Rightarrow> _) list \<Rightarrow> _)"
    by (simp add: one_outcome_per_task_def one_after_another_length)
  have wf: "list_all well_formed ?ops"
    by (simp add: well_formed_def get_info_op_def get_missing_op_def)
  have wf2: "list_all (\<lambda>operation. recognised operation \<longrightarrow> well_formed operation)
               [get_info_op, delete_op, get_info_op]"
    by (simp add: well_formed_def recognised_def get_info_op_def delete_op_def)
  have f: "filter recognised [get_info_op, delete_op, get_info_op] = [get_info_op, get_info_op]"
    by (simp add: recognised_def get_info_op_def delete_op_def)
  have outs: "?outs = [Inr (JDict [(''status'', JStr ''ok'')]), Inl (Exception ''timeout''),
                        Inr (JDict [(''status'', JStr ''ok'')])]"
    by (simp add: dispatch_def get_info_op_def get_missing_op_def by_url_def eval_facade
        request_def pool_request_def pool0_def AsyncConnectionPool_init_def default_config_def
        AsyncCircuitBreaker_init_def check_state_def script_world_def upt3 send_def
        ensure_session_def async_record_failure_def asyncio_sleep_def Let_def)
  note cA = batch_results_positional [where gather = one_after_another and ops = ?ops
        and lib = by_url and t = ?t, THEN conjunct1, THEN mp, OF conjI [OF g wf]]
  note cB = batch_results_positional [where gather = one_after_another
        and ops = "[get_info_op, delete_op, get_info_op]" and lib = scripted
        and t = "a_manager [ok_response, ok_response]",
        THEN conjunct2, THEN conjunct2, THEN mp, OF conjI [OF g wf2]]
  have a1: "fst (batch_operations one_after_another by_url ?ops ?t)
      = Inr [JDict [(''status'', JStr ''ok'')], JDict [(''error'', JStr ''timeout'')],
             JDict [(''status'', JStr ''ok'')]]"
    unfolding cA [THEN conjunct1] outs by (simp add: processed_def)
  have a2: "length (map processed ?outs) = 3"
    using cA [THEN conjunct2, THEN conjunct1] by simp
  have "(1::nat) < length ?ops" by simp
  then have "map processed ?outs ! 1 =
      (case ?outs ! 1 of Inl e \<Rightarrow> JDict [(''error'', JStr (str e))] | Inr v \<Rightarrow> v)"
    using cA [THEN conjunct2, THEN conjunct2] by blast
  then have a3: "map processed ?outs ! 1 = JDict [(''error'', JStr ''timeout'')]"
    unfolding outs by simp
  from cB obtain results2 t2 where
    "batch_operations one_after_another scripted [get_info_op, delete_op, get_info_op]
        (a_manager [ok_response, ok_response]) = (Inr results2, t2)"
    "length results2 = length (filter recognised [get_info_op, delete_op, get_info_op])"
    by blast
  then have b: "\<exists>results t'.
      batch_operations one_after_another scripted [get_info_op, delete_op, get_info_op]
        (a_manager [ok_response, ok_response]) = (Inr results, t') \<and>
      length results = 2"
    unfolding f by simp
  show ?thesis
    by (intro conjI) (rule a1 a2 a3 b)+
qed

section \<open>Further properties of the breakers\<close>

text \<open>
  The sync breaker keeps its invariant from the start through every admission check and
  every recorded outcome. On a breaker that satisfies it and is in HALF_OPEN, a recorded
  success gives CLOSED with the counter at 0 and a recorded failure gives OPEN; the same
  holds for a call through the breaker whose callable does not use the breaker itself.
  In the async breaker a success recorded in HALF_OPEN gives CLOSED with the counter at 0.
\<close>

theorem sync_trial_outcomes:
  "cb_inv (CircuitBreaker_init n t) \<and>
   (cb_inv b \<longrightarrow>
      cb_inv (snd (can_execute b now)) \<and> cb_inv (on_success b) \<and> cb_inv (on_failure b now)) \<and>
   (cb_inv b \<and> cb_state b = HALF_OPEN \<longrightarrow>
      cb_state (on_success b) = CLOSED \<and> cb_failure_count (on_success b) = 0 \<and>
      cb_state (on_failure b now) = OPEN) \<and>
   (cb_inv (circuit_breaker s) \<and> cb_state (circuit_breaker s) = HALF_OPEN \<and>
    leaves_breaker func \<and> call func s = (Inr v, s') \<longrightarrow>
      cb_state (circuit_breaker s') = CLOSED \<and> cb_failure_count (circuit_breaker s') = 0) \<and>
   (cb_inv (circuit_breaker s) \<and> cb_state (circuit_breaker s) = HALF_OPEN \<and>
    leaves_breaker func \<and> call func s = (Inl e, s') \<and>
    expected_exception (circuit_breaker s) e \<longrightarrow>
      cb_state (circuit_breaker s') = OPEN) \<and>
   (state ab = A_HALF_OPEN \<longrightarrow>
      state (async_record_success ab) = A_CLOSED \<and> failure_count (async_record_success ab) = 0)"
proof (intro conjI impI)
  assume a: "cb_inv (circuit_breaker s) \<and> cb_state (circuit_breaker s) = HALF_OPEN \<and>
    leaves_breaker func \<and> call func s = (Inr v, s')"
  then have c: "can_execute (circuit_breaker s) (clock (world s)) = (Inr True, circuit_breaker s)"
    by (simp add: can_execute_def)
  have same: "s\<lparr>circuit_breaker := circuit_breaker s\<rparr> = s" by simp
  obtain r s1 where f: "func s = (r, s1)" by (metis surj_pair)
  have b1: "circuit_breaker s1 = circuit_breaker s"
    using a f unfolding leaves_breaker_def by (metis snd_conv)
  have "s' = s1\<lparr>circuit_breaker := on_success (circuit_breaker s1)\<rparr>"
    using a by (auto simp: call_def c same f split: sum.splits if_splits)
  then show "cb_state (circuit_breaker s') = CLOSED" "cb_failure_count (circuit_breaker s') = 0"
    by (simp_all add: on_success_def)
next
  assume a: "cb_inv (circuit_breaker s) \<and> cb_state (circuit_breaker s) = HALF_OPEN \<and>
    leaves_breaker func \<and> call func s = (Inl e, s') \<and>
    expected_exception (circuit_breaker s) e"
  then have c: "can_execute (circuit_breaker s) (clock (world s)) = (Inr True, circuit_breaker s)"
    by (simp add: can_execute_def)
  have same: "s\<lparr>circuit_breaker := circuit_breaker s\<rparr> = s" by simp
  obtain r s1 where f: "func s = (r, s1)" by (metis surj_pair)
  have b1: "circuit_breaker s1 = circuit_breaker s"
    using a f unfolding leaves_breaker_def by (metis snd_conv)
  have "s' = s1\<lparr>circuit_breaker := on_failure (circuit_breaker s1) (clock (world s1))\<rparr>"
    using a b1 by (auto simp: call_def c same f split: sum.splits if_splits)
  moreover have "failure_threshold (circuit_breaker s) \<le> cb_failure_count (circuit_breaker s) + 1"
    using a by (auto simp: cb_inv_def)
  ultimately show "cb_state (circuit_breaker s') = OPEN"
    using b1 by (simp add: on_failure_def Let_def)
qed (auto simp: cb_inv_def CircuitBreaker_init_def can_execute_def on_success_def on_failure_def
      async_record_success_def Let_def split: ConnectionState.splits option.splits if_splits)

theorem sync_trial_outcomes_witness:
  "cb_state (on_success on_trial) = CLOSED \<and> cb_failure_count (on_success on_trial) = 0 \<and>
   cb_state (on_failure on_trial 70) = OPEN \<and>
   cb_state (circuit_breaker (snd (call (\<lambda>s. (Inr (), s)) trial_manager))) = CLOSED \<and>
   cb_state (circuit_breaker (snd (call always_timeout trial_manager))) = OPEN \<and>
   state (async_record_success a_on_trial) = A_CLOSED"
proof -
  have on_trial: "on_trial = \<lparr>failure_threshold = 1, recovery_timeout = 60,
      expected_exception = (\<lambda>e. True), cb_state = HALF_OPEN, cb_failure_count = 1,
      cb_last_failure_time = Some 0\<rparr>"
    by (simp add: on_trial_def tripped_def can_execute_def on_failure_def
        CircuitBreaker_init_def Let_def)
  have h1: "cb_inv on_trial \<and> cb_state on_trial = HALF_OPEN"
    by (simp add: on_trial cb_inv_def)
  have h2: "cb_inv (circuit_breaker trial_manager) \<and>
      cb_state (circuit_breaker trial_manager) = HALF_OPEN \<and>
      leaves_breaker (\<lambda>s :: unit ProductionRAGManager. (Inr () :: exn + unit, s)) \<and>
      call (\<lambda>s. (Inr (), s)) trial_manager =
        (Inr (), snd (call (\<lambda>s. (Inr (), s)) trial_manager))"
    by (simp add: trial_manager_def on_trial cb_inv_def leaves_breaker_def call_def
        can_execute_def)
  have h3: "cb_inv (circuit_breaker trial_manager) \<and>
      cb_state (circuit_breaker trial_manager) = HALF_OPEN \<and>
      leaves_breaker (always_timeout :: unit ProductionRAGManager \<Rightarrow> _) \<and>
      call always_timeout trial_manager =
        (Inl (Exception ''timeout''), snd (call always_timeout trial_manager)) \<and>
      expected_exception (circuit_breaker trial_manager) (Exception ''timeout'')"
    by (simp add: trial_manager_def on_trial cb_inv_def leaves_breaker_def call_def
        can_execute_def always_timeout_def)
  have h4: "state a_on_trial = A_HALF_OPEN"
    by (simp add: a_on_trial_def a_tripped_def check_state_def async_record_failure_def
        AsyncCircuitBreaker_init_def Let_def)
  note T = sync_trial_outcomes [where b = on_trial and now = 70 and s = trial_manager
      and ab = a_on_trial]
  note c3 = T [THEN conjunct2, THEN conjunct2, THEN conjunct1, THEN mp, OF h1]
  note c4 = T [where func = "\<lambda>s. (Inr (), s)" and v = "()"
      and s' = "snd (call (\<lambda>s. (Inr (), s)) trial_manager)",
      THEN conjunct2, THEN conjunct2, THEN conjunct2, THEN conjunct1, THEN mp, OF h2]
  note c5 = T [where func = always_timeout and e = "Exception ''timeout''"
      and s' = "snd (call always_timeout trial_manager)",
      THEN conjunct2, THEN conjunct2, THEN conjunct2, THEN conjunct2, THEN conjunct1, THEN mp, OF h3]
  note c6 = T [THEN conjunct2, THEN conjunct2, THEN conjunct2, THEN conjunct2, THEN conjunct2,
      THEN mp, OF h4]
  show ?thesis using c3 c4 c5 c6 by simp
qed

text \<open>
  A request of the async pool that finds the breaker OPEN within the timeout raises
  \<open>Exception("Circuit breaker is OPEN")\<close> at once: no transport call, no retry, no
  sleep; the pool and the environment are unchanged.
\<close>

theorem async_rejection_is_immediate:
  "state (breaker pool) = A_OPEN \<and> clock w - last_failure_time (breaker pool) \<le> timeout (breaker pool)
     \<longrightarrow> request lib meth endpoint kwargs (pool, w) = (Inl (Exception ''Circuit breaker is OPEN''), pool, w)"
  by (simp add: request_def check_state_def)

theorem async_rejection_is_immediate_witness:
  "request scripted ''GET'' ''/collections'' None (tripped_pool, script_world [ok_response])
     = (Inl (Exception ''Circuit breaker is OPEN''), tripped_pool, script_world [ok_response])"
proof -
  have "state (breaker tripped_pool) = A_OPEN \<and>
      clock (script_world [ok_response]) - last_failure_time (breaker tripped_pool)
        \<le> timeout (breaker tripped_pool)"
    by (simp add: tripped_pool_def a_tripped_def async_record_failure_def
        AsyncCircuitBreaker_init_def script_world_def Let_def)
  then show ?thesis
    using async_rejection_is_immediate [of tripped_pool "script_world [ok_response]" scripted
        "''GET''" "''/collections''" None]
    by simp
qed

section \<open>The attempt budget of the sync executor\<close>

lemma retry_loop_failures:
  assumes "quiet func" and "0 \<le> retry_backoff_factor s"
    and "n = nat (retry_attempts s)" and "k < n"
    and "retry_loop func [k..<n] lx s = (Inl e, s')"
  shows "failed_requests (metrics s') = failed_requests (metrics s) + int (n - k)"
  using assms(2-)
proof (induction "n - k" arbitrary: k s lx)
  case 0
  then show ?case by simp
next
  case (Suc m)
  have upt: "[k..<n] = k # [Suc k..<n]" using Suc.prems(3) by (simp add: upt_conv_Cons)
  obtain r s1 where c: "call func s = (r, s1)" by (metis surj_pair)
  have fr: "retry_attempts s1 = retry_attempts s" "retry_backoff_factor s1 = retry_backoff_factor s"
    "failed_requests (metrics s1) = failed_requests (metrics s)"
    using call_quiet [OF assms(1), of s] by (simp_all add: c)
  show ?case
  proof (cases r)
    case (Inr v)
    then show ?thesis using Suc.prems(4) by (simp add: upt c)
  next
    case (Inl e1)
    let ?s2 = "record_failure s1"
    have s2: "retry_attempts ?s2 = retry_attempts s" "retry_backoff_factor ?s2 = retry_backoff_factor s"
      "failed_requests (metrics ?s2) = failed_requests (metrics s) + 1"
      by (simp_all add: record_failure_def Let_def fr)
    show ?thesis
    proof (cases "int k < retry_attempts s - 1")
      case True
      then have k1: "Suc k < n" using Suc.prems(2) by linarith
      let ?d = "retry_backoff_factor s ^ k"
      let ?s3 = "?s2\<lparr>world := (world ?s2)\<lparr>clock := clock (world ?s2) + ?d,
                                              slept := slept (world ?s2) @ [?d]\<rparr>\<rparr>"
      have step: "retry_loop func [Suc k..<n] (Some e1) ?s3 = (Inl e, s')"
        using True Suc.prems(1) Suc.prems(4) by (simp add: upt c Inl s2 sleep_def Let_def)
      have s3: "retry_attempts ?s3 = retry_attempts s" "retry_backoff_factor ?s3 = retry_backoff_factor s"
        "failed_requests (metrics ?s3) = failed_requests (metrics s) + 1"
        by (simp_all add: s2)
      have m: "m = n - Suc k" using Suc.hyps(2) by simp
      have "failed_requests (metrics s') = failed_requests (metrics ?s3) + int (n - Suc k)"
        using Suc.hyps(1) [OF m _ _ k1 step] Suc.prems(1,2) s3 by simp
      then show ?thesis using s3 k1 by simp
    next
      case False
      then have last: "Suc k = n" using Suc.prems(2,3) by linarith
      then have rest: "[Suc k..<n] = []" by simp
      have "s' = ?s2"
        using False Suc.prems(4) by (simp add: upt rest c Inl s2 Let_def)
      then show ?thesis using s2 last by simp
    qed
  qed
qed

text \<open>
  When \<open>_retry_with_backoff\<close> raises (at least one attempt, factor not negative,
  callable that does not re-enter the executor), every attempt of the budget was made and
  failed: \<open>retry_attempts\<close> failed requests were recorded. The loop retries whatever
  was raised, a transport error, an exhausted pool or a rejection by the breaker alike.
\<close>

theorem failures_consume_budget:
  "quiet func \<and> 0 \<le> retry_backoff_factor s \<and> 1 \<le> retry_attempts s \<and>
   retry_with_backoff func s = (Inl e, s') \<longrightarrow>
     failed_requests (metrics s') = failed_requests (metrics s) + retry_attempts s"
proof
  assume a: "quiet func \<and> 0 \<le> retry_backoff_factor s \<and> 1 \<le> retry_attempts s \<and>
   retry_with_backoff func s = (Inl e, s')"
  then have "0 < nat (retry_attempts s)" by simp
  then show "failed_requests (metrics s') = failed_requests (metrics s) + retry_attempts s"
    using retry_loop_failures [of func s "nat (retry_attempts s)" 0 None e s'] a
    by (simp add: retry_with_backoff_def)
qed

theorem failures_consume_budget_witness:
  "failed_requests (metrics (snd (retry_with_backoff always_timeout fresh_manager))) = 3"
proof -
  have r: "fst (retry_with_backoff always_timeout fresh_manager) = Inl (Exception ''timeout'')"
    by (simp add: retry_with_backoff_def fresh_manager_def ProductionRAGManager_init_def
      example_world_def CircuitBreaker_init_def Let_def upt3 always_timeout_def on_failure_def
      call_def can_execute_def record_failure_def sleep_def ConnectionMetrics_init_def)
  have h: "quiet (always_timeout :: unit ProductionRAGManager \<Rightarrow> _) \<and>
      0 \<le> retry_backoff_factor fresh_manager \<and> 1 \<le> retry_attempts fresh_manager \<and>
      retry_with_backoff always_timeout fresh_manager =
        (Inl (Exception ''timeout''), snd (retry_with_backoff always_timeout fresh_manager))"
    using r quiet_always_timeout
    by (simp add: fresh_manager_def ProductionRAGManager_init_def prod_eq_iff)
  show ?thesis
    using failures_consume_budget [THEN mp, OF h]
    by (simp add: fresh_manager_def ProductionRAGManager_init_def ConnectionMetrics_init_def)
qed


end
